theory Spec2Isabelle
  imports Main
begin

section \<open>JavaScript values\<close>

text \<open>
  The values that cross the tool interface are the results of \<^verbatim>\<open>JSON.parse\<close>, plus
  \<^verbatim>\<open>undefined\<close>. An object is the list of its own enumerable properties in the order
  \<^verbatim>\<open>Object.entries\<close> reports them. Strings are lists of code units below 256, numbers are
  integers.
\<close>

datatype json =
    JNull
  | JUndefined
  | JBool bool
  | JNum int
  | JStr string
  | JArr "json list"
  | JObj "(string \<times> json) list"

text \<open>What a \<^verbatim>\<open>throw\<close> carries: an \<^verbatim>\<open>Error\<close> with its message, a \<^verbatim>\<open>TypeError\<close> raised by the
  engine, a \<^verbatim>\<open>ZodError\<close> with its issue objects, or any other value.\<close>

datatype exn =
    Error string
  | TypeError string
  | ZodError "json list"
  | Thrown json

section \<open>src/utils/cache.ts\<close>

record CacheEntry =
  data :: json
  timestamp :: int
  ttl :: int

type_synonym Cache = "string \<rightharpoonup> CacheEntry"

definition defaultTTL :: int where
  "defaultTTL = 300000"

text \<open>\<^verbatim>\<open>ttl || this.defaultTTL\<close>: an omitted or zero \<^verbatim>\<open>ttl\<close> is falsy.\<close>

definition ttl_or_default :: "int option \<Rightarrow> int" where
  "ttl_or_default t = (case t of None \<Rightarrow> defaultTTL | Some n \<Rightarrow> if n = 0 then defaultTTL else n)"

text \<open>\<^verbatim>\<open>Cache.set\<close>; \<open>now\<close> is the value of \<^verbatim>\<open>Date.now()\<close>.\<close>

definition cache_set :: "int \<Rightarrow> Cache \<Rightarrow> string \<Rightarrow> json \<Rightarrow> int option \<Rightarrow> Cache" where
  "cache_set now c key d t =
     c(key \<mapsto> \<lparr>data = d, timestamp = now, ttl = ttl_or_default t\<rparr>)"

text \<open>\<^verbatim>\<open>Cache.get\<close> returns the value and the cache it leaves; absent is \<^verbatim>\<open>null\<close>.\<close>

definition cache_get :: "int \<Rightarrow> Cache \<Rightarrow> string \<Rightarrow> json \<times> Cache" where
  "cache_get now c key =
     (case c key of
        None \<Rightarrow> (JNull, c)
      | Some entry \<Rightarrow>
          if now - timestamp entry > ttl entry then (JNull, c(key := None))
          else (data entry, c))"

section \<open>src/utils/circuit-breaker.ts\<close>

datatype breaker_state = CLOSED | OPEN | HALF_OPEN

record CircuitBreaker =
  failures :: int
  lastFailTime :: int
  state :: breaker_state
  failureThreshold :: int
  timeout :: int
  monitoringPeriod :: int

definition new_CircuitBreaker :: "int \<Rightarrow> int \<Rightarrow> int \<Rightarrow> CircuitBreaker" where
  "new_CircuitBreaker thr tmo mon =
     \<lparr>failures = 0, lastFailTime = 0, state = CLOSED,
      failureThreshold = thr, timeout = tmo, monitoringPeriod = mon\<rparr>"

definition circuit_open_error :: exn where
  "circuit_open_error = Error ''Circuit breaker is OPEN''"

text \<open>
  \<^verbatim>\<open>execute\<close> is an \<^verbatim>\<open>async\<close> function with one \<^verbatim>\<open>await\<close>. A call runs the gate and, when
  the gate lets it through, invokes the operation; it is then suspended until the promise of
  the operation settles, and goes on with \<^verbatim>\<open>onSuccess\<close> or \<^verbatim>\<open>onFailure\<close> on the breaker
  as it is at that moment. Each of these parts runs without interruption, \<open>now\<close> being what
  \<^verbatim>\<open>Date.now()\<close> returns in it.
\<close>

definition execute_gate :: "int \<Rightarrow> CircuitBreaker \<Rightarrow> exn + CircuitBreaker" where
  "execute_gate now b =
     (if state b = OPEN then
        (if now - lastFailTime b < timeout b then Inl circuit_open_error
         else Inr (b\<lparr>state := HALF_OPEN\<rparr>))
      else Inr b)"

definition onSuccess :: "CircuitBreaker \<Rightarrow> CircuitBreaker" where
  "onSuccess b =
     (let b1 = b\<lparr>failures := 0\<rparr>
      in if state b1 = HALF_OPEN then b1\<lparr>state := CLOSED\<rparr> else b1)"

definition onFailure :: "int \<Rightarrow> CircuitBreaker \<Rightarrow> CircuitBreaker" where
  "onFailure now b =
     (let b1 = b\<lparr>failures := failures b + 1, lastFailTime := now\<rparr>
      in if failures b1 \<ge> failureThreshold b1 then b1\<lparr>state := OPEN\<rparr> else b1)"

subsection \<open>Calls that overlap\<close>

text \<open>
  Between the two parts of one call, parts of other calls on the same breaker can run. An
  event is one part: call \<open>k\<close> of \<^verbatim>\<open>execute\<close> is made at time \<open>t\<close>; the operation of call
  \<open>k\<close> resolves; the operation of call \<open>k\<close> rejects at time \<open>t\<close>. (An operation that throws
  before it returns a promise is a call followed at once by its rejection.) Beside the
  breaker, a run keeps the calls that are suspended at the \<^verbatim>\<open>await\<close>: those whose
  operation has been invoked and has not settled.
\<close>

datatype event = Call nat int | Resolve nat | Reject nat int

record run =
  breaker :: CircuitBreaker
  awaiting :: "nat list"

definition start :: "CircuitBreaker \<Rightarrow> run" where
  "start b = \<lparr>breaker = b, awaiting = []\<rparr>"

text \<open>
  One event. A call that the gate refuses throws at once: it leaves the breaker as it is
  and does not get to the operation. Only a suspended call can settle.
\<close>

definition step :: "event \<Rightarrow> run \<Rightarrow> run option" where
  "step e s =
     (case e of
        Call k t \<Rightarrow>
          (case execute_gate t (breaker s) of
             Inl error \<Rightarrow> Some s
           | Inr b1 \<Rightarrow> Some (s\<lparr>breaker := b1, awaiting := k # awaiting s\<rparr>))
      | Resolve k \<Rightarrow>
          (if k \<in> set (awaiting s)
           then Some (s\<lparr>breaker := onSuccess (breaker s), awaiting := remove1 k (awaiting s)\<rparr>)
           else None)
      | Reject k t \<Rightarrow>
          (if k \<in> set (awaiting s)
           then Some (s\<lparr>breaker := onFailure t (breaker s), awaiting := remove1 k (awaiting s)\<rparr>)
           else None))"

fun run_events :: "event list \<Rightarrow> run \<Rightarrow> run option" where
  "run_events [] s = Some s"
| "run_events (e # es) s = (case step e s of None \<Rightarrow> None | Some s' \<Rightarrow> run_events es s')"

definition is_Resolve :: "event \<Rightarrow> bool" where
  "is_Resolve e = (case e of Resolve k \<Rightarrow> True | _ \<Rightarrow> False)"

definition is_Reject :: "event \<Rightarrow> bool" where
  "is_Reject e = (case e of Reject k t \<Rightarrow> True | _ \<Rightarrow> False)"

text \<open>Whether, in a run, some operation resolves at a moment when the state is OPEN.\<close>

fun resolves_while_open :: "event list \<Rightarrow> run \<Rightarrow> bool" where
  "resolves_while_open [] s = False"
| "resolves_while_open (e # es) s =
     (case step e s of
        None \<Rightarrow> False
      | Some s' \<Rightarrow> (is_Resolve e \<and> state (breaker s) = OPEN) \<or> resolves_while_open es s')"

text \<open>
  The breakers that arise from a constructed one as calls are made and settle in any order.
  (A constructed breaker is CLOSED and lets any number of calls through to the
  \<^verbatim>\<open>await\<close>, so at every later moment there can be a call to settle.)
\<close>

inductive reachable :: "CircuitBreaker \<Rightarrow> bool" where
  constructed: "reachable (new_CircuitBreaker thr tmo mon)"
| called: "reachable b \<Longrightarrow> execute_gate now b = Inr b1 \<Longrightarrow> reachable b1"
| resolved: "reachable b \<Longrightarrow> reachable (onSuccess b)"
| rejected: "reachable b \<Longrightarrow> reachable (onFailure now b)"

text \<open>
  What holds of a breaker as long as no operation has resolved while the state was OPEN.
\<close>

definition breaker_inv :: "CircuitBreaker \<Rightarrow> bool" where
  "breaker_inv b \<longleftrightarrow>
     0 \<le> failures b \<and> (state b \<noteq> CLOSED \<longrightarrow> failureThreshold b \<le> failures b)"

subsection \<open>Calls that do not overlap\<close>

text \<open>
  The wrapped operation runs against the world outside the breaker: the clock and whatever
  state \<open>'s\<close> the operation keeps (a call counter, a remote service). It settles with a value
  or with what it threw, and leaves the world changed. \<^verbatim>\<open>Date.now()\<close> reads the clock.
\<close>

datatype 'a settled = Resolved 'a | Rejected exn

type_synonym 's world = "int \<times> 's"

type_synonym ('a, 's) operation = "'s world \<Rightarrow> 'a settled \<times> 's world"

definition Date_now :: "'s world \<Rightarrow> int" where
  "Date_now w = fst w"

text \<open>
  One call of \<^verbatim>\<open>execute\<close> from the gate to its return, when no part of another call on the
  breaker runs while it is suspended: the events \<open>Call\<close> and \<open>Resolve\<close> or \<open>Reject\<close> of this
  call, one right after the other. The result is what the caller gets (\<open>Inl\<close>: the exception
  thrown), the breaker and the world afterwards.
\<close>

definition execute ::
  "CircuitBreaker \<Rightarrow> ('a, 's) operation \<Rightarrow> 's world \<Rightarrow> (exn + 'a) \<times> CircuitBreaker \<times> 's world" where
  "execute b operation w =
     (case execute_gate (Date_now w) b of
        Inl e \<Rightarrow> (Inl e, b, w)
      | Inr b1 \<Rightarrow>
          (case operation w of
             (Resolved result, w') \<Rightarrow> (Inr result, onSuccess b1, w')
           | (Rejected error, w') \<Rightarrow> (Inl error, onFailure (Date_now w') b1, w')))"

text \<open>A sequence of such calls, each awaited before the next is made; the results are dropped.\<close>

fun execute_all ::
  "CircuitBreaker \<Rightarrow> ('a, 's) operation list \<Rightarrow> 's world \<Rightarrow> CircuitBreaker \<times> 's world" where
  "execute_all b [] w = (b, w)"
| "execute_all b (operation # rest) w =
     (case execute b operation w of (r, b', w') \<Rightarrow> execute_all b' rest w')"

definition always_rejects :: "('a, 's) operation \<Rightarrow> bool" where
  "always_rejects operation \<longleftrightarrow> (\<forall>w. \<exists>e w'. operation w = (Rejected e, w'))"

text \<open>An operation that counts its calls in the world and fails each time.\<close>

definition failing_counted :: "(unit, nat) operation" where
  "failing_counted w = (Rejected (Error ''boom''), (fst w, Suc (snd w)))"

section \<open>src/utils/validation.ts: sanitizeObject\<close>

text \<open>\<^verbatim>\<open>String.prototype.trim\<close> removes white space and line terminators at both ends; below
  256 these are the code units 9 to 13, 32 and 160.\<close>

definition is_whitespace :: "char \<Rightarrow> bool" where
  "is_whitespace c \<longleftrightarrow>
     c \<in> set [CHR 0x09, CHR 0x0A, CHR 0x0B, CHR 0x0C, CHR 0x0D, CHR 0x20, CHR 0xA0]"

definition trim :: "string \<Rightarrow> string" where
  "trim s = rev (dropWhile is_whitespace (rev (dropWhile is_whitespace s)))"

text \<open>
  \<^verbatim>\<open>sanitizeObject\<close> builds its result by assignments to a fresh \<^verbatim>\<open>{}\<close>, and an assignment
  to the key \<^verbatim>\<open>__proto__\<close> can replace the prototype of that object. So the values it
  returns, and takes when it is applied to its own result, are values whose objects carry
  their prototype: \<open>None\<close> for \<^verbatim>\<open>Object.prototype\<close>, which every object of \<^verbatim>\<open>JSON.parse\<close>
  and every \<^verbatim>\<open>{}\<close> has, or the value that has replaced it (an object, an array or
  \<^verbatim>\<open>null\<close>). The list of an object holds its own enumerable properties, each key once, in
  the order \<^verbatim>\<open>Object.entries\<close> reports them.
\<close>

datatype val =
    VNull
  | VUndefined
  | VBool bool
  | VNum int
  | VStr string
  | VArr "val list"
  | VObj "val option" "(string \<times> val) list"

text \<open>A JSON value as such a value.\<close>

fun of_json :: "json \<Rightarrow> val" where
  "of_json JNull = VNull"
| "of_json JUndefined = VUndefined"
| "of_json (JBool b) = VBool b"
| "of_json (JNum n) = VNum n"
| "of_json (JStr s) = VStr s"
| "of_json (JArr xs) = VArr (map of_json xs)"
| "of_json (JObj kvs) = VObj None (map (\<lambda>(key, v). (key, of_json v)) kvs)"

text \<open>Writing an own data property: it keeps its place and takes the value; a new key is
  added last.\<close>

fun set_property :: "(string \<times> 'a) list \<Rightarrow> string \<Rightarrow> 'a \<Rightarrow> (string \<times> 'a) list" where
  "set_property [] key v = [(key, v)]"
| "set_property ((k, old) # ps) key v =
     (if k = key then (k, v) # ps else (k, old) # set_property ps key v)"

text \<open>
  Whether an object with this prototype inherits the accessor \<^verbatim>\<open>__proto__\<close> of
  \<^verbatim>\<open>Object.prototype\<close>: the prototype chain reaches \<^verbatim>\<open>Object.prototype\<close> (it does from an
  array, through \<^verbatim>\<open>Array.prototype\<close>; it does not from \<^verbatim>\<open>null\<close>), and no object before it
  has an own property of that name.
\<close>

fun inherits_proto_setter :: "val option \<Rightarrow> bool" where
  "inherits_proto_setter None = True"
| "inherits_proto_setter (Some (VObj p kvs)) =
     (''__proto__'' \<notin> fst ` set kvs \<and> inherits_proto_setter p)"
| "inherits_proto_setter (Some (VArr xs)) = True"
| "inherits_proto_setter (Some v) = False"

definition is_object_or_null :: "val \<Rightarrow> bool" where
  "is_object_or_null v = (case v of VObj p kvs \<Rightarrow> True | VArr xs \<Rightarrow> True | VNull \<Rightarrow> True | _ \<Rightarrow> False)"

text \<open>
  \<^verbatim>\<open>sanitized[key] = value\<close>, on the object under construction: its prototype and its own
  properties. An own property takes the value. Otherwise the key \<^verbatim>\<open>__proto__\<close>, while the
  accessor is inherited, calls the setter: an object, an array or \<^verbatim>\<open>null\<close> becomes the
  prototype, any other value is ignored, and no own property is created. Every other
  inherited property is a writable data property, so the assignment creates an own
  property.
\<close>

definition assign ::
  "val option \<times> (string \<times> val) list \<Rightarrow> string \<Rightarrow> val \<Rightarrow> val option \<times> (string \<times> val) list" where
  "assign sanitized key v =
     (case sanitized of
        (proto, props) \<Rightarrow>
          if key \<in> fst ` set props then (proto, set_property props key v)
          else if key = ''__proto__'' \<and> inherits_proto_setter proto
          then (if is_object_or_null v then (Some v, props) else (proto, props))
          else (proto, set_property props key v))"

fun sanitizeObject :: "val \<Rightarrow> val" where
  "sanitizeObject VNull = VNull"
| "sanitizeObject VUndefined = VUndefined"
| "sanitizeObject (VStr s) = VStr (trim s)"
| "sanitizeObject (VArr xs) = VArr (map sanitizeObject xs)"
| "sanitizeObject (VObj p kvs) =
     (case foldl (\<lambda>sanitized (key, v). assign sanitized key (sanitizeObject v)) (None, []) kvs of
        (proto, props) \<Rightarrow> VObj proto props)"
| "sanitizeObject v = v"

text \<open>The body of the loop over \<^verbatim>\<open>Object.entries(obj)\<close>, and the own keys of a value.\<close>

definition sanitize_step ::
  "val option \<times> (string \<times> val) list \<Rightarrow> string \<times> val \<Rightarrow> val option \<times> (string \<times> val) list" where
  "sanitize_step = (\<lambda>sanitized (key, v). assign sanitized key (sanitizeObject v))"

definition keys_of :: "val \<Rightarrow> string list" where
  "keys_of v = (case v of VObj p kvs \<Rightarrow> map fst kvs | _ \<Rightarrow> [])"

text \<open>
  \<^verbatim>\<open>v[key]\<close> on such a value, for a key that is no property of an array and of no built-in
  prototype: the own property, else what the prototype has.
\<close>

fun read_property :: "val \<Rightarrow> string \<Rightarrow> val" where
  "read_property (VObj p kvs) key =
     (case map_of kvs key of
        Some v \<Rightarrow> v
      | None \<Rightarrow> (case p of None \<Rightarrow> VUndefined | Some q \<Rightarrow> read_property q key))"
| "read_property v key = VUndefined"

text \<open>
  The values in which no object has an own key \<^verbatim>\<open>__proto__\<close> that holds an object, an
  array or \<^verbatim>\<open>null\<close>.
\<close>

fun no_prototype_entry :: "val \<Rightarrow> bool" where
  "no_prototype_entry (VArr xs) = list_all no_prototype_entry xs"
| "no_prototype_entry (VObj p kvs) =
     list_all (\<lambda>(key, v). (key = ''__proto__'' \<longrightarrow> \<not> is_object_or_null v) \<and> no_prototype_entry v)
       kvs"
| "no_prototype_entry v = True"

section \<open>JavaScript operations used by the tools\<close>

text \<open>Truthiness, as \<^verbatim>\<open>if (v)\<close>, \<^verbatim>\<open>!v\<close> and \<^verbatim>\<open>v || w\<close> test it.\<close>

definition truthy :: "json \<Rightarrow> bool" where
  "truthy v =
     (case v of JNull \<Rightarrow> False | JUndefined \<Rightarrow> False | JBool b \<Rightarrow> b | JNum n \<Rightarrow> n \<noteq> 0
      | JStr s \<Rightarrow> s \<noteq> [] | JArr xs \<Rightarrow> True | JObj kvs \<Rightarrow> True)"

text \<open>
  \<^verbatim>\<open>v.key\<close> for a value other than \<^verbatim>\<open>null\<close> and \<^verbatim>\<open>undefined\<close> and a key that no prototype
  defines: the own property, or \<^verbatim>\<open>undefined\<close>. On \<^verbatim>\<open>null\<close> and \<^verbatim>\<open>undefined\<close> the engine
  throws a \<^verbatim>\<open>TypeError\<close> (the message is that of V8).
\<close>

definition field_of :: "json \<Rightarrow> string \<Rightarrow> json" where
  "field_of obj key =
     (case obj of
        JObj kvs \<Rightarrow> (case map_of kvs key of Some v \<Rightarrow> v | None \<Rightarrow> JUndefined)
      | _ \<Rightarrow> JUndefined)"

definition has_key :: "string \<Rightarrow> json \<Rightarrow> bool" where
  "has_key key obj = (case obj of JObj kvs \<Rightarrow> key \<in> set (map fst kvs) | _ \<Rightarrow> False)"

definition cannot_read :: "json \<Rightarrow> string \<Rightarrow> exn" where
  "cannot_read v key =
     TypeError (''Cannot read properties of '' @ (if v = JNull then ''null'' else ''undefined'')
                @ '' (reading '' @ [CHR 0x27] @ key @ [CHR 0x27] @ '')'')"

definition get_property :: "json \<Rightarrow> string \<Rightarrow> exn + json" where
  "get_property v key =
     (if v = JNull \<or> v = JUndefined then Inl (cannot_read v key) else Inr (field_of v key))"

text \<open>
  \<^verbatim>\<open>TABLE[key]\<close> on an object literal: the own property, else what \<^verbatim>\<open>Object.prototype\<close>
  has under that name, else \<^verbatim>\<open>undefined\<close>. The members of \<^verbatim>\<open>Object.prototype\<close> are
  functions (and the prototype itself, for \<^verbatim>\<open>__proto__\<close>): truthy, and without any of the
  properties the handlers read from a table entry; \<open>builtin\<close> stands for them.
\<close>

definition object_prototype_keys :: "string list" where
  "object_prototype_keys =
     [''constructor'', ''__defineGetter__'', ''__defineSetter__'', ''hasOwnProperty'',
      ''__lookupGetter__'', ''__lookupSetter__'', ''isPrototypeOf'', ''propertyIsEnumerable'',
      ''toString'', ''valueOf'', ''__proto__'', ''toLocaleString'']"

definition builtin :: json where
  "builtin = JObj []"

definition table_lookup :: "(string \<times> json) list \<Rightarrow> string \<Rightarrow> json" where
  "table_lookup tbl key =
     (case map_of tbl key of
        Some v \<Rightarrow> v
      | None \<Rightarrow> if key \<in> set object_prototype_keys then builtin else JUndefined)"

text \<open>The strings and string arrays the tables hold at fixed fields.\<close>

definition str_of :: "json \<Rightarrow> string" where
  "str_of v = (case v of JStr s \<Rightarrow> s | _ \<Rightarrow> [])"

definition strs_of :: "json \<Rightarrow> string list" where
  "strs_of v = (case v of JArr xs \<Rightarrow> map str_of xs | _ \<Rightarrow> [])"

definition array_length :: "json \<Rightarrow> int" where
  "array_length v = (case v of JArr xs \<Rightarrow> int (length xs) | _ \<Rightarrow> 0)"

subsection \<open>Strings\<close>

text \<open>\<^verbatim>\<open>String.prototype.toLowerCase\<close> on code units below 256: the letters A to Z and the
  capital letters of Latin-1 (192 to 222 but 215) move up by 32, which sets bit 5.\<close>

definition is_upper :: "char \<Rightarrow> bool" where
  "is_upper c =
     (let n = of_char c :: nat
      in (65 \<le> n \<and> n \<le> 90) \<or> (192 \<le> n \<and> n \<le> 214) \<or> (216 \<le> n \<and> n \<le> 222))"

fun lower_char :: "char \<Rightarrow> char" where
  "lower_char (Char b0 b1 b2 b3 b4 b5 b6 b7) =
     (if is_upper (Char b0 b1 b2 b3 b4 b5 b6 b7) then Char b0 b1 b2 b3 b4 True b6 b7
      else Char b0 b1 b2 b3 b4 b5 b6 b7)"

definition toLowerCase :: "string \<Rightarrow> string" where
  "toLowerCase s = map lower_char s"

fun starts_with :: "string \<Rightarrow> string \<Rightarrow> bool" where
  "starts_with s [] = True"
| "starts_with [] (c # t) = False"
| "starts_with (a # s) (c # t) = (a = c \<and> starts_with s t)"

text \<open>\<^verbatim>\<open>s.includes(t)\<close>.\<close>

fun str_includes :: "string \<Rightarrow> string \<Rightarrow> bool" where
  "str_includes [] t = (t = [])"
| "str_includes (a # s) t = (starts_with (a # s) t \<or> str_includes s t)"

text \<open>\<^verbatim>\<open>xs.join(sep)\<close> on strings.\<close>

fun join :: "string \<Rightarrow> string list \<Rightarrow> string" where
  "join sep [] = []"
| "join sep [x] = x"
| "join sep (x # y # ys) = x @ sep @ join sep (y # ys)"

text \<open>\<^verbatim>\<open>s.replace(/\s+/g, '-')\<close>: every maximal run of white space becomes one hyphen.
  \<^verbatim>\<open>\s\<close> matches what \<^verbatim>\<open>trim\<close> removes.\<close>

function replace_whitespace_runs :: "string \<Rightarrow> string" where
  "replace_whitespace_runs [] = []"
| "replace_whitespace_runs (c # s) =
     (if is_whitespace c then CHR ''-'' # replace_whitespace_runs (dropWhile is_whitespace s)
      else c # replace_whitespace_runs s)"
  by pat_completeness auto
termination
  by (relation "measure length") (auto simp: length_dropWhile_le less_Suc_eq_le)

text \<open>\<^verbatim>\<open>s.split(/\s+/)\<close>: the pieces between the maximal runs of white space, the empty
  pieces at the ends included.\<close>

lemma dropWhile_head: "dropWhile P xs = c # t \<Longrightarrow> \<not> P c"
  by (induction xs) (auto split: if_splits)

function split_whitespace :: "string \<Rightarrow> string list" where
  "split_whitespace s =
     (let piece = takeWhile (\<lambda>c. \<not> is_whitespace c) s;
          rest = dropWhile (\<lambda>c. \<not> is_whitespace c) s
      in if rest = [] then [piece] else piece # split_whitespace (dropWhile is_whitespace rest))"
  by pat_completeness auto
termination
proof (relation "measure length")
  fix s :: string and piece rest
  assume rest: "rest = dropWhile (\<lambda>c. \<not> is_whitespace c) s" and nonempty: "rest \<noteq> []"
  from nonempty obtain c t where ct: "rest = c # t"
    by (cases rest) simp_all
  have "dropWhile (\<lambda>c. \<not> is_whitespace c) s = c # t"
    using rest ct by simp
  then have "\<not> \<not> is_whitespace c"
    by (rule dropWhile_head)
  then have "length (dropWhile is_whitespace rest) \<le> length t"
    using ct by (simp add: length_dropWhile_le)
  moreover have "length rest \<le> length s"
    unfolding rest by (rule length_dropWhile_le)
  ultimately show "(dropWhile is_whitespace rest, s) \<in> measure length"
    using ct by simp
qed simp

declare split_whitespace.simps [simp del]

text \<open>Decimal digits of an integer, as \<^verbatim>\<open>String(n)\<close> prints integers of up to 21 digits.\<close>

fun digits :: "nat \<Rightarrow> string" where
  "digits n =
     (if n < 10 then [''0123456789'' ! n]
      else digits (n div 10) @ [''0123456789'' ! (n mod 10)])"

declare digits.simps [simp del]

definition show_int :: "int \<Rightarrow> string" where
  "show_int n = (if n < 0 then CHR ''-'' # digits (nat (- n)) else digits (nat n))"

text \<open>
  \<^verbatim>\<open>String(v)\<close>, as a template literal applies it. An array joins its elements with commas,
  \<^verbatim>\<open>null\<close> and \<^verbatim>\<open>undefined\<close> elements as empty strings. An object is \<^verbatim>\<open>[object Object]\<close>,
  unless it has an own property \<^verbatim>\<open>toString\<close>: that property, a JSON value, is not
  callable, \<^verbatim>\<open>valueOf\<close> gives no primitive either, and the conversion throws.
\<close>

fun first_error :: "(exn + string) list \<Rightarrow> exn + string list" where
  "first_error [] = Inr []"
| "first_error (Inl e # rs) = Inl e"
| "first_error (Inr s # rs) = (case first_error rs of Inl e \<Rightarrow> Inl e | Inr ss \<Rightarrow> Inr (s # ss))"

fun toString :: "json \<Rightarrow> exn + string" where
  "toString JNull = Inr ''null''"
| "toString JUndefined = Inr ''undefined''"
| "toString (JBool b) = Inr (if b then ''true'' else ''false'')"
| "toString (JNum n) = Inr (show_int n)"
| "toString (JStr s) = Inr s"
| "toString (JArr xs) =
     (case first_error
             (map (\<lambda>x. if x = JNull \<or> x = JUndefined then Inr [] else toString x) xs) of
        Inl e \<Rightarrow> Inl e
      | Inr ss \<Rightarrow> Inr (join '','' ss))"
| "toString (JObj kvs) =
     (if ''toString'' \<in> set (map fst kvs)
      then Inl (TypeError ''Cannot convert object to primitive value'')
      else Inr ''[object Object]'')"

section \<open>src/utils/validation.ts: validateAndSanitizeParams and the zod schemas\<close>

text \<open>\<^verbatim>\<open>typeof v\<close>.\<close>

definition typeof :: "json \<Rightarrow> string" where
  "typeof v =
     (case v of JNull \<Rightarrow> ''object'' | JUndefined \<Rightarrow> ''undefined'' | JBool b \<Rightarrow> ''boolean''
      | JNum n \<Rightarrow> ''number'' | JStr s \<Rightarrow> ''string'' | JArr xs \<Rightarrow> ''object''
      | JObj kvs \<Rightarrow> ''object'')"

text \<open>The \<^verbatim>\<open>catch\<close> of this function logs and rethrows; \<^verbatim>\<open>method\<close> is only logged.
  \<open>params\<close> is what the transport delivers, a JSON value.\<close>

definition validateAndSanitizeParams :: "json \<Rightarrow> exn + val" where
  "validateAndSanitizeParams params =
     (if truthy params \<and> typeof params \<noteq> ''object''
      then Inl (Error ''Parameters must be an object'')
      else Inr (sanitizeObject (of_json (if truthy params then params else JObj []))))"

text \<open>
  \<^verbatim>\<open>schema.parse(v)\<close> returns the value or throws a \<^verbatim>\<open>ZodError\<close> with the issues of every
  check that failed, in the order of the checks. A value that is not a string fails with
  the single issue \<^verbatim>\<open>invalid_type\<close>. The issue objects are those of zod 3 (the handlers read
  them as \<^verbatim>\<open>error.errors\<close>), with their properties in the order in which zod creates them;
  the schemas are applied to the value itself, so the \<^verbatim>\<open>path\<close> of every issue is empty.
\<close>

definition zod_received :: "json \<Rightarrow> string" where
  "zod_received v =
     (case v of JNull \<Rightarrow> ''null'' | JUndefined \<Rightarrow> ''undefined'' | JBool b \<Rightarrow> ''boolean''
      | JNum n \<Rightarrow> ''number'' | JStr s \<Rightarrow> ''string'' | JArr xs \<Rightarrow> ''array''
      | JObj kvs \<Rightarrow> ''object'')"

definition invalid_type :: "json \<Rightarrow> json" where
  "invalid_type v =
     JObj [(''code'', JStr ''invalid_type''),
           (''expected'', JStr ''string''),
           (''received'', JStr (zod_received v)),
           (''path'', JArr []),
           (''message'',
            JStr (if v = JUndefined then ''Required''
                  else ''Expected string, received '' @ zod_received v))]"

definition too_small :: "nat \<Rightarrow> string \<Rightarrow> json" where
  "too_small n message =
     JObj [(''code'', JStr ''too_small''),
           (''minimum'', JNum (int n)),
           (''type'', JStr ''string''),
           (''inclusive'', JBool True),
           (''exact'', JBool False),
           (''message'', JStr message),
           (''path'', JArr [])]"

definition too_big :: "nat \<Rightarrow> string \<Rightarrow> json" where
  "too_big n message =
     JObj [(''code'', JStr ''too_big''),
           (''maximum'', JNum (int n)),
           (''type'', JStr ''string''),
           (''inclusive'', JBool True),
           (''exact'', JBool False),
           (''message'', JStr message),
           (''path'', JArr [])]"

definition invalid_string :: "string \<Rightarrow> json" where
  "invalid_string message =
     JObj [(''validation'', JStr ''regex''),
           (''code'', JStr ''invalid_string''),
           (''message'', JStr message),
           (''path'', JArr [])]"

definition custom_issue :: "string \<Rightarrow> json" where
  "custom_issue message =
     JObj [(''code'', JStr ''custom''), (''message'', JStr message), (''path'', JArr [])]"

definition parse_string :: "(string \<Rightarrow> json list) \<Rightarrow> json \<Rightarrow> exn + string" where
  "parse_string checks v =
     (case v of
        JStr s \<Rightarrow> (if checks s = [] then Inr s else Inl (ZodError (checks s)))
      | _ \<Rightarrow> Inl (ZodError [invalid_type v]))"

definition min_length :: "nat \<Rightarrow> string \<Rightarrow> string \<Rightarrow> json list" where
  "min_length n message s = (if length s < n then [too_small n message] else [])"

definition max_length :: "nat \<Rightarrow> string \<Rightarrow> string \<Rightarrow> json list" where
  "max_length n message s = (if length s > n then [too_big n message] else [])"

text \<open>\<^verbatim>\<open>/^[a-zA-Z0-9._-]+$/\<close>.\<close>

definition name_char :: "char \<Rightarrow> bool" where
  "name_char c =
     (let n = of_char c :: nat
      in (97 \<le> n \<and> n \<le> 122) \<or> (65 \<le> n \<and> n \<le> 90) \<or> (48 \<le> n \<and> n \<le> 57)
         \<or> c = CHR ''.'' \<or> c = CHR ''_'' \<or> c = CHR ''-'')"

definition name_regex :: "string \<Rightarrow> bool" where
  "name_regex s \<longleftrightarrow> s \<noteq> [] \<and> list_all name_char s"

definition regex_check :: "string \<Rightarrow> string \<Rightarrow> json list" where
  "regex_check message s = (if name_regex s then [] else [invalid_string message])"

definition componentNameSchema :: "json \<Rightarrow> exn + string" where
  "componentNameSchema =
     parse_string (\<lambda>s. min_length 1 ''Component name cannot be empty'' s
                      @ max_length 100 ''Component name too long'' s
                      @ regex_check ''Component name contains invalid characters'' s)"

definition searchQuerySchema :: "json \<Rightarrow> exn + string" where
  "searchQuerySchema =
     parse_string (\<lambda>s. min_length 1 ''Search query cannot be empty'' s
                      @ max_length 200 ''Search query too long'' s)"

definition topicSchema :: "json \<Rightarrow> exn + string" where
  "topicSchema =
     parse_string (\<lambda>s. min_length 1 ''Topic cannot be empty'' s
                      @ max_length 100 ''Topic too long'' s
                      @ regex_check ''Topic contains invalid characters'' s)"

text \<open>\<^verbatim>\<open>z.string().optional().refine(val => !val || [...].includes(val), 'Invalid category')\<close>.\<close>

definition categories :: "string list" where
  "categories = [''react'', ''javascript'', ''hooks'', ''gestures'', ''layout'', ''examples'']"

definition categorySchema :: "json \<Rightarrow> exn + json" where
  "categorySchema v =
     (case v of
        JUndefined \<Rightarrow> Inr JUndefined
      | JStr s \<Rightarrow> (if s = [] \<or> s \<in> set categories then Inr (JStr s)
                   else Inl (ZodError [custom_issue ''Invalid category'']))
      | _ \<Rightarrow> Inl (ZodError [invalid_type v]))"

section \<open>The static tables of the tools\<close>

subsection \<open>MOTION_COMPONENTS (src/tools/components/get-motion-component.ts)\<close>

definition MOTION_COMPONENTS_motion_div :: json where
  "MOTION_COMPONENTS_motion_div =
     JObj [
       (''type'', JStr ''React Component''),
       (''description'', JStr ''Animated div element with Motion props''),
       (''category'', JStr ''react''),
       (''examples'', JArr [
           JObj [
             (''title'', JStr ''Basic Animation''),
             (''code'', JStr (''<motion.div\<newline>'' @
                     ''  animate={{ x: 100, y: 100 }}\<newline>'' @
                     ''  transition={{ duration: 2 }}\<newline>'' @
                     ''>\<newline>'' @
                     ''  Animated div\<newline>'' @
                     ''</motion.div>''))],
           JObj [
             (''title'', JStr ''Spring Animation''),
             (''code'', JStr (''<motion.div\<newline>'' @
                     ''  animate={{ scale: 1.2 }}\<newline>'' @
                     ''  transition={{ type: '' @ [CHR 0x22] @ ''spring'' @ [CHR 0x22] @
                     '', stiffness: 300 }}\<newline>'' @
                     ''>\<newline>'' @
                     ''  Spring animated div\<newline>'' @
                     ''</motion.div>''))]]),
       (''props'', JArr [
           JStr ''animate'',
           JStr ''initial'',
           JStr ''exit'',
           JStr ''transition'',
           JStr ''whileHover'',
           JStr ''whileTap'',
           JStr ''whileDrag'',
           JStr ''layout''])]"

definition MOTION_COMPONENTS_motion_button :: json where
  "MOTION_COMPONENTS_motion_button =
     JObj [
       (''type'', JStr ''React Component''),
       (''description'', JStr ''Animated button element with Motion props''),
       (''category'', JStr ''react''),
       (''examples'', JArr [
           JObj [
             (''title'', JStr ''Interactive Button''),
             (''code'', JStr (''<motion.button\<newline>'' @
                     ''  whileHover={{ scale: 1.05 }}\<newline>'' @
                     ''  whileTap={{ scale: 0.95 }}\<newline>'' @
                     ''  transition={{ type: '' @ [CHR 0x22] @ ''spring'' @ [CHR 0x22] @
                     '', stiffness: 400, damping: 17 }}\<newline>'' @
                     ''>\<newline>'' @
                     ''  Click me\<newline>'' @
                     ''</motion.button>''))]]),
       (''props'', JArr [
           JStr ''animate'',
           JStr ''initial'',
           JStr ''exit'',
           JStr ''transition'',
           JStr ''whileHover'',
           JStr ''whileTap'',
           JStr ''whileDrag''])]"

definition MOTION_COMPONENTS_animate :: json where
  "MOTION_COMPONENTS_animate =
     JObj [
       (''type'', JStr ''JavaScript API''),
       (''description'', JStr ''Animate elements using CSS selectors or DOM elements''),
       (''category'', JStr ''javascript''),
       (''examples'', JArr [
           JObj [
             (''title'', JStr ''Basic CSS Selector Animation''),
             (''code'', JStr (''import { animate } from '' @ [CHR 0x22] @ ''motion'' @ [CHR 0x22] @ '';\<newline>'' @
                     ''\<newline>'' @
                     ''animate('' @ [CHR 0x22] @ ''#box'' @ [CHR 0x22] @ '', { x: 100, rotate: 45 });''))],
           JObj [
             (''title'', JStr ''DOM Element Animation with Options''),
             (''code'', JStr (''import { animate } from '' @ [CHR 0x22] @ ''motion'' @ [CHR 0x22] @ '';\<newline>'' @
                     ''\<newline>'' @
                     ''const element = document.querySelector('' @ [CHR 0x22] @ ''.target'' @ [CHR 0x22] @
                     '');\<newline>'' @
                     ''animate(element, \<newline>'' @
                     ''  { opacity: [0, 1], scale: [0.8, 1] },\<newline>'' @
                     ''  { duration: 1, ease: '' @ [CHR 0x22] @ ''easeOut'' @ [CHR 0x22] @
                     '' }\<newline>'' @
                     '');''))],
           JObj [
             (''title'', JStr ''Keyframes Animation''),
             (''code'', JStr (''import { animate } from '' @ [CHR 0x22] @ ''motion'' @ [CHR 0x22] @ '';\<newline>'' @
                     ''\<newline>'' @
                     ''animate('' @ [CHR 0x22] @ ''.circle'' @ [CHR 0x22] @ '', {\<newline>'' @
                     ''  x: [0, 100, 0],\<newline>'' @
                     ''  y: [0, -100, 0]\<newline>'' @
                     ''}, {\<newline>'' @
                     ''  duration: 2,\<newline>'' @
                     ''  repeat: Infinity\<newline>'' @
                     ''});''))]]),
       (''parameters'', JArr [JStr ''target'', JStr ''keyframes'', JStr ''options''])]"

definition MOTION_COMPONENTS_timeline :: json where
  "MOTION_COMPONENTS_timeline =
     JObj [
       (''type'', JStr ''JavaScript API''),
       (''description'', JStr ''Create complex, sequenced animations''),
       (''category'', JStr ''javascript''),
       (''examples'', JArr [
           JObj [
             (''title'', JStr ''Sequential Animation''),
             (''code'', JStr (''import { timeline } from '' @ [CHR 0x22] @ ''motion'' @ [CHR 0x22] @
                     '';\<newline>'' @
                     ''\<newline>'' @
                     ''timeline([\<newline>'' @
                     ''  ['' @ [CHR 0x22] @ ''.box1'' @ [CHR 0x22] @ '', { x: 100 }],\<newline>'' @
                     ''  ['' @ [CHR 0x22] @ ''.box2'' @ [CHR 0x22] @ '', { y: 100 }, { at: '' @ [CHR 0x22] @
                     ''-0.5'' @ [CHR 0x22] @ '' }],\<newline>'' @
                     ''  ['' @ [CHR 0x22] @ ''.box3'' @ [CHR 0x22] @ '', { rotate: 180 }, { at: '' @
                     [CHR 0x22] @ ''<'' @ [CHR 0x22] @ '' }]\<newline>'' @
                     '']);''))]]),
       (''parameters'', JArr [JStr ''sequence'', JStr ''options''])]"

definition MOTION_COMPONENTS_useAnimate :: json where
  "MOTION_COMPONENTS_useAnimate =
     JObj [
       (''type'', JStr ''React Hook''),
       (''description'', JStr ''Hook for imperative animations in React''),
       (''category'', JStr ''hooks''),
       (''examples'', JArr [
           JObj [
             (''title'', JStr ''Basic useAnimate''),
             (''code'', JStr (''import { useAnimate } from '' @ [CHR 0x22] @ ''motion/react'' @ [CHR 0x22] @
                     '';\<newline>'' @
                     ''\<newline>'' @
                     ''function Component() {\<newline>'' @
                     ''  const [scope, animate] = useAnimate();\<newline>'' @
                     ''  \<newline>'' @
                     ''  return (\<newline>'' @
                     ''    <div ref={scope}>\<newline>'' @
                     ''      <button onClick={() => animate(scope.current, { x: 100 })}>\<newline>'' @
                     ''        Animate\<newline>'' @
                     ''      </button>\<newline>'' @
                     ''    </div>\<newline>'' @
                     ''  );\<newline>'' @
                     ''}''))]]),
       (''returns'', JArr [JStr ''scope'', JStr ''animate''])]"

definition MOTION_COMPONENTS_useSpring :: json where
  "MOTION_COMPONENTS_useSpring =
     JObj [
       (''type'', JStr ''React Hook''),
       (''description'', JStr ''Create spring-animated values''),
       (''category'', JStr ''hooks''),
       (''examples'', JArr [
           JObj [
             (''title'', JStr ''Spring Value''),
             (''code'', JStr (''import { useSpring } from '' @ [CHR 0x22] @ ''motion/react'' @ [CHR 0x22] @
                     '';\<newline>'' @
                     ''\<newline>'' @
                     ''function Component() {\<newline>'' @
                     ''  const spring = useSpring(0, { stiffness: 300, damping: 30 });\<newline>'' @
                     ''  \<newline>'' @
                     ''  return (\<newline>'' @
                     ''    <motion.div style={{ x: spring }}>\<newline>'' @
                     ''      <button onClick={() => spring.set(100)}>\<newline>'' @
                     ''        Animate\<newline>'' @
                     ''      </button>\<newline>'' @
                     ''    </motion.div>\<newline>'' @
                     ''  );\<newline>'' @
                     ''}''))]]),
       (''parameters'', JArr [JStr ''initialValue'', JStr ''options''])]"

definition MOTION_COMPONENTS_useScroll :: json where
  "MOTION_COMPONENTS_useScroll =
     JObj [
       (''type'', JStr ''React Hook''),
       (''description'', JStr ''Track scroll progress and create scroll-linked animations''),
       (''category'', JStr ''hooks''),
       (''examples'', JArr [
           JObj [
             (''title'', JStr ''Scroll Progress''),
             (''code'', JStr (''import { useScroll, useTransform, motion } from '' @ [CHR 0x22] @ ''motion/react'' @
                     [CHR 0x22] @ '';\<newline>'' @
                     ''\<newline>'' @
                     ''function Component() {\<newline>'' @
                     ''  const { scrollYProgress } = useScroll();\<newline>'' @
                     ''  const scale = useTransform(scrollYProgress, [0, 1], [1, 2]);\<newline>'' @
                     ''  \<newline>'' @
                     ''  return (\<newline>'' @
                     ''    <motion.div style={{ scale }}>\<newline>'' @
                     ''      Scales as you scroll\<newline>'' @
                     ''    </motion.div>\<newline>'' @
                     ''  );\<newline>'' @
                     ''}''))]]),
       (''returns'', JArr [
           JStr ''scrollX'',
           JStr ''scrollY'',
           JStr ''scrollXProgress'',
           JStr ''scrollYProgress''])]"

definition MOTION_COMPONENTS :: "(string \<times> json) list" where
  "MOTION_COMPONENTS =
    [(''motion.div'', MOTION_COMPONENTS_motion_div),
     (''motion.button'', MOTION_COMPONENTS_motion_button),
     (''animate'', MOTION_COMPONENTS_animate),
     (''timeline'', MOTION_COMPONENTS_timeline),
     (''useAnimate'', MOTION_COMPONENTS_useAnimate),
     (''useSpring'', MOTION_COMPONENTS_useSpring),
     (''useScroll'', MOTION_COMPONENTS_useScroll)]"

subsection \<open>MOTION_COMPONENTS_LIST (src/tools/components/list-motion-components.ts)\<close>

definition MOTION_COMPONENTS_LIST_react :: json where
  "MOTION_COMPONENTS_LIST_react =
     JArr [
       JObj [
         (''name'', JStr ''motion.div''),
         (''description'', JStr ''Animated div element with Motion props''),
         (''usage'', JStr ''<motion.div animate={{ x: 100 }} />'')],
       JObj [
         (''name'', JStr ''motion.button''),
         (''description'', JStr ''Animated button element with Motion props''),
         (''usage'', JStr ''<motion.button whileHover={{ scale: 1.05 }} />'')],
       JObj [
         (''name'', JStr ''motion.img''),
         (''description'', JStr ''Animated image element with Motion props''),
         (''usage'', JStr (''<motion.img layoutId='' @ [CHR 0x22] @ ''hero'' @ [CHR 0x22] @ '' />''))],
       JObj [
         (''name'', JStr ''motion.span''),
         (''description'', JStr ''Animated span element with Motion props''),
         (''usage'', JStr ''<motion.span animate={{ opacity: 1 }} />'')],
       JObj [
         (''name'', JStr ''motion.p''),
         (''description'', JStr ''Animated paragraph element with Motion props''),
         (''usage'', JStr ''<motion.p initial={{ y: 20 }} animate={{ y: 0 }} />'')],
       JObj [
         (''name'', JStr ''AnimatePresence''),
         (''description'', JStr ''Component to animate components when they are removed from the tree''),
         (''usage'', JStr ''<AnimatePresence>{show && <motion.div exit={{ opacity: 0 }} />}</AnimatePresence>'')],
       JObj [
         (''name'', JStr ''LazyMotion''),
         (''description'', JStr ''Reduce bundle size by loading features on demand''),
         (''usage'', JStr ''<LazyMotion features={domMax}><motion.div /></LazyMotion>'')],
       JObj [
         (''name'', JStr ''MotionConfig''),
         (''description'', JStr ''Configure Motion settings for child components''),
         (''usage'', JStr ''<MotionConfig transition={{ duration: 0.5 }}><motion.div /></MotionConfig>'')]]"

definition MOTION_COMPONENTS_LIST_javascript :: json where
  "MOTION_COMPONENTS_LIST_javascript =
     JArr [
       JObj [
         (''name'', JStr ''animate''),
         (''description'', JStr ''Animate elements using CSS selectors or DOM elements''),
         (''usage'', JStr (''animate('' @ [CHR 0x22] @ ''#box'' @ [CHR 0x22] @ '', { x: 100 })''))],
       JObj [
         (''name'', JStr ''timeline''),
         (''description'', JStr ''Create complex, sequenced animations''),
         (''usage'', JStr (''timeline([['' @ [CHR 0x22] @ ''#box1'' @ [CHR 0x22] @ '', { x: 100 }], ['' @
                 [CHR 0x22] @ ''#box2'' @ [CHR 0x22] @ '', { y: 100 }]])''))],
       JObj [
         (''name'', JStr ''scroll''),
         (''description'', JStr ''Create scroll-triggered animations''),
         (''usage'', JStr (''scroll(animate('' @ [CHR 0x22] @ ''#box'' @ [CHR 0x22] @ '', { x: 100 }))''))],
       JObj [
         (''name'', JStr ''inView''),
         (''description'', JStr ''Trigger animations when elements come into view''),
         (''usage'', JStr (''inView('' @ [CHR 0x22] @ ''#box'' @ [CHR 0x22] @ '', () => animate('' @ [CHR 0x22] @
                 ''#box'' @ [CHR 0x22] @ '', { opacity: 1 }))''))],
       JObj [
         (''name'', JStr ''stagger''),
         (''description'', JStr ''Create staggered animations for multiple elements''),
         (''usage'', JStr (''animate('' @ [CHR 0x22] @ ''.item'' @ [CHR 0x22] @
                 '', { x: 100 }, { delay: stagger(0.1) })''))]]"

definition MOTION_COMPONENTS_LIST_hooks :: json where
  "MOTION_COMPONENTS_LIST_hooks =
     JArr [
       JObj [
         (''name'', JStr ''useAnimate''),
         (''description'', JStr ''Hook for imperative animations in React''),
         (''usage'', JStr ''const [scope, animate] = useAnimate()'')],
       JObj [
         (''name'', JStr ''useSpring''),
         (''description'', JStr ''Create spring-animated values''),
         (''usage'', JStr ''const spring = useSpring(0, { stiffness: 300 })'')],
       JObj [
         (''name'', JStr ''useScroll''),
         (''description'', JStr ''Track scroll progress and create scroll-linked animations''),
         (''usage'', JStr ''const { scrollYProgress } = useScroll()'')],
       JObj [
         (''name'', JStr ''useTransform''),
         (''description'', JStr ''Transform one motion value into another''),
         (''usage'', JStr ''const y = useTransform(scrollYProgress, [0, 1], [0, -100])'')],
       JObj [
         (''name'', JStr ''useMotionValue''),
         (''description'', JStr ''Create a motion value to track animated values''),
         (''usage'', JStr ''const x = useMotionValue(0)'')],
       JObj [
         (''name'', JStr ''useAnimationControls''),
         (''description'', JStr ''Create imperative animation controls''),
         (''usage'', JStr ''const controls = useAnimationControls()'')],
       JObj [
         (''name'', JStr ''useInView''),
         (''description'', JStr ''Track when an element is in view''),
         (''usage'', JStr ''const { ref, inView } = useInView()'')],
       JObj [
         (''name'', JStr ''useDragControls''),
         (''description'', JStr ''Create custom drag controls''),
         (''usage'', JStr ''const dragControls = useDragControls()'')]]"

definition MOTION_COMPONENTS_LIST_gestures :: json where
  "MOTION_COMPONENTS_LIST_gestures =
     JArr [
       JObj [
         (''name'', JStr ''whileHover''),
         (''description'', JStr ''Animation state while hovering''),
         (''usage'', JStr ''<motion.div whileHover={{ scale: 1.1 }} />'')],
       JObj [
         (''name'', JStr ''whileTap''),
         (''description'', JStr ''Animation state while tapping/clicking''),
         (''usage'', JStr ''<motion.div whileTap={{ scale: 0.9 }} />'')],
       JObj [
         (''name'', JStr ''whileDrag''),
         (''description'', JStr ''Animation state while dragging''),
         (''usage'', JStr ''<motion.div drag whileDrag={{ scale: 1.2 }} />'')],
       JObj [
         (''name'', JStr ''whileInView''),
         (''description'', JStr ''Animation state while element is in viewport''),
         (''usage'', JStr ''<motion.div whileInView={{ opacity: 1 }} />'')],
       JObj [
         (''name'', JStr ''drag''),
         (''description'', JStr ''Make elements draggable''),
         (''usage'', JStr ''<motion.div drag />'')],
       JObj [
         (''name'', JStr ''dragConstraints''),
         (''description'', JStr ''Constrain drag movements''),
         (''usage'', JStr ''<motion.div drag dragConstraints={{ left: 0, right: 300 }} />'')]]"

definition MOTION_COMPONENTS_LIST_layout :: json where
  "MOTION_COMPONENTS_LIST_layout =
     JArr [
       JObj [
         (''name'', JStr ''layout''),
         (''description'', JStr ''Automatically animate layout changes''),
         (''usage'', JStr ''<motion.div layout />'')],
       JObj [
         (''name'', JStr ''layoutId''),
         (''description'', JStr ''Share layout animations between components''),
         (''usage'', JStr (''<motion.div layoutId='' @ [CHR 0x22] @ ''shared-element'' @ [CHR 0x22] @ '' />''))],
       JObj [
         (''name'', JStr ''layoutScroll''),
         (''description'', JStr ''Maintain scroll position during layout animations''),
         (''usage'', JStr ''<motion.div layout layoutScroll />'')],
       JObj [
         (''name'', JStr ''layoutRoot''),
         (''description'', JStr ''Create a new layout animation context''),
         (''usage'', JStr ''<motion.div layoutRoot />'')],
       JObj [
         (''name'', JStr ''LayoutGroup''),
         (''description'', JStr ''Group related layout animations''),
         (''usage'', JStr (''<LayoutGroup><motion.div layoutId='' @ [CHR 0x22] @ ''item'' @ [CHR 0x22] @
                 '' /></LayoutGroup>''))]]"

definition MOTION_COMPONENTS_LIST :: "(string \<times> json) list" where
  "MOTION_COMPONENTS_LIST =
    [(''react'', MOTION_COMPONENTS_LIST_react),
     (''javascript'', MOTION_COMPONENTS_LIST_javascript),
     (''hooks'', MOTION_COMPONENTS_LIST_hooks),
     (''gestures'', MOTION_COMPONENTS_LIST_gestures),
     (''layout'', MOTION_COMPONENTS_LIST_layout)]"

subsection \<open>MOTION_EXAMPLES (src/tools/examples/get-motion-example.ts)\<close>

definition MOTION_EXAMPLES_spring_animation :: json where
  "MOTION_EXAMPLES_spring_animation =
     JObj [
       (''title'', JStr ''Spring Animation''),
       (''description'', JStr ''Smooth spring-based animations with customizable physics''),
       (''category'', JStr ''animations''),
       (''examples'', JArr [
           JObj [
             (''framework'', JStr ''React''),
             (''code'', JStr (''import { motion } from '' @ [CHR 0x22] @ ''motion/react'' @ [CHR 0x22] @
                     '';\<newline>'' @
                     ''\<newline>'' @
                     ''function SpringButton() {\<newline>'' @
                     ''  return (\<newline>'' @
                     ''    <motion.button\<newline>'' @
                     ''      whileHover={{ scale: 1.1 }}\<newline>'' @
                     ''      whileTap={{ scale: 0.95 }}\<newline>'' @
                     ''      transition={{\<newline>'' @
                     ''        type: '' @ [CHR 0x22] @ ''spring'' @ [CHR 0x22] @ '',\<newline>'' @
                     ''        stiffness: 400,\<newline>'' @
                     ''        damping: 17\<newline>'' @
                     ''      }}\<newline>'' @
                     ''      className='' @ [CHR 0x22] @ ''px-6 py-3 bg-blue-500 text-white rounded-lg'' @
                     [CHR 0x22] @ ''\<newline>'' @
                     ''    >\<newline>'' @
                     ''      Spring Button\<newline>'' @
                     ''    </motion.button>\<newline>'' @
                     ''  );\<newline>'' @
                     ''}''))],
           JObj [
             (''framework'', JStr ''JavaScript''),
             (''code'', JStr (''import { animate } from '' @ [CHR 0x22] @ ''motion'' @ [CHR 0x22] @ '';\<newline>'' @
                     ''\<newline>'' @
                     ''const button = document.querySelector('' @ [CHR 0x27] @ ''.spring-button'' @
                     [CHR 0x27] @ '');\<newline>'' @
                     ''\<newline>'' @
                     ''button.addEventListener('' @ [CHR 0x27] @ ''mouseenter'' @ [CHR 0x27] @
                     '', () => {\<newline>'' @
                     ''  animate(button, \<newline>'' @
                     ''    { scale: 1.1 },\<newline>'' @
                     ''    { \<newline>'' @
                     ''      type: '' @ [CHR 0x22] @ ''spring'' @ [CHR 0x22] @ '',\<newline>'' @
                     ''      stiffness: 400,\<newline>'' @
                     ''      damping: 17\<newline>'' @
                     ''    }\<newline>'' @
                     ''  );\<newline>'' @
                     ''});\<newline>'' @
                     ''\<newline>'' @
                     ''button.addEventListener('' @ [CHR 0x27] @ ''mouseleave'' @ [CHR 0x27] @
                     '', () => {\<newline>'' @
                     ''  animate(button, \<newline>'' @
                     ''    { scale: 1 },\<newline>'' @
                     ''    { \<newline>'' @
                     ''      type: '' @ [CHR 0x22] @ ''spring'' @ [CHR 0x22] @ '',\<newline>'' @
                     ''      stiffness: 400,\<newline>'' @
                     ''      damping: 17\<newline>'' @
                     ''    }\<newline>'' @
                     ''  );\<newline>'' @
                     ''});''))]]),
       (''relatedTopics'', JArr [JStr ''transitions'', JStr ''hover-effects'', JStr ''gestures''])]"

definition MOTION_EXAMPLES_drag_gesture :: json where
  "MOTION_EXAMPLES_drag_gesture =
     JObj [
       (''title'', JStr ''Drag Gesture''),
       (''description'', JStr ''Interactive dragging with constraints and snap-back behavior''),
       (''category'', JStr ''gestures''),
       (''examples'', JArr [
           JObj [
             (''framework'', JStr ''React''),
             (''code'', JStr (''import { motion } from '' @ [CHR 0x22] @ ''motion/react'' @ [CHR 0x22] @
                     '';\<newline>'' @
                     ''\<newline>'' @
                     ''function DraggableCard() {\<newline>'' @
                     ''  return (\<newline>'' @
                     ''    <motion.div\<newline>'' @
                     ''      drag\<newline>'' @
                     ''      dragConstraints={{\<newline>'' @
                     ''        top: -50,\<newline>'' @
                     ''        left: -50,\<newline>'' @
                     ''        right: 50,\<newline>'' @
                     ''        bottom: 50,\<newline>'' @
                     ''      }}\<newline>'' @
                     ''      dragElastic={0.1}\<newline>'' @
                     ''      whileDrag={{ scale: 1.1, zIndex: 1 }}\<newline>'' @
                     ''      className='' @ [CHR 0x22] @
                     ''w-32 h-32 bg-gradient-to-br from-purple-400 to-pink-400 rounded-xl cursor-grab active:cursor-grabbing'' @
                     [CHR 0x22] @ ''\<newline>'' @
                     ''    >\<newline>'' @
                     ''      <div className='' @ [CHR 0x22] @
                     ''flex items-center justify-center h-full text-white font-bold'' @ [CHR 0x22] @
                     ''>\<newline>'' @
                     ''        Drag me!\<newline>'' @
                     ''      </div>\<newline>'' @
                     ''    </motion.div>\<newline>'' @
                     ''  );\<newline>'' @
                     ''}''))],
           JObj [
             (''framework'', JStr ''JavaScript''),
             (''code'', JStr (''import { animate } from '' @ [CHR 0x22] @ ''motion'' @ [CHR 0x22] @ '';\<newline>'' @
                     ''\<newline>'' @
                     ''const draggable = document.querySelector('' @ [CHR 0x27] @ ''.draggable'' @
                     [CHR 0x27] @ '');\<newline>'' @
                     ''let isDragging = false;\<newline>'' @
                     ''let startX, startY, currentX = 0, currentY = 0;\<newline>'' @
                     ''\<newline>'' @
                     ''draggable.addEventListener('' @ [CHR 0x27] @ ''mousedown'' @ [CHR 0x27] @
                     '', (e) => {\<newline>'' @
                     ''  isDragging = true;\<newline>'' @
                     ''  startX = e.clientX - currentX;\<newline>'' @
                     ''  startY = e.clientY - currentY;\<newline>'' @
                     ''  \<newline>'' @
                     ''  animate(draggable, { scale: 1.1 }, { duration: 0.1 });\<newline>'' @
                     ''});\<newline>'' @
                     ''\<newline>'' @
                     ''document.addEventListener('' @ [CHR 0x27] @ ''mousemove'' @ [CHR 0x27] @
                     '', (e) => {\<newline>'' @
                     ''  if (!isDragging) return;\<newline>'' @
                     ''  \<newline>'' @
                     ''  currentX = e.clientX - startX;\<newline>'' @
                     ''  currentY = e.clientY - startY;\<newline>'' @
                     ''  \<newline>'' @
                     ''  // Apply constraints\<newline>'' @
                     ''  currentX = Math.max(-50, Math.min(50, currentX));\<newline>'' @
                     ''  currentY = Math.max(-50, Math.min(50, currentY));\<newline>'' @
                     ''  \<newline>'' @
                     ''  draggable.style.transform = '' @ [CHR 0x60] @
                     ''translate(${currentX}px, ${currentY}px)'' @ [CHR 0x60] @ '';\<newline>'' @
                     ''});\<newline>'' @
                     ''\<newline>'' @
                     ''document.addEventListener('' @ [CHR 0x27] @ ''mouseup'' @ [CHR 0x27] @
                     '', () => {\<newline>'' @
                     ''  if (!isDragging) return;\<newline>'' @
                     ''  isDragging = false;\<newline>'' @
                     ''  \<newline>'' @
                     ''  animate(draggable, { scale: 1 }, { duration: 0.1 });\<newline>'' @
                     ''});''))]]),
       (''relatedTopics'', JArr [JStr ''constraints'', JStr ''gestures'', JStr ''interactive-animations''])]"

definition MOTION_EXAMPLES_layout_animation :: json where
  "MOTION_EXAMPLES_layout_animation =
     JObj [
       (''title'', JStr ''Layout Animation''),
       (''description'', JStr ''Smooth animations when elements change size or position in the layout''),
       (''category'', JStr ''layout''),
       (''examples'', JArr [
           JObj [
             (''framework'', JStr ''React''),
             (''code'', JStr (''import { motion, AnimatePresence } from '' @ [CHR 0x22] @ ''motion/react'' @
                     [CHR 0x22] @ '';\<newline>'' @
                     ''import { useState } from '' @ [CHR 0x22] @ ''react'' @ [CHR 0x22] @ '';\<newline>'' @
                     ''\<newline>'' @
                     ''function ExpandableCard() {\<newline>'' @
                     ''  const [isExpanded, setIsExpanded] = useState(false);\<newline>'' @
                     ''\<newline>'' @
                     ''  return (\<newline>'' @
                     ''    <motion.div\<newline>'' @
                     ''      layout\<newline>'' @
                     ''      onClick={() => setIsExpanded(!isExpanded)}\<newline>'' @
                     ''      className='' @ [CHR 0x22] @
                     ''bg-white rounded-lg shadow-lg cursor-pointer overflow-hidden'' @ [CHR 0x22] @
                     ''\<newline>'' @
                     ''      whileHover={{ scale: 1.02 }}\<newline>'' @
                     ''      transition={{ type: '' @ [CHR 0x22] @ ''spring'' @ [CHR 0x22] @
                     '', stiffness: 300, damping: 30 }}\<newline>'' @
                     ''    >\<newline>'' @
                     ''      <motion.div layout className='' @ [CHR 0x22] @ ''p-6'' @ [CHR 0x22] @
                     ''>\<newline>'' @
                     ''        <motion.h2 layout className='' @ [CHR 0x22] @ ''text-xl font-bold mb-2'' @
                     [CHR 0x22] @ ''>\<newline>'' @
                     ''          Expandable Card\<newline>'' @
                     ''        </motion.h2>\<newline>'' @
                     ''        <AnimatePresence>\<newline>'' @
                     ''          {isExpanded && (\<newline>'' @
                     ''            <motion.div\<newline>'' @
                     ''              initial={{ opacity: 0, height: 0 }}\<newline>'' @
                     ''              animate={{ opacity: 1, height: '' @ [CHR 0x22] @ ''auto'' @
                     [CHR 0x22] @ '' }}\<newline>'' @
                     ''              exit={{ opacity: 0, height: 0 }}\<newline>'' @
                     ''              transition={{ duration: 0.3 }}\<newline>'' @
                     ''            >\<newline>'' @
                     ''              <p className='' @ [CHR 0x22] @ ''text-gray-600'' @ [CHR 0x22] @
                     ''>\<newline>'' @
                     ''                This content appears with a smooth animation when the card expands.\<newline>'' @
                     ''                The layout animation ensures smooth transitions even when the\<newline>'' @
                     ''                content changes the card'' @ [CHR 0x27] @
                     ''s dimensions.\<newline>'' @
                     ''              </p>\<newline>'' @
                     ''            </motion.div>\<newline>'' @
                     ''          )}\<newline>'' @
                     ''        </AnimatePresence>\<newline>'' @
                     ''      </motion.div>\<newline>'' @
                     ''    </motion.div>\<newline>'' @
                     ''  );\<newline>'' @
                     ''}''))],
           JObj [
             (''framework'', JStr ''JavaScript''),
             (''code'', JStr (''import { animate, timeline } from '' @ [CHR 0x22] @ ''motion'' @ [CHR 0x22] @
                     '';\<newline>'' @
                     ''\<newline>'' @
                     ''const card = document.querySelector('' @ [CHR 0x27] @ ''.expandable-card'' @
                     [CHR 0x27] @ '');\<newline>'' @
                     ''const content = document.querySelector('' @ [CHR 0x27] @ ''.expandable-content'' @
                     [CHR 0x27] @ '');\<newline>'' @
                     ''let isExpanded = false;\<newline>'' @
                     ''\<newline>'' @
                     ''card.addEventListener('' @ [CHR 0x27] @ ''click'' @ [CHR 0x27] @
                     '', () => {\<newline>'' @
                     ''  if (!isExpanded) {\<newline>'' @
                     ''    // Expand animation\<newline>'' @
                     ''    timeline([\<newline>'' @
                     ''      [card, { height: '' @ [CHR 0x22] @ ''auto'' @ [CHR 0x22] @ '' }],\<newline>'' @
                     ''      [content, { opacity: [0, 1] }, { at: '' @ [CHR 0x22] @ ''<'' @ [CHR 0x22] @
                     '' }]\<newline>'' @
                     ''    ], {\<newline>'' @
                     ''      duration: 0.3,\<newline>'' @
                     ''      ease: '' @ [CHR 0x22] @ ''easeOut'' @ [CHR 0x22] @ ''\<newline>'' @
                     ''    });\<newline>'' @
                     ''  } else {\<newline>'' @
                     ''    // Collapse animation\<newline>'' @
                     ''    timeline([\<newline>'' @
                     ''      [content, { opacity: 0 }],\<newline>'' @
                     ''      [card, { height: '' @ [CHR 0x22] @ ''60px'' @ [CHR 0x22] @ '' }, { at: '' @
                     [CHR 0x22] @ ''-0.1'' @ [CHR 0x22] @ '' }]\<newline>'' @
                     ''    ], {\<newline>'' @
                     ''      duration: 0.3,\<newline>'' @
                     ''      ease: '' @ [CHR 0x22] @ ''easeOut'' @ [CHR 0x22] @ ''\<newline>'' @
                     ''    });\<newline>'' @
                     ''  }\<newline>'' @
                     ''  \<newline>'' @
                     ''  isExpanded = !isExpanded;\<newline>'' @
                     ''});''))]]),
       (''relatedTopics'', JArr [JStr ''layout'', JStr ''animate-presence'', JStr ''height-animations''])]"

definition MOTION_EXAMPLES_scroll_triggered :: json where
  "MOTION_EXAMPLES_scroll_triggered =
     JObj [
       (''title'', JStr ''Scroll-Triggered Animation''),
       (''description'', JStr ''Animations that trigger based on scroll position and element visibility''),
       (''category'', JStr ''scroll''),
       (''examples'', JArr [
           JObj [
             (''framework'', JStr ''React''),
             (''code'', JStr (''import { motion, useScroll, useTransform } from '' @ [CHR 0x22] @ ''motion/react'' @
                     [CHR 0x22] @ '';\<newline>'' @
                     ''import { useRef } from '' @ [CHR 0x22] @ ''react'' @ [CHR 0x22] @ '';\<newline>'' @
                     ''\<newline>'' @
                     ''function ScrollAnimation() {\<newline>'' @
                     ''  const ref = useRef(null);\<newline>'' @
                     ''  const { scrollYProgress } = useScroll({\<newline>'' @
                     ''    target: ref,\<newline>'' @
                     ''    offset: ['' @ [CHR 0x22] @ ''start end'' @ [CHR 0x22] @ '', '' @ [CHR 0x22] @
                     ''end start'' @ [CHR 0x22] @ '']\<newline>'' @
                     ''  });\<newline>'' @
                     ''\<newline>'' @
                     ''  const y = useTransform(scrollYProgress, [0, 1], [100, -100]);\<newline>'' @
                     ''  const opacity = useTransform(scrollYProgress, [0, 0.3, 0.7, 1], [0, 1, 1, 0]);\<newline>'' @
                     ''\<newline>'' @
                     ''  return (\<newline>'' @
                     ''    <motion.div\<newline>'' @
                     ''      ref={ref}\<newline>'' @
                     ''      style={{ y, opacity }}\<newline>'' @
                     ''      className='' @ [CHR 0x22] @
                     ''h-screen flex items-center justify-center bg-gradient-to-br from-blue-400 to-purple-600'' @
                     [CHR 0x22] @ ''\<newline>'' @
                     ''    >\<newline>'' @
                     ''      <motion.h1\<newline>'' @
                     ''        initial={{ scale: 0.8 }}\<newline>'' @
                     ''        whileInView={{ scale: 1 }}\<newline>'' @
                     ''        transition={{ duration: 0.5 }}\<newline>'' @
                     ''        className='' @ [CHR 0x22] @ ''text-6xl font-bold text-white'' @ [CHR 0x22] @
                     ''\<newline>'' @
                     ''      >\<newline>'' @
                     ''        Scroll Magic\<newline>'' @
                     ''      </motion.h1>\<newline>'' @
                     ''    </motion.div>\<newline>'' @
                     ''  );\<newline>'' @
                     ''}''))],
           JObj [
             (''framework'', JStr ''JavaScript''),
             (''code'', JStr (''import { scroll, animate, inView } from '' @ [CHR 0x22] @ ''motion'' @ [CHR 0x22] @
                     '';\<newline>'' @
                     ''\<newline>'' @
                     ''// Parallax effect based on scroll\<newline>'' @
                     ''scroll(\<newline>'' @
                     ''  animate('' @ [CHR 0x22] @ ''.parallax-element'' @ [CHR 0x22] @ '', {\<newline>'' @
                     ''    y: [0, -200]\<newline>'' @
                     ''  })\<newline>'' @
                     '');\<newline>'' @
                     ''\<newline>'' @
                     ''// Animate elements when they come into view\<newline>'' @
                     ''inView('' @ [CHR 0x22] @ ''.fade-in-element'' @ [CHR 0x22] @
                     '', (info) => {\<newline>'' @
                     ''  animate(info.target, \<newline>'' @
                     ''    { opacity: [0, 1], y: [50, 0] },\<newline>'' @
                     ''    { duration: 0.6, ease: '' @ [CHR 0x22] @ ''easeOut'' @ [CHR 0x22] @
                     '' }\<newline>'' @
                     ''  );\<newline>'' @
                     ''});\<newline>'' @
                     ''\<newline>'' @
                     ''// Progress bar based on scroll progress\<newline>'' @
                     ''const progressBar = document.querySelector('' @ [CHR 0x27] @ ''.progress-bar'' @
                     [CHR 0x27] @ '');\<newline>'' @
                     ''scroll(({ y }) => {\<newline>'' @
                     ''  const progress = y.progress;\<newline>'' @
                     ''  progressBar.style.transform = '' @ [CHR 0x60] @ ''scaleX(${progress})'' @
                     [CHR 0x60] @ '';\<newline>'' @
                     ''});''))]]),
       (''relatedTopics'', JArr [
           JStr ''scroll'',
           JStr ''parallax'',
           JStr ''in-view'',
           JStr ''progress-indicators''])]"

definition MOTION_EXAMPLES_stagger_animation :: json where
  "MOTION_EXAMPLES_stagger_animation =
     JObj [
       (''title'', JStr ''Stagger Animation''),
       (''description'', JStr ''Sequential animations with delays for multiple elements''),
       (''category'', JStr ''animations''),
       (''examples'', JArr [
           JObj [
             (''framework'', JStr ''React''),
             (''code'', JStr (''import { motion } from '' @ [CHR 0x22] @ ''motion/react'' @ [CHR 0x22] @
                     '';\<newline>'' @
                     ''\<newline>'' @
                     ''const items = [1, 2, 3, 4, 5];\<newline>'' @
                     ''\<newline>'' @
                     ''function StaggerList() {\<newline>'' @
                     ''  return (\<newline>'' @
                     ''    <div className='' @ [CHR 0x22] @ ''space-y-4'' @ [CHR 0x22] @ ''>\<newline>'' @
                     ''      {items.map((item, index) => (\<newline>'' @
                     ''        <motion.div\<newline>'' @
                     ''          key={item}\<newline>'' @
                     ''          initial={{ opacity: 0, x: -20 }}\<newline>'' @
                     ''          animate={{ opacity: 1, x: 0 }}\<newline>'' @
                     ''          transition={{\<newline>'' @
                     ''            delay: index * 0.1,\<newline>'' @
                     ''            type: '' @ [CHR 0x22] @ ''spring'' @ [CHR 0x22] @ '',\<newline>'' @
                     ''            stiffness: 100\<newline>'' @
                     ''          }}\<newline>'' @
                     ''          className='' @ [CHR 0x22] @ ''p-4 bg-white rounded-lg shadow-md'' @
                     [CHR 0x22] @ ''\<newline>'' @
                     ''        >\<newline>'' @
                     ''          Item {item}\<newline>'' @
                     ''        </motion.div>\<newline>'' @
                     ''      ))}\<newline>'' @
                     ''    </div>\<newline>'' @
                     ''  );\<newline>'' @
                     ''}''))],
           JObj [
             (''framework'', JStr ''JavaScript''),
             (''code'', JStr (''import { animate, stagger } from '' @ [CHR 0x22] @ ''motion'' @ [CHR 0x22] @
                     '';\<newline>'' @
                     ''\<newline>'' @
                     ''// Stagger animation for multiple elements\<newline>'' @
                     ''animate(\<newline>'' @
                     ''  '' @ [CHR 0x22] @ ''.list-item'' @ [CHR 0x22] @ '',\<newline>'' @
                     ''  { opacity: [0, 1], y: [20, 0] },\<newline>'' @
                     ''  { \<newline>'' @
                     ''    delay: stagger(0.1),\<newline>'' @
                     ''    duration: 0.5,\<newline>'' @
                     ''    ease: '' @ [CHR 0x22] @ ''easeOut'' @ [CHR 0x22] @ ''\<newline>'' @
                     ''  }\<newline>'' @
                     '');\<newline>'' @
                     ''\<newline>'' @
                     ''// Stagger with different directions\<newline>'' @
                     ''animate(\<newline>'' @
                     ''  '' @ [CHR 0x22] @ ''.grid-item'' @ [CHR 0x22] @ '',\<newline>'' @
                     ''  { scale: [0, 1], rotate: [180, 0] },\<newline>'' @
                     ''  { \<newline>'' @
                     ''    delay: stagger(0.05, { from: '' @ [CHR 0x22] @ ''center'' @ [CHR 0x22] @
                     '' }),\<newline>'' @
                     ''    duration: 0.3\<newline>'' @
                     ''  }\<newline>'' @
                     '');''))]]),
       (''relatedTopics'', JArr [JStr ''stagger'', JStr ''lists'', JStr ''sequential-animations''])]"

definition MOTION_EXAMPLES :: "(string \<times> json) list" where
  "MOTION_EXAMPLES =
    [(''spring-animation'', MOTION_EXAMPLES_spring_animation),
     (''drag-gesture'', MOTION_EXAMPLES_drag_gesture),
     (''layout-animation'', MOTION_EXAMPLES_layout_animation),
     (''scroll-triggered'', MOTION_EXAMPLES_scroll_triggered),
     (''stagger-animation'', MOTION_EXAMPLES_stagger_animation)]"

subsection \<open>SEARCHABLE_EXAMPLES (src/tools/examples/search-motion-examples.ts)\<close>

definition SEARCHABLE_EXAMPLES_spring_button :: json where
  "SEARCHABLE_EXAMPLES_spring_button =
     JObj [
       (''id'', JStr ''spring-button''),
       (''title'', JStr ''Spring Button Animation''),
       (''description'', JStr ''Interactive button with spring physics on hover and tap''),
       (''tags'', JArr [
           JStr ''button'',
           JStr ''spring'',
           JStr ''hover'',
           JStr ''tap'',
           JStr ''interactive'']),
       (''category'', JStr ''gestures''),
       (''difficulty'', JStr ''beginner''),
       (''code'', JStr (''<motion.button\<newline>'' @
               ''  whileHover={{ scale: 1.05 }}\<newline>'' @
               ''  whileTap={{ scale: 0.95 }}\<newline>'' @
               ''  transition={{ type: '' @ [CHR 0x22] @ ''spring'' @ [CHR 0x22] @
               '', stiffness: 400, damping: 17 }}\<newline>'' @
               ''>\<newline>'' @
               ''  Click me\<newline>'' @
               ''</motion.button>''))]"

definition SEARCHABLE_EXAMPLES_drag_card :: json where
  "SEARCHABLE_EXAMPLES_drag_card =
     JObj [
       (''id'', JStr ''drag-card''),
       (''title'', JStr ''Draggable Card''),
       (''description'', JStr ''Card component that can be dragged with constraints and elastic behavior''),
       (''tags'', JArr [
           JStr ''drag'',
           JStr ''card'',
           JStr ''constraints'',
           JStr ''elastic'',
           JStr ''gesture'']),
       (''category'', JStr ''gestures''),
       (''difficulty'', JStr ''intermediate''),
       (''code'', JStr (''<motion.div\<newline>'' @
               ''  drag\<newline>'' @
               ''  dragConstraints={{ left: -100, right: 100, top: -100, bottom: 100 }}\<newline>'' @
               ''  dragElastic={0.1}\<newline>'' @
               ''  whileDrag={{ scale: 1.1 }}\<newline>'' @
               ''>\<newline>'' @
               ''  Drag me around!\<newline>'' @
               ''</motion.div>''))]"

definition SEARCHABLE_EXAMPLES_fade_in_list :: json where
  "SEARCHABLE_EXAMPLES_fade_in_list =
     JObj [
       (''id'', JStr ''fade-in-list''),
       (''title'', JStr ''Staggered Fade-in List''),
       (''description'', JStr ''List items that fade in with staggered timing''),
       (''tags'', JArr [
           JStr ''list'',
           JStr ''stagger'',
           JStr ''fade'',
           JStr ''opacity'',
           JStr ''animation'']),
       (''category'', JStr ''animations''),
       (''difficulty'', JStr ''beginner''),
       (''code'', JStr (''{items.map((item, index) => (\<newline>'' @
               ''  <motion.div\<newline>'' @
               ''    key={item.id}\<newline>'' @
               ''    initial={{ opacity: 0, y: 20 }}\<newline>'' @
               ''    animate={{ opacity: 1, y: 0 }}\<newline>'' @
               ''    transition={{ delay: index * 0.1 }}\<newline>'' @
               ''  >\<newline>'' @
               ''    {item.content}\<newline>'' @
               ''  </motion.div>\<newline>'' @
               ''))}''))]"

definition SEARCHABLE_EXAMPLES_parallax_scroll :: json where
  "SEARCHABLE_EXAMPLES_parallax_scroll =
     JObj [
       (''id'', JStr ''parallax-scroll''),
       (''title'', JStr ''Parallax Scroll Effect''),
       (''description'', JStr ''Background elements that move at different speeds during scroll''),
       (''tags'', JArr [
           JStr ''parallax'',
           JStr ''scroll'',
           JStr ''background'',
           JStr ''transform'',
           JStr ''useScroll'']),
       (''category'', JStr ''scroll''),
       (''difficulty'', JStr ''advanced''),
       (''code'', JStr (''const { scrollYProgress } = useScroll();\<newline>'' @
               ''const y = useTransform(scrollYProgress, [0, 1], ['' @ [CHR 0x27] @ ''0%'' @
               [CHR 0x27] @ '', '' @ [CHR 0x27] @ ''50%'' @ [CHR 0x27] @ '']);\<newline>'' @
               ''\<newline>'' @
               ''return (\<newline>'' @
               ''  <motion.div\<newline>'' @
               ''    style={{ y }}\<newline>'' @
               ''    className='' @ [CHR 0x22] @ ''parallax-background'' @ [CHR 0x22] @
               ''\<newline>'' @
               ''  >\<newline>'' @
               ''    Background content\<newline>'' @
               ''  </motion.div>\<newline>'' @
               '');''))]"

definition SEARCHABLE_EXAMPLES_modal_animation :: json where
  "SEARCHABLE_EXAMPLES_modal_animation =
     JObj [
       (''id'', JStr ''modal-animation''),
       (''title'', JStr ''Animated Modal''),
       (''description'', JStr ''Modal that slides in from bottom with backdrop fade''),
       (''tags'', JArr [
           JStr ''modal'',
           JStr ''slide'',
           JStr ''backdrop'',
           JStr ''overlay'',
           JStr ''animate-presence'']),
       (''category'', JStr ''layout''),
       (''difficulty'', JStr ''intermediate''),
       (''code'', JStr (''<AnimatePresence>\<newline>'' @
               ''  {isOpen && (\<newline>'' @
               ''    <>\<newline>'' @
               ''      <motion.div\<newline>'' @
               ''        initial={{ opacity: 0 }}\<newline>'' @
               ''        animate={{ opacity: 1 }}\<newline>'' @
               ''        exit={{ opacity: 0 }}\<newline>'' @
               ''        className='' @ [CHR 0x22] @ ''backdrop'' @ [CHR 0x22] @ ''\<newline>'' @
               ''      />\<newline>'' @
               ''      <motion.div\<newline>'' @
               ''        initial={{ y: '' @ [CHR 0x22] @ ''100%'' @ [CHR 0x22] @ '' }}\<newline>'' @
               ''        animate={{ y: 0 }}\<newline>'' @
               ''        exit={{ y: '' @ [CHR 0x22] @ ''100%'' @ [CHR 0x22] @ '' }}\<newline>'' @
               ''        className='' @ [CHR 0x22] @ ''modal'' @ [CHR 0x22] @ ''\<newline>'' @
               ''      >\<newline>'' @
               ''        Modal content\<newline>'' @
               ''      </motion.div>\<newline>'' @
               ''    </>\<newline>'' @
               ''  )}\<newline>'' @
               ''</AnimatePresence>''))]"

definition SEARCHABLE_EXAMPLES_loading_spinner :: json where
  "SEARCHABLE_EXAMPLES_loading_spinner =
     JObj [
       (''id'', JStr ''loading-spinner''),
       (''title'', JStr ''Loading Spinner''),
       (''description'', JStr ''Rotating loading spinner with smooth animation''),
       (''tags'', JArr [
           JStr ''loading'',
           JStr ''spinner'',
           JStr ''rotate'',
           JStr ''infinite'',
           JStr ''transition'']),
       (''category'', JStr ''animations''),
       (''difficulty'', JStr ''beginner''),
       (''code'', JStr (''<motion.div\<newline>'' @
               ''  animate={{ rotate: 360 }}\<newline>'' @
               ''  transition={{\<newline>'' @
               ''    duration: 1,\<newline>'' @
               ''    repeat: Infinity,\<newline>'' @
               ''    ease: '' @ [CHR 0x22] @ ''linear'' @ [CHR 0x22] @ ''\<newline>'' @
               ''  }}\<newline>'' @
               ''  className='' @ [CHR 0x22] @ ''spinner'' @ [CHR 0x22] @ ''\<newline>'' @
               ''/>''))]"

definition SEARCHABLE_EXAMPLES_hero_text_animation :: json where
  "SEARCHABLE_EXAMPLES_hero_text_animation =
     JObj [
       (''id'', JStr ''hero-text-animation''),
       (''title'', JStr ''Hero Text Animation''),
       (''description'', JStr ''Large hero text that animates in with typewriter effect''),
       (''tags'', JArr [
           JStr ''text'',
           JStr ''hero'',
           JStr ''typewriter'',
           JStr ''stagger'',
           JStr ''letters'']),
       (''category'', JStr ''text''),
       (''difficulty'', JStr ''advanced''),
       (''code'', JStr (''const text = '' @ [CHR 0x22] @ ''Hello World'' @ [CHR 0x22] @ '';\<newline>'' @
               ''const letters = Array.from(text);\<newline>'' @
               ''\<newline>'' @
               ''return (\<newline>'' @
               ''  <div>\<newline>'' @
               ''    {letters.map((letter, index) => (\<newline>'' @
               ''      <motion.span\<newline>'' @
               ''        key={index}\<newline>'' @
               ''        initial={{ opacity: 0, y: 50 }}\<newline>'' @
               ''        animate={{ opacity: 1, y: 0 }}\<newline>'' @
               ''        transition={{ delay: index * 0.1 }}\<newline>'' @
               ''      >\<newline>'' @
               ''        {letter === '' @ [CHR 0x22] @ '' '' @ [CHR 0x22] @ '' ? '' @
               [CHR 0x22, CHR 0x5C] @ ''u00A0'' @ [CHR 0x22] @ '' : letter}\<newline>'' @
               ''      </motion.span>\<newline>'' @
               ''    ))}\<newline>'' @
               ''  </div>\<newline>'' @
               '');''))]"

definition SEARCHABLE_EXAMPLES_image_gallery :: json where
  "SEARCHABLE_EXAMPLES_image_gallery =
     JObj [
       (''id'', JStr ''image-gallery''),
       (''title'', JStr ''Animated Image Gallery''),
       (''description'', JStr ''Image gallery with hover effects and layout animations''),
       (''tags'', JArr [
           JStr ''gallery'',
           JStr ''images'',
           JStr ''grid'',
           JStr ''hover'',
           JStr ''layout'']),
       (''category'', JStr ''layout''),
       (''difficulty'', JStr ''intermediate''),
       (''code'', JStr (''<motion.div\<newline>'' @
               ''  layout\<newline>'' @
               ''  whileHover={{ scale: 1.05 }}\<newline>'' @
               ''  className='' @ [CHR 0x22] @ ''image-container'' @ [CHR 0x22] @ ''\<newline>'' @
               ''>\<newline>'' @
               ''  <motion.img\<newline>'' @
               ''    src={image.src}\<newline>'' @
               ''    alt={image.alt}\<newline>'' @
               ''    layoutId={image.id}\<newline>'' @
               ''  />\<newline>'' @
               ''</motion.div>''))]"

definition SEARCHABLE_EXAMPLES_navigation_menu :: json where
  "SEARCHABLE_EXAMPLES_navigation_menu =
     JObj [
       (''id'', JStr ''navigation-menu''),
       (''title'', JStr ''Animated Navigation Menu''),
       (''description'', JStr ''Mobile navigation menu that slides in from the side''),
       (''tags'', JArr [
           JStr ''navigation'',
           JStr ''menu'',
           JStr ''mobile'',
           JStr ''slide'',
           JStr ''hamburger'']),
       (''category'', JStr ''layout''),
       (''difficulty'', JStr ''intermediate''),
       (''code'', JStr (''<motion.nav\<newline>'' @
               ''  initial={{ x: '' @ [CHR 0x22] @ ''-100%'' @ [CHR 0x22] @ '' }}\<newline>'' @
               ''  animate={{ x: isOpen ? 0 : '' @ [CHR 0x22] @ ''-100%'' @ [CHR 0x22] @
               '' }}\<newline>'' @
               ''  transition={{ type: '' @ [CHR 0x22] @ ''spring'' @ [CHR 0x22] @
               '', stiffness: 300, damping: 30 }}\<newline>'' @
               ''  className='' @ [CHR 0x22] @ ''mobile-nav'' @ [CHR 0x22] @ ''\<newline>'' @
               ''>\<newline>'' @
               ''  {menuItems.map(item => (\<newline>'' @
               ''    <motion.a\<newline>'' @
               ''      key={item.id}\<newline>'' @
               ''      whileHover={{ x: 10 }}\<newline>'' @
               ''      href={item.href}\<newline>'' @
               ''    >\<newline>'' @
               ''      {item.label}\<newline>'' @
               ''    </motion.a>\<newline>'' @
               ''  ))}\<newline>'' @
               ''</motion.nav>''))]"

definition SEARCHABLE_EXAMPLES_progress_bar :: json where
  "SEARCHABLE_EXAMPLES_progress_bar =
     JObj [
       (''id'', JStr ''progress-bar''),
       (''title'', JStr ''Animated Progress Bar''),
       (''description'', JStr ''Progress bar that fills based on scroll position''),
       (''tags'', JArr [
           JStr ''progress'',
           JStr ''bar'',
           JStr ''scroll'',
           JStr ''indicator'',
           JStr ''transform'']),
       (''category'', JStr ''scroll''),
       (''difficulty'', JStr ''beginner''),
       (''code'', JStr (''const { scrollYProgress } = useScroll();\<newline>'' @
               ''\<newline>'' @
               ''return (\<newline>'' @
               ''  <motion.div\<newline>'' @
               ''    className='' @ [CHR 0x22] @ ''progress-bar'' @ [CHR 0x22] @ ''\<newline>'' @
               ''    style={{ scaleX: scrollYProgress }}\<newline>'' @
               ''    transformOrigin='' @ [CHR 0x22] @ ''0%'' @ [CHR 0x22] @ ''\<newline>'' @
               ''  />\<newline>'' @
               '');''))]"

definition SEARCHABLE_EXAMPLES :: "json list" where
  "SEARCHABLE_EXAMPLES =
    [SEARCHABLE_EXAMPLES_spring_button,
     SEARCHABLE_EXAMPLES_drag_card,
     SEARCHABLE_EXAMPLES_fade_in_list,
     SEARCHABLE_EXAMPLES_parallax_scroll,
     SEARCHABLE_EXAMPLES_modal_animation,
     SEARCHABLE_EXAMPLES_loading_spinner,
     SEARCHABLE_EXAMPLES_hero_text_animation,
     SEARCHABLE_EXAMPLES_image_gallery,
     SEARCHABLE_EXAMPLES_navigation_menu,
     SEARCHABLE_EXAMPLES_progress_bar]"

subsection \<open>MOTION_DOCS (src/tools/repository/get-motion-docs.ts)\<close>

definition MOTION_DOCS_getting_started :: json where
  "MOTION_DOCS_getting_started =
     JObj [
       (''title'', JStr ''Getting Started with Motion''),
       (''description'', JStr ''Learn the basics of Motion animation library''),
       (''content'', JStr (''# Getting Started with Motion\<newline>'' @
               ''\<newline>'' @
               ''Motion is a powerful animation library that provides APIs for both JavaScript and React. It combines the simplicity of CSS transitions with the power of JavaScript animations.\<newline>'' @
               ''\<newline>'' @
               ''## Installation\<newline>'' @
               ''\<newline>'' @
               ''### For React projects:\<newline>'' @
               [CHR 0x60, CHR 0x60, CHR 0x60] @ ''bash\<newline>'' @
               ''npm install motion\<newline>'' @
               [CHR 0x60, CHR 0x60, CHR 0x60] @ ''\<newline>'' @
               ''\<newline>'' @
               ''### For vanilla JavaScript:\<newline>'' @
               [CHR 0x60, CHR 0x60, CHR 0x60] @ ''bash\<newline>'' @
               ''npm install motion\<newline>'' @
               [CHR 0x60, CHR 0x60, CHR 0x60] @ ''\<newline>'' @
               ''\<newline>'' @
               ''## Basic Usage\<newline>'' @
               ''\<newline>'' @
               ''### React\<newline>'' @
               [CHR 0x60, CHR 0x60, CHR 0x60] @ ''jsx\<newline>'' @
               ''import { motion } from '' @ [CHR 0x22] @ ''motion/react'' @ [CHR 0x22] @
               '';\<newline>'' @
               ''\<newline>'' @
               ''function App() {\<newline>'' @
               ''  return (\<newline>'' @
               ''    <motion.div\<newline>'' @
               ''      initial={{ opacity: 0, y: 20 }}\<newline>'' @
               ''      animate={{ opacity: 1, y: 0 }}\<newline>'' @
               ''      transition={{ duration: 0.5 }}\<newline>'' @
               ''    >\<newline>'' @
               ''      Hello, Motion!\<newline>'' @
               ''    </motion.div>\<newline>'' @
               ''  );\<newline>'' @
               ''}\<newline>'' @
               [CHR 0x60, CHR 0x60, CHR 0x60] @ ''\<newline>'' @
               ''\<newline>'' @
               ''### JavaScript\<newline>'' @
               [CHR 0x60, CHR 0x60, CHR 0x60] @ ''javascript\<newline>'' @
               ''import { animate } from '' @ [CHR 0x22] @ ''motion'' @ [CHR 0x22] @ '';\<newline>'' @
               ''\<newline>'' @
               ''animate('' @ [CHR 0x22] @ ''#my-element'' @ [CHR 0x22] @
               '', { x: 100, rotate: 180 });\<newline>'' @
               [CHR 0x60, CHR 0x60, CHR 0x60] @ ''\<newline>'' @
               ''\<newline>'' @
               ''## Core Concepts\<newline>'' @
               ''\<newline>'' @
               ''1. **Declarative**: Describe what you want, not how to achieve it\<newline>'' @
               ''2. **Performant**: Optimized for smooth 60fps animations\<newline>'' @
               ''3. **Flexible**: Works with any CSS property or custom values\<newline>'' @
               ''4. **Gesture-ready**: Built-in support for drag, hover, and tap'')),
       (''relatedTopics'', JArr [JStr ''animation-basics'', JStr ''installation'', JStr ''first-animation'']),
       (''nextSteps'', JArr [JStr ''animation-controls'', JStr ''gestures'', JStr ''layout-animations''])]"

definition MOTION_DOCS_animation_controls :: json where
  "MOTION_DOCS_animation_controls =
     JObj [
       (''title'', JStr ''Animation Controls''),
       (''description'', JStr ''Learn how to control animations programmatically''),
       (''content'', JStr (''# Animation Controls\<newline>'' @
               ''\<newline>'' @
               ''Motion provides several ways to control animations programmatically, giving you fine-grained control over when and how animations play.\<newline>'' @
               ''\<newline>'' @
               ''## useAnimationControls (React)\<newline>'' @
               ''\<newline>'' @
               [CHR 0x60, CHR 0x60, CHR 0x60] @ ''jsx\<newline>'' @
               ''import { motion, useAnimationControls } from '' @ [CHR 0x22] @ ''motion/react'' @
               [CHR 0x22] @ '';\<newline>'' @
               ''\<newline>'' @
               ''function ControlledAnimation() {\<newline>'' @
               ''  const controls = useAnimationControls();\<newline>'' @
               ''\<newline>'' @
               ''  const startAnimation = () => {\<newline>'' @
               ''    controls.start({\<newline>'' @
               ''      x: 100,\<newline>'' @
               ''      transition: { duration: 1 }\<newline>'' @
               ''    });\<newline>'' @
               ''  };\<newline>'' @
               ''\<newline>'' @
               ''  return (\<newline>'' @
               ''    <div>\<newline>'' @
               ''      <motion.div animate={controls} />\<newline>'' @
               ''      <button onClick={startAnimation}>Start Animation</button>\<newline>'' @
               ''    </div>\<newline>'' @
               ''  );\<newline>'' @
               ''}\<newline>'' @
               [CHR 0x60, CHR 0x60, CHR 0x60] @ ''\<newline>'' @
               ''\<newline>'' @
               ''## JavaScript Controls\<newline>'' @
               ''\<newline>'' @
               [CHR 0x60, CHR 0x60, CHR 0x60] @ ''javascript\<newline>'' @
               ''import { animate } from '' @ [CHR 0x22] @ ''motion'' @ [CHR 0x22] @ '';\<newline>'' @
               ''\<newline>'' @
               ''const animation = animate('' @ [CHR 0x22] @ ''#element'' @ [CHR 0x22] @
               '', { x: 100 });\<newline>'' @
               ''\<newline>'' @
               ''// Control the animation\<newline>'' @
               ''animation.pause();\<newline>'' @
               ''animation.play();\<newline>'' @
               ''animation.stop();\<newline>'' @
               ''animation.finish();\<newline>'' @
               [CHR 0x60, CHR 0x60, CHR 0x60] @ ''\<newline>'' @
               ''\<newline>'' @
               ''## Animation States\<newline>'' @
               ''\<newline>'' @
               ''- **Play**: Continue or start the animation\<newline>'' @
               ''- **Pause**: Temporarily stop the animation\<newline>'' @
               ''- **Stop**: End the animation and reset to initial state\<newline>'' @
               ''- **Finish**: Jump to the final state\<newline>'' @
               ''\<newline>'' @
               ''## Chaining Animations\<newline>'' @
               ''\<newline>'' @
               [CHR 0x60, CHR 0x60, CHR 0x60] @ ''jsx\<newline>'' @
               ''controls.start({ x: 100 })\<newline>'' @
               ''  .then(() => controls.start({ y: 100 }))\<newline>'' @
               ''  .then(() => controls.start({ rotate: 180 }));\<newline>'' @
               [CHR 0x60, CHR 0x60, CHR 0x60])),
       (''relatedTopics'', JArr [JStr ''useAnimationControls'', JStr ''animation-lifecycle'', JStr ''chaining'']),
       (''nextSteps'', JArr [JStr ''gestures'', JStr ''timeline'', JStr ''sequence''])]"

definition MOTION_DOCS_gestures :: json where
  "MOTION_DOCS_gestures =
     JObj [
       (''title'', JStr ''Gesture Animations''),
       (''description'', JStr ''Interactive animations triggered by user gestures''),
       (''content'', JStr (''# Gesture Animations\<newline>'' @
               ''\<newline>'' @
               ''Motion makes it easy to create interactive animations that respond to user input like hover, tap, and drag.\<newline>'' @
               ''\<newline>'' @
               ''## Hover Animations\<newline>'' @
               ''\<newline>'' @
               [CHR 0x60, CHR 0x60, CHR 0x60] @ ''jsx\<newline>'' @
               ''<motion.div\<newline>'' @
               ''  whileHover={{ scale: 1.1, rotateZ: 5 }}\<newline>'' @
               ''  transition={{ type: '' @ [CHR 0x22] @ ''spring'' @ [CHR 0x22] @
               '', stiffness: 300 }}\<newline>'' @
               ''>\<newline>'' @
               ''  Hover me!\<newline>'' @
               ''</motion.div>\<newline>'' @
               [CHR 0x60, CHR 0x60, CHR 0x60] @ ''\<newline>'' @
               ''\<newline>'' @
               ''## Tap Animations\<newline>'' @
               ''\<newline>'' @
               [CHR 0x60, CHR 0x60, CHR 0x60] @ ''jsx\<newline>'' @
               ''<motion.button\<newline>'' @
               ''  whileTap={{ scale: 0.95 }}\<newline>'' @
               ''  onTap={() => console.log('' @ [CHR 0x22] @ ''Button tapped!'' @ [CHR 0x22] @
               '')}\<newline>'' @
               ''>\<newline>'' @
               ''  Tap me!\<newline>'' @
               ''</motion.button>\<newline>'' @
               [CHR 0x60, CHR 0x60, CHR 0x60] @ ''\<newline>'' @
               ''\<newline>'' @
               ''## Drag Gestures\<newline>'' @
               ''\<newline>'' @
               [CHR 0x60, CHR 0x60, CHR 0x60] @ ''jsx\<newline>'' @
               ''<motion.div\<newline>'' @
               ''  drag\<newline>'' @
               ''  dragConstraints={{ left: 0, right: 300, top: 0, bottom: 300 }}\<newline>'' @
               ''  whileDrag={{ scale: 1.2 }}\<newline>'' @
               ''  onDrag={(event, info) => console.log(info.point)}\<newline>'' @
               ''>\<newline>'' @
               ''  Drag me around!\<newline>'' @
               ''</motion.div>\<newline>'' @
               [CHR 0x60, CHR 0x60, CHR 0x60] @ ''\<newline>'' @
               ''\<newline>'' @
               ''## Advanced Drag Features\<newline>'' @
               ''\<newline>'' @
               ''- **Constraints**: Limit drag movement to specific bounds\<newline>'' @
               ''- **Elastic**: Add bounce-back behavior when dragging beyond constraints\<newline>'' @
               ''- **Momentum**: Continue movement after release based on velocity\<newline>'' @
               ''- **Snap**: Snap to specific positions or grid\<newline>'' @
               ''\<newline>'' @
               ''## Gesture Event Handlers\<newline>'' @
               ''\<newline>'' @
               ''- '' @ [CHR 0x60] @ ''onHoverStart'' @ [CHR 0x60] @ '' / '' @ [CHR 0x60] @
               ''onHoverEnd'' @ [CHR 0x60] @ ''\<newline>'' @
               ''- '' @ [CHR 0x60] @ ''onTapStart'' @ [CHR 0x60] @ '' / '' @ [CHR 0x60] @ ''onTap'' @
               [CHR 0x60] @ '' / '' @ [CHR 0x60] @ ''onTapCancel'' @ [CHR 0x60] @ ''\<newline>'' @
               ''- '' @ [CHR 0x60] @ ''onDragStart'' @ [CHR 0x60] @ '' / '' @ [CHR 0x60] @
               ''onDrag'' @ [CHR 0x60] @ '' / '' @ [CHR 0x60] @ ''onDragEnd'' @ [CHR 0x60] @
               ''\<newline>'' @
               ''- '' @ [CHR 0x60] @ ''onPanStart'' @ [CHR 0x60] @ '' / '' @ [CHR 0x60] @ ''onPan'' @
               [CHR 0x60] @ '' / '' @ [CHR 0x60] @ ''onPanEnd'' @ [CHR 0x60])),
       (''relatedTopics'', JArr [JStr ''drag'', JStr ''hover'', JStr ''tap'', JStr ''pan'', JStr ''gestures'']),
       (''nextSteps'', JArr [JStr ''drag-controls'', JStr ''gesture-recognition'', JStr ''touch-gestures''])]"

definition MOTION_DOCS_layout_animations :: json where
  "MOTION_DOCS_layout_animations =
     JObj [
       (''title'', JStr ''Layout Animations''),
       (''description'', JStr ''Smooth animations when elements change size or position''),
       (''content'', JStr (''# Layout Animations\<newline>'' @
               ''\<newline>'' @
               ''Layout animations automatically animate elements when their size or position changes in the DOM layout.\<newline>'' @
               ''\<newline>'' @
               ''## Basic Layout Animation\<newline>'' @
               ''\<newline>'' @
               [CHR 0x60, CHR 0x60, CHR 0x60] @ ''jsx\<newline>'' @
               ''<motion.div layout>\<newline>'' @
               ''  This element will animate when its layout changes\<newline>'' @
               ''</motion.div>\<newline>'' @
               [CHR 0x60, CHR 0x60, CHR 0x60] @ ''\<newline>'' @
               ''\<newline>'' @
               ''## Shared Layout Animations\<newline>'' @
               ''\<newline>'' @
               [CHR 0x60, CHR 0x60, CHR 0x60] @ ''jsx\<newline>'' @
               ''// Component A\<newline>'' @
               ''<motion.div layoutId='' @ [CHR 0x22] @ ''shared-element'' @ [CHR 0x22] @
               ''>\<newline>'' @
               ''  I'' @ [CHR 0x27] @ ''m in component A\<newline>'' @
               ''</motion.div>\<newline>'' @
               ''\<newline>'' @
               ''// Component B (rendered conditionally)\<newline>'' @
               ''<motion.div layoutId='' @ [CHR 0x22] @ ''shared-element'' @ [CHR 0x22] @
               ''>\<newline>'' @
               ''  Now I'' @ [CHR 0x27] @ ''m in component B!\<newline>'' @
               ''</motion.div>\<newline>'' @
               [CHR 0x60, CHR 0x60, CHR 0x60] @ ''\<newline>'' @
               ''\<newline>'' @
               ''## Layout Groups\<newline>'' @
               ''\<newline>'' @
               [CHR 0x60, CHR 0x60, CHR 0x60] @ ''jsx\<newline>'' @
               ''import { LayoutGroup } from '' @ [CHR 0x22] @ ''motion/react'' @ [CHR 0x22] @
               '';\<newline>'' @
               ''\<newline>'' @
               ''<LayoutGroup>\<newline>'' @
               ''  <motion.div layout>Item 1</motion.div>\<newline>'' @
               ''  <motion.div layout>Item 2</motion.div>\<newline>'' @
               ''</LayoutGroup>\<newline>'' @
               [CHR 0x60, CHR 0x60, CHR 0x60] @ ''\<newline>'' @
               ''\<newline>'' @
               ''## Layout Transition Options\<newline>'' @
               ''\<newline>'' @
               [CHR 0x60, CHR 0x60, CHR 0x60] @ ''jsx\<newline>'' @
               ''<motion.div\<newline>'' @
               ''  layout\<newline>'' @
               ''  transition={{\<newline>'' @
               ''    layout: { duration: 0.3, ease: '' @ [CHR 0x22] @ ''easeOut'' @ [CHR 0x22] @
               '' }\<newline>'' @
               ''  }}\<newline>'' @
               ''>\<newline>'' @
               ''  Custom layout transition\<newline>'' @
               ''</motion.div>\<newline>'' @
               [CHR 0x60, CHR 0x60, CHR 0x60] @ ''\<newline>'' @
               ''\<newline>'' @
               ''## Common Use Cases\<newline>'' @
               ''\<newline>'' @
               ''- **Reordering lists**: Smooth transitions when list items change order\<newline>'' @
               ''- **Responsive grids**: Animate when grid layout changes\<newline>'' @
               ''- **Accordion**: Smooth expand/collapse animations\<newline>'' @
               ''- **Tab switching**: Seamless transitions between tabs\<newline>'' @
               ''- **Modal positioning**: Animate modal placement changes\<newline>'' @
               ''\<newline>'' @
               ''## Performance Tips\<newline>'' @
               ''\<newline>'' @
               ''- Use '' @ [CHR 0x60] @ ''layout='' @ [CHR 0x22] @ ''position'' @
               [CHR 0x22, CHR 0x60] @ '' for position-only changes\<newline>'' @
               ''- Use '' @ [CHR 0x60] @ ''layout='' @ [CHR 0x22] @ ''size'' @ [CHR 0x22, CHR 0x60] @
               '' for size-only changes  \<newline>'' @
               ''- Avoid layout animations on many elements simultaneously\<newline>'' @
               ''- Consider using transforms instead for better performance'')),
       (''relatedTopics'', JArr [
           JStr ''layout'',
           JStr ''shared-elements'',
           JStr ''reorder'',
           JStr ''responsive'']),
       (''nextSteps'', JArr [JStr ''animate-presence'', JStr ''reorder-group'', JStr ''layout-projections''])]"

definition MOTION_DOCS_performance :: json where
  "MOTION_DOCS_performance =
     JObj [
       (''title'', JStr ''Performance Optimization''),
       (''description'', JStr ''Best practices for smooth and efficient animations''),
       (''content'', JStr (''# Performance Optimization\<newline>'' @
               ''\<newline>'' @
               ''Follow these guidelines to ensure your Motion animations run smoothly at 60fps.\<newline>'' @
               ''\<newline>'' @
               ''## Prefer Transform Properties\<newline>'' @
               ''\<newline>'' @
               ''Transform properties are GPU-accelerated and don'' @ [CHR 0x27] @
               ''t trigger layout recalculations:\<newline>'' @
               ''\<newline>'' @
               [CHR 0x60, CHR 0x60, CHR 0x60] @ ''jsx\<newline>'' @
               ''// Good - uses transforms\<newline>'' @
               ''<motion.div animate={{ x: 100, scale: 1.2, rotate: 45 }} />\<newline>'' @
               ''\<newline>'' @
               ''// Avoid - triggers layout\<newline>'' @
               ''<motion.div animate={{ left: 100, width: 200 }} />\<newline>'' @
               [CHR 0x60, CHR 0x60, CHR 0x60] @ ''\<newline>'' @
               ''\<newline>'' @
               ''## Animatable Properties (GPU-accelerated)\<newline>'' @
               ''\<newline>'' @
               ''- '' @ [CHR 0x60] @ ''x'' @ [CHR 0x60] @ '', '' @ [CHR 0x60] @ ''y'' @ [CHR 0x60] @
               '', '' @ [CHR 0x60] @ ''z'' @ [CHR 0x60] @ ''\<newline>'' @
               ''- '' @ [CHR 0x60] @ ''scale'' @ [CHR 0x60] @ '', '' @ [CHR 0x60] @ ''scaleX'' @
               [CHR 0x60] @ '', '' @ [CHR 0x60] @ ''scaleY'' @ [CHR 0x60] @ ''\<newline>'' @
               ''- '' @ [CHR 0x60] @ ''rotate'' @ [CHR 0x60] @ '', '' @ [CHR 0x60] @ ''rotateX'' @
               [CHR 0x60] @ '', '' @ [CHR 0x60] @ ''rotateY'' @ [CHR 0x60] @ '', '' @ [CHR 0x60] @
               ''rotateZ'' @ [CHR 0x60] @ ''\<newline>'' @
               ''- '' @ [CHR 0x60] @ ''skew'' @ [CHR 0x60] @ '', '' @ [CHR 0x60] @ ''skewX'' @
               [CHR 0x60] @ '', '' @ [CHR 0x60] @ ''skewY'' @ [CHR 0x60] @ ''\<newline>'' @
               ''- '' @ [CHR 0x60] @ ''opacity'' @ [CHR 0x60] @ ''\<newline>'' @
               ''\<newline>'' @
               ''## Layout-triggering Properties (Use sparingly)\<newline>'' @
               ''\<newline>'' @
               ''- '' @ [CHR 0x60] @ ''width'' @ [CHR 0x60] @ '', '' @ [CHR 0x60] @ ''height'' @
               [CHR 0x60] @ ''\<newline>'' @
               ''- '' @ [CHR 0x60] @ ''top'' @ [CHR 0x60] @ '', '' @ [CHR 0x60] @ ''left'' @
               [CHR 0x60] @ '', '' @ [CHR 0x60] @ ''right'' @ [CHR 0x60] @ '', '' @ [CHR 0x60] @
               ''bottom'' @ [CHR 0x60] @ ''\<newline>'' @
               ''- '' @ [CHR 0x60] @ ''margin'' @ [CHR 0x60] @ '', '' @ [CHR 0x60] @ ''padding'' @
               [CHR 0x60] @ ''\<newline>'' @
               ''- '' @ [CHR 0x60] @ ''border-width'' @ [CHR 0x60] @ ''\<newline>'' @
               ''\<newline>'' @
               ''## Reduce Motion for Accessibility\<newline>'' @
               ''\<newline>'' @
               [CHR 0x60, CHR 0x60, CHR 0x60] @ ''jsx\<newline>'' @
               ''import { useReducedMotion } from '' @ [CHR 0x22] @ ''motion/react'' @ [CHR 0x22] @
               '';\<newline>'' @
               ''\<newline>'' @
               ''function MyComponent() {\<newline>'' @
               ''  const shouldReduceMotion = useReducedMotion();\<newline>'' @
               ''  \<newline>'' @
               ''  return (\<newline>'' @
               ''    <motion.div\<newline>'' @
               ''      animate={{ x: shouldReduceMotion ? 0 : 100 }}\<newline>'' @
               ''      transition={{ duration: shouldReduceMotion ? 0 : 1 }}\<newline>'' @
               ''    >\<newline>'' @
               ''      Respects user preferences\<newline>'' @
               ''    </motion.div>\<newline>'' @
               ''  );\<newline>'' @
               ''}\<newline>'' @
               [CHR 0x60, CHR 0x60, CHR 0x60] @ ''\<newline>'' @
               ''\<newline>'' @
               ''## LazyMotion for Bundle Size\<newline>'' @
               ''\<newline>'' @
               [CHR 0x60, CHR 0x60, CHR 0x60] @ ''jsx\<newline>'' @
               ''import { LazyMotion, domAnimation, m } from '' @ [CHR 0x22] @ ''motion/react'' @
               [CHR 0x22] @ '';\<newline>'' @
               ''\<newline>'' @
               ''<LazyMotion features={domAnimation}>\<newline>'' @
               ''  <m.div animate={{ x: 100 }} />\<newline>'' @
               ''</LazyMotion>\<newline>'' @
               [CHR 0x60, CHR 0x60, CHR 0x60] @ ''\<newline>'' @
               ''\<newline>'' @
               ''## Performance Monitoring\<newline>'' @
               ''\<newline>'' @
               ''- Use browser dev tools to monitor FPS\<newline>'' @
               ''- Watch for layout thrashing in the Performance tab\<newline>'' @
               ''- Use Motion'' @ [CHR 0x27] @ ''s built-in performance warnings\<newline>'' @
               ''- Test on lower-end devices\<newline>'' @
               ''\<newline>'' @
               ''## Best Practices\<newline>'' @
               ''\<newline>'' @
               ''1. **Batch animations**: Group related animations together\<newline>'' @
               ''2. **Use will-change sparingly**: Only when needed for complex animations\<newline>'' @
               ''3. **Debounce scroll events**: Limit update frequency for scroll-based animations\<newline>'' @
               ''4. **Prefer CSS transforms**: Over changing layout properties\<newline>'' @
               ''5. **Test on mobile**: Ensure smooth performance on all devices'')),
       (''relatedTopics'', JArr [
           JStr ''optimization'',
           JStr ''gpu-acceleration'',
           JStr ''reduced-motion'',
           JStr ''bundle-size'']),
       (''nextSteps'', JArr [JStr ''debugging'', JStr ''profiling'', JStr ''accessibility''])]"

definition MOTION_DOCS_scroll_animations :: json where
  "MOTION_DOCS_scroll_animations =
     JObj [
       (''title'', JStr ''Scroll-Triggered Animations''),
       (''description'', JStr ''Create animations that respond to scroll position''),
       (''content'', JStr (''# Scroll-Triggered Animations\<newline>'' @
               ''\<newline>'' @
               ''Motion provides powerful tools for creating animations that respond to scroll position and element visibility.\<newline>'' @
               ''\<newline>'' @
               ''## useScroll Hook\<newline>'' @
               ''\<newline>'' @
               [CHR 0x60, CHR 0x60, CHR 0x60] @ ''jsx\<newline>'' @
               ''import { motion, useScroll, useTransform } from '' @ [CHR 0x22] @ ''motion/react'' @
               [CHR 0x22] @ '';\<newline>'' @
               ''\<newline>'' @
               ''function ScrollComponent() {\<newline>'' @
               ''  const { scrollYProgress } = useScroll();\<newline>'' @
               ''  const opacity = useTransform(scrollYProgress, [0, 1], [1, 0]);\<newline>'' @
               ''  \<newline>'' @
               ''  return (\<newline>'' @
               ''    <motion.div style={{ opacity }}>\<newline>'' @
               ''      Fades out as you scroll\<newline>'' @
               ''    </motion.div>\<newline>'' @
               ''  );\<newline>'' @
               ''}\<newline>'' @
               [CHR 0x60, CHR 0x60, CHR 0x60] @ ''\<newline>'' @
               ''\<newline>'' @
               ''## Element-specific Scroll Tracking\<newline>'' @
               ''\<newline>'' @
               [CHR 0x60, CHR 0x60, CHR 0x60] @ ''jsx\<newline>'' @
               ''function ElementScroll() {\<newline>'' @
               ''  const ref = useRef(null);\<newline>'' @
               ''  const { scrollYProgress } = useScroll({\<newline>'' @
               ''    target: ref,\<newline>'' @
               ''    offset: ['' @ [CHR 0x22] @ ''start end'' @ [CHR 0x22] @ '', '' @ [CHR 0x22] @
               ''end start'' @ [CHR 0x22] @ '']\<newline>'' @
               ''  });\<newline>'' @
               ''  \<newline>'' @
               ''  const y = useTransform(scrollYProgress, [0, 1], [0, -100]);\<newline>'' @
               ''  \<newline>'' @
               ''  return (\<newline>'' @
               ''    <motion.div ref={ref} style={{ y }}>\<newline>'' @
               ''      Parallax effect\<newline>'' @
               ''    </motion.div>\<newline>'' @
               ''  );\<newline>'' @
               ''}\<newline>'' @
               [CHR 0x60, CHR 0x60, CHR 0x60] @ ''\<newline>'' @
               ''\<newline>'' @
               ''## whileInView Animation\<newline>'' @
               ''\<newline>'' @
               [CHR 0x60, CHR 0x60, CHR 0x60] @ ''jsx\<newline>'' @
               ''<motion.div\<newline>'' @
               ''  initial={{ opacity: 0, y: 50 }}\<newline>'' @
               ''  whileInView={{ opacity: 1, y: 0 }}\<newline>'' @
               ''  viewport={{ once: true }}\<newline>'' @
               ''>\<newline>'' @
               ''  Animates when scrolled into view\<newline>'' @
               ''</motion.div>\<newline>'' @
               [CHR 0x60, CHR 0x60, CHR 0x60] @ ''\<newline>'' @
               ''\<newline>'' @
               ''## JavaScript Scroll API\<newline>'' @
               ''\<newline>'' @
               [CHR 0x60, CHR 0x60, CHR 0x60] @ ''javascript\<newline>'' @
               ''import { scroll, animate } from '' @ [CHR 0x22] @ ''motion'' @ [CHR 0x22] @
               '';\<newline>'' @
               ''\<newline>'' @
               ''// Animate based on scroll progress\<newline>'' @
               ''scroll(animate('' @ [CHR 0x22] @ ''.parallax'' @ [CHR 0x22] @
               '', { y: [0, -200] }));\<newline>'' @
               ''\<newline>'' @
               ''// Trigger animations when elements enter view\<newline>'' @
               ''inView('' @ [CHR 0x22] @ ''.fade-in'' @ [CHR 0x22] @ '', (info) => {\<newline>'' @
               ''  animate(info.target, { opacity: 1, y: 0 });\<newline>'' @
               ''});\<newline>'' @
               [CHR 0x60, CHR 0x60, CHR 0x60] @ ''\<newline>'' @
               ''\<newline>'' @
               ''## Common Patterns\<newline>'' @
               ''\<newline>'' @
               ''### Progress Indicator\<newline>'' @
               [CHR 0x60, CHR 0x60, CHR 0x60] @ ''jsx\<newline>'' @
               ''const { scrollYProgress } = useScroll();\<newline>'' @
               ''\<newline>'' @
               ''<motion.div\<newline>'' @
               ''  style={{ scaleX: scrollYProgress }}\<newline>'' @
               ''  className='' @ [CHR 0x22] @ ''progress-bar'' @ [CHR 0x22] @ ''\<newline>'' @
               ''/>\<newline>'' @
               [CHR 0x60, CHR 0x60, CHR 0x60] @ ''\<newline>'' @
               ''\<newline>'' @
               ''### Parallax Backgrounds\<newline>'' @
               [CHR 0x60, CHR 0x60, CHR 0x60] @ ''jsx\<newline>'' @
               ''const y = useTransform(scrollYProgress, [0, 1], ['' @ [CHR 0x22] @ ''0%'' @
               [CHR 0x22] @ '', '' @ [CHR 0x22] @ ''50%'' @ [CHR 0x22] @ '']);\<newline>'' @
               ''\<newline>'' @
               ''<motion.div style={{ y }} className='' @ [CHR 0x22] @ ''background'' @ [CHR 0x22] @
               '' />\<newline>'' @
               [CHR 0x60, CHR 0x60, CHR 0x60] @ ''\<newline>'' @
               ''\<newline>'' @
               ''### Reveal Animations\<newline>'' @
               [CHR 0x60, CHR 0x60, CHR 0x60] @ ''jsx\<newline>'' @
               ''<motion.section\<newline>'' @
               ''  initial={{ opacity: 0 }}\<newline>'' @
               ''  whileInView={{ opacity: 1 }}\<newline>'' @
               ''  transition={{ duration: 0.8 }}\<newline>'' @
               ''>\<newline>'' @
               ''  Content reveals on scroll\<newline>'' @
               ''</motion.section>\<newline>'' @
               [CHR 0x60, CHR 0x60, CHR 0x60])),
       (''relatedTopics'', JArr [
           JStr ''scroll'',
           JStr ''parallax'',
           JStr ''useScroll'',
           JStr ''whileInView'',
           JStr ''inView'']),
       (''nextSteps'', JArr [JStr ''scroll-velocity'', JStr ''intersection-observer'', JStr ''scroll-snap''])]"

definition MOTION_DOCS :: "(string \<times> json) list" where
  "MOTION_DOCS =
    [(''getting-started'', MOTION_DOCS_getting_started),
     (''animation-controls'', MOTION_DOCS_animation_controls),
     (''gestures'', MOTION_DOCS_gestures),
     (''layout-animations'', MOTION_DOCS_layout_animations),
     (''performance'', MOTION_DOCS_performance),
     (''scroll-animations'', MOTION_DOCS_scroll_animations)]"

section \<open>The tool handlers\<close>

text \<open>
  A handler reads the clock and the process-wide cache and returns its result with the
  cache it leaves. The body of its \<^verbatim>\<open>try\<close> block returns \<open>Inl\<close> of what it threw, and the
  \<^verbatim>\<open>catch\<close> block turns that into a result. \<open>now\<close> is the value of \<^verbatim>\<open>Date.now()\<close> during
  the call.
\<close>

text \<open>\<^verbatim>\<open>error instanceof Error ? error.message : 'Unknown error'\<close>, where the
  \<^verbatim>\<open>catch\<close> block evaluates it: for what is not a \<^verbatim>\<open>ZodError\<close>.\<close>

definition error_message :: "exn \<Rightarrow> string" where
  "error_message error =
     (case error of Error m \<Rightarrow> m | TypeError m \<Rightarrow> m | _ \<Rightarrow> ''Unknown error'')"

definition is_ZodError :: "exn \<Rightarrow> bool" where
  "is_ZodError error = (case error of ZodError issues \<Rightarrow> True | _ \<Rightarrow> False)"

definition catch_block :: "string \<Rightarrow> string \<Rightarrow> exn \<Rightarrow> json" where
  "catch_block invalid_text failure_text error =
     (case error of
        ZodError issues \<Rightarrow>
          JObj [(''error'', JStr invalid_text), (''details'', JArr issues)]
      | _ \<Rightarrow>
          JObj [(''error'', JStr failure_text), (''message'', JStr (error_message error))])"

definition try_catch ::
  "string \<Rightarrow> string \<Rightarrow> (exn + json) \<times> Cache \<Rightarrow> json \<times> Cache" where
  "try_catch invalid_text failure_text outcome =
     (case outcome of
        (Inr result, c) \<Rightarrow> (result, c)
      | (Inl error, c) \<Rightarrow> (catch_block invalid_text failure_text error, c))"

text \<open>The names of a table that contain the requested name, or are contained in it,
  without regard to case.\<close>

definition similar_names :: "(string \<times> json) list \<Rightarrow> string \<Rightarrow> string list" where
  "similar_names tbl wanted =
     filter (\<lambda>name. str_includes (toLowerCase name) (toLowerCase wanted)
                   \<or> str_includes (toLowerCase wanted) (toLowerCase name))
       (map fst tbl)"

definition or_default :: "string list \<Rightarrow> string list \<Rightarrow> json" where
  "or_default similar fallback = JArr (map JStr (if length similar > 0 then similar else fallback))"

subsection \<open>get_motion_component (src/tools/components/get-motion-component.ts)\<close>

text \<open>The two results the handler builds: for a name the table does not have, and for
  an entry of the table (\<open>category\<close> is the entry's category as the template literal
  prints it).\<close>

definition component_not_found :: "string \<Rightarrow> json" where
  "component_not_found componentName =
     (let similar = similar_names MOTION_COMPONENTS componentName
      in JObj
        [(''error'', JStr (''Component '' @ [CHR 0x22] @ componentName @ [CHR 0x22] @ '' not found'')),
         (''availableComponents'', JArr (map JStr (map fst MOTION_COMPONENTS))),
         (''suggestions'', or_default similar [''motion.div'', ''animate'', ''useAnimate''])])"

definition component_found :: "string \<Rightarrow> json \<Rightarrow> string \<Rightarrow> json" where
  "component_found componentName componentInfo category =
     JObj
       ([(''name'', JStr componentName),
         (''type'', field_of componentInfo ''type''),
         (''description'', field_of componentInfo ''description''),
         (''category'', field_of componentInfo ''category''),
         (''examples'', field_of componentInfo ''examples'')]
        @ (if has_key ''props'' componentInfo
           then [(''props'', field_of componentInfo ''props'')] else [])
        @ (if has_key ''parameters'' componentInfo
           then [(''parameters'', field_of componentInfo ''parameters'')] else [])
        @ (if has_key ''returns'' componentInfo
           then [(''returns'', field_of componentInfo ''returns'')] else [])
        @ [(''documentation'', JStr (''https://motion.dev/docs/'' @ category)),
           (''relatedComponents'',
            JArr (map JStr (take 5 (filter
              (\<lambda>name. field_of (table_lookup MOTION_COMPONENTS name) ''category''
                         = field_of componentInfo ''category''
                       \<and> name \<noteq> componentName)
              (map fst MOTION_COMPONENTS)))))])"

definition handleGetMotionComponent_try :: "int \<Rightarrow> json \<Rightarrow> Cache \<Rightarrow> (exn + json) \<times> Cache" where
  "handleGetMotionComponent_try now params c =
     (case get_property params ''componentName'' of
        Inl e \<Rightarrow> (Inl e, c)
      | Inr raw \<Rightarrow>
     (case componentNameSchema raw of
        Inl e \<Rightarrow> (Inl e, c)
      | Inr componentName \<Rightarrow>
     (let cacheKey = ''motion-component-'' @ componentName;
          (cached, c1) = cache_get now c cacheKey
      in if truthy cached then (Inr cached, c1)
      else
        let componentInfo = table_lookup MOTION_COMPONENTS componentName
        in if \<not> truthy componentInfo then
          let result = component_not_found componentName
          in (Inr result, cache_set now c1 cacheKey result (Some 300000))
        else
          (case toString (field_of componentInfo ''category'') of
             Inl e \<Rightarrow> (Inl e, c1)
           | Inr category \<Rightarrow>
               let result = component_found componentName componentInfo category
               in (Inr result, cache_set now c1 cacheKey result (Some 300000))))))"

definition handleGetMotionComponent :: "int \<Rightarrow> json \<Rightarrow> Cache \<Rightarrow> json \<times> Cache" where
  "handleGetMotionComponent now params c =
     try_catch ''Invalid parameters'' ''An error occurred while fetching component information''
       (handleGetMotionComponent_try now params c)"

subsection \<open>list_motion_components (src/tools/components/list-motion-components.ts)\<close>

text \<open>The property key of \<^verbatim>\<open>MOTION_COMPONENTS_LIST[category]\<close> is \<^verbatim>\<open>String(category)\<close>, the
  string the cache key ends in when \<^verbatim>\<open>category\<close> is truthy.\<close>

definition list_invalid_category :: "string \<Rightarrow> json" where
  "list_invalid_category name =
     JObj [(''error'', JStr (''Invalid category: '' @ name)),
           (''availableCategories'', JArr (map JStr (map fst MOTION_COMPONENTS_LIST)))]"

definition list_of_category :: "json \<Rightarrow> json \<Rightarrow> json" where
  "list_of_category category components =
     JObj [(''category'', category),
           (''components'', components),
           (''totalCount'', JNum (array_length components))]"

text \<open>\<^verbatim>\<open>acc[key] = components.length\<close> on an object created by \<^verbatim>\<open>{}\<close>: an own property is
  written or added; a number assigned to \<^verbatim>\<open>__proto__\<close> goes to the inherited setter, which
  ignores it.\<close>

definition set_count :: "(string \<times> json) list \<Rightarrow> string \<Rightarrow> int \<Rightarrow> (string \<times> json) list" where
  "set_count acc key n = (if key = ''__proto__'' then acc else set_property acc key (JNum n))"

definition list_of_all :: json where
  "list_of_all =
     (let totalCount = foldl (\<lambda>sum components. sum + array_length components) 0
                         (map snd MOTION_COMPONENTS_LIST)
      in JObj
        [(''categories'', JObj MOTION_COMPONENTS_LIST),
         (''summary'', JObj
            [(''totalComponents'', JNum totalCount),
             (''categoryCounts'', JObj (foldl
                (\<lambda>acc (key, components). set_count acc key (array_length components))
                [] MOTION_COMPONENTS_LIST))]),
         (''gettingStarted'', JObj
            [(''react'', JStr ''npm install motion''),
             (''javascript'', JStr (''import { animate } from '' @ [CHR 0x22] @ ''motion'' @ [CHR 0x22])),
             (''documentation'', JStr ''https://motion.dev/docs'')])])"

definition handleListMotionComponents_try :: "int \<Rightarrow> json \<Rightarrow> Cache \<Rightarrow> (exn + json) \<times> Cache" where
  "handleListMotionComponents_try now params c =
     (let validatedParams = (if truthy params then params else JObj []);
          category = field_of validatedParams ''category''
      in
     (case (if truthy category then toString category else Inr []) of
        Inl e \<Rightarrow> (Inl e, c)
      | Inr logged \<Rightarrow>
     (case toString (if truthy category then category else JStr ''all'') of
        Inl e \<Rightarrow> (Inl e, c)
      | Inr name \<Rightarrow>
     (let cacheKey = ''motion-components-list-'' @ name;
          (cached, c1) = cache_get now c cacheKey
      in if truthy cached then (Inr cached, c1)
      else if truthy category then
        (case categorySchema category of
           Inl e \<Rightarrow> (Inl e, c1)
         | Inr parsed \<Rightarrow>
             let components = table_lookup MOTION_COMPONENTS_LIST name;
                 result = (if \<not> truthy components then list_invalid_category name
                           else list_of_category category components)
             in (Inr result, cache_set now c1 cacheKey result (Some 600000)))
      else
        let result = list_of_all
        in (Inr result, cache_set now c1 cacheKey result (Some 600000))))))"

definition handleListMotionComponents :: "int \<Rightarrow> json \<Rightarrow> Cache \<Rightarrow> json \<times> Cache" where
  "handleListMotionComponents now params c =
     try_catch ''Invalid parameters'' ''An error occurred while listing components''
       (handleListMotionComponents_try now params c)"

subsection \<open>get_motion_example (src/tools/examples/get-motion-example.ts)\<close>

definition exampleTypeSchema :: "json \<Rightarrow> exn + string" where
  "exampleTypeSchema =
     parse_string (\<lambda>s. min_length 1 ''Example type cannot be empty'' s
                      @ max_length 100 ''Example type too long'' s)"

definition example_tips :: json where
  "example_tips = JArr
     [JStr (''Always import Motion components from '' @ [CHR 0x22] @ ''motion/react'' @ [CHR 0x22]
            @ '' for React projects''),
      JStr ''Use TypeScript for better development experience and type safety'',
      JStr ''Consider performance with many animated elements - use transform properties when possible'',
      JStr ''Test animations on different devices and screen sizes'']"

definition example_not_found :: "string \<Rightarrow> json" where
  "example_not_found exampleType =
     (let similar = similar_names MOTION_EXAMPLES exampleType
      in JObj
        [(''error'', JStr (''Example '' @ [CHR 0x22] @ exampleType @ [CHR 0x22] @ '' not found'')),
         (''availableExamples'', JArr (map JStr (map fst MOTION_EXAMPLES))),
         (''suggestions'',
          or_default similar [''spring-animation'', ''drag-gesture'', ''layout-animation''])])"

definition example_found :: "string \<Rightarrow> json \<Rightarrow> string \<Rightarrow> json" where
  "example_found exampleType example category =
     JObj
       [(''exampleType'', JStr exampleType),
        (''title'', field_of example ''title''),
        (''description'', field_of example ''description''),
        (''category'', field_of example ''category''),
        (''examples'', field_of example ''examples''),
        (''relatedTopics'', field_of example ''relatedTopics''),
        (''tips'', example_tips),
        (''documentation'', JStr (''https://motion.dev/docs/'' @ category)),
        (''playground'', JStr ''https://motion.dev/examples'')]"

definition handleGetMotionExample_try :: "int \<Rightarrow> json \<Rightarrow> Cache \<Rightarrow> (exn + json) \<times> Cache" where
  "handleGetMotionExample_try now params c =
     (case get_property params ''exampleType'' of
        Inl e \<Rightarrow> (Inl e, c)
      | Inr raw \<Rightarrow>
     (case exampleTypeSchema raw of
        Inl e \<Rightarrow> (Inl e, c)
      | Inr exampleType \<Rightarrow>
     (let cacheKey = ''motion-example-'' @ exampleType;
          (cached, c1) = cache_get now c cacheKey
      in if truthy cached then (Inr cached, c1)
      else
        let example = table_lookup MOTION_EXAMPLES exampleType
        in if \<not> truthy example then
          let result = example_not_found exampleType
          in (Inr result, cache_set now c1 cacheKey result (Some 300000))
        else
          (case toString (field_of example ''category'') of
             Inl e \<Rightarrow> (Inl e, c1)
           | Inr category \<Rightarrow>
               let result = example_found exampleType example category
               in (Inr result, cache_set now c1 cacheKey result (Some 600000))))))"

definition handleGetMotionExample :: "int \<Rightarrow> json \<Rightarrow> Cache \<Rightarrow> json \<times> Cache" where
  "handleGetMotionExample now params c =
     try_catch ''Invalid parameters'' ''An error occurred while fetching example''
       (handleGetMotionExample_try now params c)"

subsection \<open>search_motion_examples (src/tools/examples/search-motion-examples.ts)\<close>

definition search_cache_key :: "string \<Rightarrow> string" where
  "search_cache_key query = ''motion-search-'' @ replace_whitespace_runs (toLowerCase query)"

definition search_terms :: "string \<Rightarrow> string list" where
  "search_terms query = split_whitespace (toLowerCase query)"

definition searchable_text :: "json \<Rightarrow> string" where
  "searchable_text example =
     toLowerCase (join '' ''
       ([str_of (field_of example ''title''), str_of (field_of example ''description'')]
        @ strs_of (field_of example ''tags'')
        @ [str_of (field_of example ''category''), str_of (field_of example ''code'')]))"

definition matches :: "string list \<Rightarrow> json \<Rightarrow> bool" where
  "matches searchTerms example =
     list_ex (\<lambda>term. str_includes (searchable_text example) term) searchTerms"

definition relevance :: "string list \<Rightarrow> json \<Rightarrow> int" where
  "relevance searchTerms example =
     foldl (\<lambda>relevanceScore term.
              relevanceScore
              + (if str_includes (toLowerCase (str_of (field_of example ''title''))) term then 3 else 0)
              + (if str_includes (toLowerCase (str_of (field_of example ''description''))) term then 2 else 0)
              + (if list_ex (\<lambda>tag. str_includes tag term) (strs_of (field_of example ''tags''))
                 then 1 else 0))
       0 searchTerms"

text \<open>Filter, score, and sort by descending score; \<^verbatim>\<open>Array.prototype.sort\<close> is stable, as
  \<open>sort_key\<close> is. The score is dropped from the entries returned.\<close>

definition search_results :: "string list \<Rightarrow> json list" where
  "search_results searchTerms =
     map fst (sort_key (\<lambda>(example, relevanceScore). - relevanceScore)
       (map (\<lambda>example. (example, relevance searchTerms example))
          (filter (matches searchTerms) SEARCHABLE_EXAMPLES)))"

definition search_result :: "string \<Rightarrow> json" where
  "search_result query =
     (let results = search_results (search_terms query)
      in JObj
        [(''query'', JStr query),
         (''totalResults'', JNum (int (length results))),
         (''results'', JArr results),
         (''suggestions'',
          if length results = 0 then JArr
            [JStr (''Try broader terms like '' @ [CHR 0x22] @ ''animation'' @ [CHR 0x22] @ '', ''
                   @ [CHR 0x22] @ ''gesture'' @ [CHR 0x22] @ '', or '' @ [CHR 0x22] @ ''scroll'' @ [CHR 0x22]),
             JStr (''Search for specific components like '' @ [CHR 0x22] @ ''button'' @ [CHR 0x22] @ '', ''
                   @ [CHR 0x22] @ ''modal'' @ [CHR 0x22] @ '', or '' @ [CHR 0x22] @ ''card'' @ [CHR 0x22]),
             JStr (''Look for animation types like '' @ [CHR 0x22] @ ''spring'' @ [CHR 0x22] @ '', ''
                   @ [CHR 0x22] @ ''fade'' @ [CHR 0x22] @ '', or '' @ [CHR 0x22] @ ''slide'' @ [CHR 0x22])]
          else JUndefined),
         (''categories'',
          JArr [JStr ''animations'', JStr ''gestures'', JStr ''layout'', JStr ''scroll'', JStr ''text'']),
         (''popularExamples'',
          if length results = 0 then JArr
            [JStr ''spring-button'', JStr ''drag-card'', JStr ''fade-in-list'', JStr ''parallax-scroll'']
          else JUndefined)])"

definition handleSearchMotionExamples_try :: "int \<Rightarrow> json \<Rightarrow> Cache \<Rightarrow> (exn + json) \<times> Cache" where
  "handleSearchMotionExamples_try now params c =
     (case get_property params ''query'' of
        Inl e \<Rightarrow> (Inl e, c)
      | Inr raw \<Rightarrow>
     (case searchQuerySchema raw of
        Inl e \<Rightarrow> (Inl e, c)
      | Inr query \<Rightarrow>
     (let cacheKey = search_cache_key query;
          (cached, c1) = cache_get now c cacheKey
      in if truthy cached then (Inr cached, c1)
      else
        let result = search_result query
        in (Inr result, cache_set now c1 cacheKey result (Some 300000)))))"

definition handleSearchMotionExamples :: "int \<Rightarrow> json \<Rightarrow> Cache \<Rightarrow> json \<times> Cache" where
  "handleSearchMotionExamples now params c =
     try_catch ''Invalid search query'' ''An error occurred while searching examples''
       (handleSearchMotionExamples_try now params c)"

subsection \<open>get_motion_docs (src/tools/repository/get-motion-docs.ts)\<close>

text \<open>\<open>today\<close> is the value of \<^verbatim>\<open>new Date().toISOString().split('T')[0]\<close>.\<close>

definition docs_not_found :: "string \<Rightarrow> json" where
  "docs_not_found topic =
     (let similar = similar_names MOTION_DOCS topic
      in JObj
        [(''error'', JStr (''Documentation topic '' @ [CHR 0x22] @ topic @ [CHR 0x22] @ '' not found'')),
         (''availableTopics'', JArr (map JStr (map fst MOTION_DOCS))),
         (''suggestions'',
          or_default similar [''getting-started'', ''animation-controls'', ''gestures''])])"

definition docs_found :: "string \<Rightarrow> string \<Rightarrow> json \<Rightarrow> json" where
  "docs_found today topic doc =
     JObj
       [(''topic'', JStr topic),
        (''title'', field_of doc ''title''),
        (''description'', field_of doc ''description''),
        (''content'', field_of doc ''content''),
        (''relatedTopics'', field_of doc ''relatedTopics''),
        (''nextSteps'', field_of doc ''nextSteps''),
        (''officialDocs'', JStr (''https://motion.dev/docs/'' @ topic)),
        (''examples'', JStr ''https://motion.dev/examples''),
        (''lastUpdated'', JStr today)]"

definition handleGetMotionDocs_try ::
  "int \<Rightarrow> string \<Rightarrow> json \<Rightarrow> Cache \<Rightarrow> (exn + json) \<times> Cache" where
  "handleGetMotionDocs_try now today params c =
     (case get_property params ''topic'' of
        Inl e \<Rightarrow> (Inl e, c)
      | Inr raw \<Rightarrow>
     (case topicSchema raw of
        Inl e \<Rightarrow> (Inl e, c)
      | Inr topic \<Rightarrow>
     (let cacheKey = ''motion-docs-'' @ topic;
          (cached, c1) = cache_get now c cacheKey
      in if truthy cached then (Inr cached, c1)
      else
        let doc = table_lookup MOTION_DOCS topic
        in if \<not> truthy doc then
          let result = docs_not_found topic
          in (Inr result, cache_set now c1 cacheKey result (Some 300000))
        else
          let result = docs_found today topic doc
          in (Inr result, cache_set now c1 cacheKey result (Some 1800000)))))"

definition handleGetMotionDocs :: "int \<Rightarrow> string \<Rightarrow> json \<Rightarrow> Cache \<Rightarrow> json \<times> Cache" where
  "handleGetMotionDocs now today params c =
     try_catch ''Invalid topic parameter'' ''An error occurred while fetching documentation''
       (handleGetMotionDocs_try now today params c)"

subsection \<open>src/tools/index.ts\<close>

definition toolHandlers :: "(string \<times> (int \<Rightarrow> string \<Rightarrow> json \<Rightarrow> Cache \<Rightarrow> json \<times> Cache)) list" where
  "toolHandlers =
     [(''get_motion_component'', \<lambda>now today. handleGetMotionComponent now),
      (''list_motion_components'', \<lambda>now today. handleListMotionComponents now),
      (''get_motion_example'', \<lambda>now today. handleGetMotionExample now),
      (''search_motion_examples'', \<lambda>now today. handleSearchMotionExamples now),
      (''get_motion_docs'', handleGetMotionDocs)]"

text \<open>How a call can leave the cache: as it was but for an entry removed on read, or with
  one entry written.\<close>

definition untouched :: "Cache \<Rightarrow> Cache \<Rightarrow> bool" where
  "untouched c c' \<longleftrightarrow> c' = c \<or> (\<exists>key. c' = c(key := None))"

definition wrote :: "Cache \<Rightarrow> Cache \<Rightarrow> int \<Rightarrow> json \<Rightarrow> int \<Rightarrow> bool" where
  "wrote c c' now result t \<longleftrightarrow>
     (\<exists>key. c' = c(key \<mapsto> \<lparr>data = result, timestamp = now, ttl = t\<rparr>))"

section \<open>The cache: liveness on read, overwrite on write\<close>

lemma cache_set_overwrites:
  "cache_set t2 (cache_set t1 c k v1 ttl1) k v2 ttl2 = cache_set t2 c k v2 ttl2"
  by (simp add: cache_set_def)

text \<open>
  Claim C4. For every key and time, \<^verbatim>\<open>get\<close> returns the stored value when an entry exists
  with \<open>now - timestamp \<le> ttl\<close>; when the entry exists and is expired
  (\<open>now - timestamp > ttl\<close>) it deletes the entry and returns absent (\<^verbatim>\<open>null\<close>); with no
  entry it returns absent and leaves the cache alone. An expired value is never returned.
\<close>

theorem cache_get_live_expired_absent:
  "(c k = Some e \<and> now - timestamp e \<le> ttl e \<longrightarrow> cache_get now c k = (data e, c)) \<and>
   (c k = Some e \<and> now - timestamp e > ttl e \<longrightarrow> cache_get now c k = (JNull, c(k := None))) \<and>
   (c k = None \<longrightarrow> cache_get now c k = (JNull, c))"
  by (simp add: cache_get_def)

theorem cache_get_live_expired_absent_witness:
  "cache_get 1000 (cache_set 0 Map.empty ''k'' (JStr ''v'') (Some 1000)) ''k''
     = (JStr ''v'', cache_set 0 Map.empty ''k'' (JStr ''v'') (Some 1000)) \<and>
   cache_get 1100 (cache_set 0 Map.empty ''k'' (JStr ''v'') (Some 1000)) ''k''
     = (JNull, Map.empty) \<and>
   cache_get 1100 Map.empty ''k'' = (JNull, Map.empty)"
proof -
  let ?e = "\<lparr>data = JStr ''v'', timestamp = 0, ttl = 1000\<rparr>"
  let ?c = "cache_set 0 Map.empty ''k'' (JStr ''v'') (Some 1000)"
  have stored: "?c ''k'' = Some ?e"
    by (simp add: cache_set_def ttl_or_default_def)
  have gone: "?c(''k'' := None) = Map.empty"
    by (simp add: cache_set_def)
  have live: "cache_get 1000 ?c ''k'' = (JStr ''v'', ?c)"
    using cache_get_live_expired_absent [of ?c "''k''" ?e 1000] stored by simp
  have expired: "cache_get 1100 ?c ''k'' = (JNull, Map.empty)"
    using cache_get_live_expired_absent [of ?c "''k''" ?e 1100] stored gone by simp
  have absent: "cache_get 1100 Map.empty ''k'' = (JNull, Map.empty)"
    using cache_get_live_expired_absent [of Map.empty "''k''" ?e 1100] by simp
  from live expired absent show ?thesis by simp
qed

text \<open>
  Claim C9. \<^verbatim>\<open>set(k, v1)\<close> followed by \<^verbatim>\<open>set(k, v2)\<close> leaves exactly the entry of the second
  call: the cache equals the one a single \<^verbatim>\<open>set(k, v2)\<close> gives, a later \<^verbatim>\<open>get(k)\<close> returns
  \<open>v2\<close> as long as the time since the second \<^verbatim>\<open>set\<close> is within its TTL, and absent once
  that time exceeds it, whenever the first \<^verbatim>\<open>set\<close> was made.
\<close>

theorem cache_set_twice_resets_age:
  "cache_set t2 (cache_set t1 c k v1 ttl1) k v2 ttl2 = cache_set t2 c k v2 ttl2 \<and>
   (t3 - t2 \<le> ttl_or_default ttl2 \<longrightarrow>
      fst (cache_get t3 (cache_set t2 (cache_set t1 c k v1 ttl1) k v2 ttl2) k) = v2) \<and>
   (t3 - t2 > ttl_or_default ttl2 \<longrightarrow>
      fst (cache_get t3 (cache_set t2 (cache_set t1 c k v1 ttl1) k v2 ttl2) k) = JNull)"
  by (simp add: cache_set_def cache_get_def)

theorem cache_set_twice_resets_age_witness:
  "fst (cache_get 1500 (cache_set 1000 (cache_set 0 Map.empty ''k'' (JNum 1) (Some 1000))
          ''k'' (JNum 2) (Some 1000)) ''k'') = JNum 2 \<and>
   fst (cache_get 2001 (cache_set 1000 (cache_set 0 Map.empty ''k'' (JNum 1) (Some 1000))
          ''k'' (JNum 2) (Some 1000)) ''k'') = JNull"
proof -
  let ?c = "cache_set 1000 (cache_set 0 Map.empty ''k'' (JNum 1) (Some 1000)) ''k'' (JNum 2) (Some 1000)"
  have early: "(1500::int) - 1000 \<le> ttl_or_default (Some 1000)"
    and late: "(2001::int) - 1000 > ttl_or_default (Some 1000)"
    by (simp_all add: ttl_or_default_def)
  have "fst (cache_get 1500 ?c ''k'') = JNum 2"
    using cache_set_twice_resets_age [of 1000 0 Map.empty "''k''" "JNum 1" "Some 1000" "JNum 2" "Some 1000" 1500]
      early by blast
  moreover have "fst (cache_get 2001 ?c ''k'') = JNull"
    using cache_set_twice_resets_age [of 1000 0 Map.empty "''k''" "JNum 1" "Some 1000" "JNum 2" "Some 1000" 2001]
      late by blast
  ultimately show ?thesis by simp
qed

section \<open>The circuit breaker\<close>

subsection \<open>Runs of events\<close>

lemma run_events_append:
  "run_events (xs @ ys) s = (case run_events xs s of None \<Rightarrow> None | Some s' \<Rightarrow> run_events ys s')"
  by (induction xs arbitrary: s) (auto split: option.splits)

lemma resolves_while_open_append:
  "run_events xs s = Some s' \<Longrightarrow>
     resolves_while_open (xs @ ys) s = (resolves_while_open xs s \<or> resolves_while_open ys s')"
  by (induction xs arbitrary: s) (auto split: option.splits)

lemma step_config:
  "step e s = Some s' \<Longrightarrow>
     failureThreshold (breaker s') = failureThreshold (breaker s) \<and>
     timeout (breaker s') = timeout (breaker s)"
  by (auto simp: step_def execute_gate_def onSuccess_def onFailure_def Let_def
      split: event.splits sum.splits if_splits)

lemma run_config:
  "run_events evs s = Some s' \<Longrightarrow>
     failureThreshold (breaker s') = failureThreshold (breaker s) \<and>
     timeout (breaker s') = timeout (breaker s)"
proof (induction evs arbitrary: s)
  case Nil
  then show ?case by simp
next
  case (Cons e es)
  then obtain s1 where first: "step e s = Some s1" and rest: "run_events es s1 = Some s'"
    by (auto split: option.splits)
  from Cons.IH [OF rest] step_config [OF first] show ?case by simp
qed

lemma step_nonneg:
  "step e s = Some s' \<Longrightarrow> 0 \<le> failures (breaker s) \<Longrightarrow> 0 \<le> failures (breaker s')"
  by (auto simp: step_def execute_gate_def onSuccess_def onFailure_def Let_def
      split: event.splits sum.splits if_splits)

lemma run_nonneg:
  "run_events evs s = Some s' \<Longrightarrow> 0 \<le> failures (breaker s) \<Longrightarrow> 0 \<le> failures (breaker s')"
proof (induction evs arbitrary: s)
  case Nil
  then show ?case by simp
next
  case (Cons e es)
  then obtain s1 where first: "step e s = Some s1" and rest: "run_events es s1 = Some s'"
    by (auto split: option.splits)
  from step_nonneg [OF first Cons.prems(2)] have "0 \<le> failures (breaker s1)" .
  with rest show ?case by (rule Cons.IH)
qed

lemma step_inv:
  assumes "step e s = Some s'" and "breaker_inv (breaker s)"
    and "\<not> (is_Resolve e \<and> state (breaker s) = OPEN)"
  shows "breaker_inv (breaker s')"
  using assms
  by (cases "state (breaker s)")
     (auto simp: step_def execute_gate_def onSuccess_def onFailure_def Let_def breaker_inv_def
        is_Resolve_def split: event.splits sum.splits if_splits)

lemma run_inv:
  "run_events evs s = Some s' \<Longrightarrow> breaker_inv (breaker s) \<Longrightarrow> \<not> resolves_while_open evs s
     \<Longrightarrow> breaker_inv (breaker s')"
proof (induction evs arbitrary: s)
  case Nil
  then show ?case by simp
next
  case (Cons e es)
  then obtain s1 where first: "step e s = Some s1" and rest: "run_events es s1 = Some s'"
    by (auto split: option.splits)
  from Cons.prems(3) first have quiet: "\<not> (is_Resolve e \<and> state (breaker s) = OPEN)"
    and later: "\<not> resolves_while_open es s1"
    by simp_all
  from first Cons.prems(2) quiet have "breaker_inv (breaker s1)" by (rule step_inv)
  with rest show ?case using later by (rule Cons.IH)
qed

lemma step_to_closed:
  assumes "step e s = Some s'" and "state (breaker s) \<noteq> CLOSED" and "state (breaker s') = CLOSED"
  shows "is_Resolve e \<and> state (breaker s) = HALF_OPEN \<and> failures (breaker s') = 0"
  using assms
  by (cases "state (breaker s)")
     (auto simp: step_def execute_gate_def onSuccess_def onFailure_def Let_def is_Resolve_def
        split: event.splits sum.splits if_splits)

lemma run_without_reject:
  "run_events evs s = Some s' \<Longrightarrow> \<not> list_ex is_Reject evs \<Longrightarrow> state (breaker s) \<noteq> OPEN
     \<Longrightarrow> state (breaker s') \<noteq> OPEN"
proof (induction evs arbitrary: s)
  case Nil
  then show ?case by simp
next
  case (Cons e es)
  then obtain s1 where first: "step e s = Some s1" and rest: "run_events es s1 = Some s'"
    by (auto split: option.splits)
  from Cons.prems(2) have e: "\<not> is_Reject e" and es: "\<not> list_ex is_Reject es"
    by simp_all
  from first e Cons.prems(3) have "state (breaker s1) \<noteq> OPEN"
    by (auto simp: step_def execute_gate_def onSuccess_def Let_def is_Reject_def
        split: event.splits sum.splits if_splits)
  with rest es show ?case by (rule Cons.IH)
qed

lemma run_without_resolve:
  "run_events evs s = Some s' \<Longrightarrow> \<not> list_ex is_Resolve evs
     \<Longrightarrow> failures (breaker s) \<le> failures (breaker s')"
proof (induction evs arbitrary: s)
  case Nil
  then show ?case by simp
next
  case (Cons e es)
  then obtain s1 where first: "step e s = Some s1" and rest: "run_events es s1 = Some s'"
    by (auto split: option.splits)
  from Cons.prems(2) have e: "\<not> is_Resolve e" and es: "\<not> list_ex is_Resolve es"
    by simp_all
  from first e have "failures (breaker s) \<le> failures (breaker s1)"
    by (auto simp: step_def execute_gate_def onFailure_def Let_def is_Resolve_def
        split: event.splits sum.splits if_splits)
  moreover from rest es have "failures (breaker s1) \<le> failures (breaker s')" by (rule Cons.IH)
  ultimately show ?case by simp
qed

lemma run_reject_count:
  "run_events evs s = Some s' \<Longrightarrow> \<not> list_ex is_Resolve evs
     \<Longrightarrow> failures (breaker s') = failures (breaker s) + int (length (filter is_Reject evs))"
proof (induction evs arbitrary: s)
  case Nil
  then show ?case by simp
next
  case (Cons e es)
  then obtain s1 where first: "step e s = Some s1" and rest: "run_events es s1 = Some s'"
    by (auto split: option.splits)
  from Cons.prems(2) have e: "\<not> is_Resolve e" and es: "\<not> list_ex is_Resolve es"
    by simp_all
  from first e have "failures (breaker s1) = failures (breaker s) + (if is_Reject e then 1 else 0)"
    by (auto simp: step_def execute_gate_def onFailure_def Let_def is_Resolve_def is_Reject_def
        split: event.splits sum.splits if_splits)
  moreover from rest es
  have "failures (breaker s') = failures (breaker s1) + int (length (filter is_Reject es))"
    by (rule Cons.IH)
  ultimately show ?case by simp
qed

lemma step_trial:
  assumes "state (breaker s) = OPEN" and "timeout (breaker s) \<le> now - lastFailTime (breaker s)"
  shows "step (Call k now) s
    = Some (s\<lparr>breaker := (breaker s)\<lparr>state := HALF_OPEN\<rparr>, awaiting := k # awaiting s\<rparr>)"
  using assms by (simp add: step_def execute_gate_def)

lemma step_refused:
  assumes "state (breaker s) = OPEN" and "now - lastFailTime (breaker s) < timeout (breaker s)"
  shows "execute_gate now (breaker s) = Inl circuit_open_error \<and> step (Call k now) s = Some s"
  using assms by (simp add: step_def execute_gate_def)

subsection \<open>Reachable breakers\<close>

lemma reachable_nonneg: "reachable b \<Longrightarrow> 0 \<le> failures b"
  by (induction rule: reachable.induct)
     (auto simp: new_CircuitBreaker_def execute_gate_def onSuccess_def onFailure_def Let_def
        split: if_splits)

lemma step_reachable: "step e s = Some s' \<Longrightarrow> reachable (breaker s) \<Longrightarrow> reachable (breaker s')"
  by (auto simp: step_def split: event.splits sum.splits if_splits intro: reachable.intros)

lemma run_reachable:
  "run_events evs s = Some s' \<Longrightarrow> reachable (breaker s) \<Longrightarrow> reachable (breaker s')"
proof (induction evs arbitrary: s)
  case Nil
  then show ?case by simp
next
  case (Cons e es)
  then obtain s1 where first: "step e s = Some s1" and rest: "run_events es s1 = Some s'"
    by (auto split: option.splits)
  from first Cons.prems(2) have "reachable (breaker s1)" by (rule step_reachable)
  with rest show ?case by (rule Cons.IH)
qed

lemma calls_on_closed:
  "state (breaker s) = CLOSED \<Longrightarrow>
     run_events (replicate n (Call 0 0)) s = Some (s\<lparr>awaiting := replicate n 0 @ awaiting s\<rparr>)"
proof (induction n arbitrary: s)
  case 0
  then show ?case by simp
next
  case (Suc n)
  have first: "step (Call 0 0) s = Some (s\<lparr>awaiting := 0 # awaiting s\<rparr>)"
    using Suc.prems by (simp add: step_def execute_gate_def)
  have "run_events (replicate n (Call 0 0)) (s\<lparr>awaiting := 0 # awaiting s\<rparr>)
      = Some (s\<lparr>awaiting := 0 # awaiting s\<rparr>\<lparr>awaiting := replicate n 0 @ awaiting (s\<lparr>awaiting := 0 # awaiting s\<rparr>)\<rparr>)"
    using Suc.prems by (intro Suc.IH) simp
  with first show ?case by (simp add: replicate_app_Cons_same)
qed

text \<open>Every reachable breaker is the breaker of a run from a constructed one.\<close>

lemma reachable_by_run:
  "reachable b \<Longrightarrow>
     \<exists>thr tmo mon evs s. run_events evs (start (new_CircuitBreaker thr tmo mon)) = Some s \<and>
        breaker s = b \<and> n \<le> length (awaiting s)"
proof (induction arbitrary: n rule: reachable.induct)
  case (constructed thr tmo mon)
  have "run_events (replicate n (Call 0 0)) (start (new_CircuitBreaker thr tmo mon))
      = Some ((start (new_CircuitBreaker thr tmo mon))
               \<lparr>awaiting := replicate n 0 @ awaiting (start (new_CircuitBreaker thr tmo mon))\<rparr>)"
    by (rule calls_on_closed) (simp add: start_def new_CircuitBreaker_def)
  then show ?case by (intro exI conjI) (assumption, simp_all add: start_def)
next
  case (called b now b1)
  from called.IH [of n] obtain thr tmo mon evs s where
    run: "run_events evs (start (new_CircuitBreaker thr tmo mon)) = Some s"
    and b: "breaker s = b" and n: "n \<le> length (awaiting s)"
    by blast
  have "step (Call 0 now) s = Some (s\<lparr>breaker := b1, awaiting := 0 # awaiting s\<rparr>)"
    using called.hyps(2) b by (simp add: step_def)
  with run have "run_events (evs @ [Call 0 now]) (start (new_CircuitBreaker thr tmo mon))
      = Some (s\<lparr>breaker := b1, awaiting := 0 # awaiting s\<rparr>)"
    by (simp add: run_events_append)
  then show ?case using n by (intro exI conjI) (assumption, simp_all)
next
  case (resolved b)
  from resolved.IH [of "Suc n"] obtain thr tmo mon evs s where
    run: "run_events evs (start (new_CircuitBreaker thr tmo mon)) = Some s"
    and b: "breaker s = b" and n: "Suc n \<le> length (awaiting s)"
    by blast
  from n obtain k rest where aw: "awaiting s = k # rest"
    by (cases "awaiting s") simp_all
  have "step (Resolve k) s = Some (s\<lparr>breaker := onSuccess b, awaiting := rest\<rparr>)"
    using aw b by (simp add: step_def)
  with run have "run_events (evs @ [Resolve k]) (start (new_CircuitBreaker thr tmo mon))
      = Some (s\<lparr>breaker := onSuccess b, awaiting := rest\<rparr>)"
    by (simp add: run_events_append)
  then show ?case using n aw by (intro exI conjI) (assumption, simp_all)
next
  case (rejected b now)
  from rejected.IH [of "Suc n"] obtain thr tmo mon evs s where
    run: "run_events evs (start (new_CircuitBreaker thr tmo mon)) = Some s"
    and b: "breaker s = b" and n: "Suc n \<le> length (awaiting s)"
    by blast
  from n obtain k rest where aw: "awaiting s = k # rest"
    by (cases "awaiting s") simp_all
  have "step (Reject k now) s = Some (s\<lparr>breaker := onFailure now b, awaiting := rest\<rparr>)"
    using aw b by (simp add: step_def)
  with run have "run_events (evs @ [Reject k now]) (start (new_CircuitBreaker thr tmo mon))
      = Some (s\<lparr>breaker := onFailure now b, awaiting := rest\<rparr>)"
    by (simp add: run_events_append)
  then show ?case using n aw by (intro exI conjI) (assumption, simp_all)
qed

subsection \<open>Calls that do not overlap\<close>

text \<open>A call that nothing overlaps is its events, one right after the other.\<close>

lemma execute_as_events:
  assumes "execute (breaker s) operation w = (r, b', w')"
  shows "\<exists>evs. run_events evs s = Some (s\<lparr>breaker := b'\<rparr>) \<and> \<not> resolves_while_open evs s \<and>
    (evs = [Call k (Date_now w)] \<or> evs = [Call k (Date_now w), Resolve k] \<or>
     evs = [Call k (Date_now w), Reject k (Date_now w')])"
proof (cases "execute_gate (Date_now w) (breaker s)")
  case (Inl e)
  with assms have "b' = breaker s" by (simp add: execute_def)
  with Inl have "run_events [Call k (Date_now w)] s = Some (s\<lparr>breaker := b'\<rparr>)"
    by (simp add: step_def)
  moreover have "\<not> resolves_while_open [Call k (Date_now w)] s"
    by (simp add: is_Resolve_def split: option.splits)
  ultimately show ?thesis by blast
next
  case (Inr b1)
  then have not_open: "state b1 \<noteq> OPEN"
    by (auto simp: execute_gate_def split: if_splits)
  obtain outcome w1 where op: "operation w = (outcome, w1)"
    by (cases "operation w") auto
  show ?thesis
  proof (cases outcome)
    case (Resolved v)
    with assms Inr op have "b' = onSuccess b1"
      by (simp add: execute_def)
    with Inr have "run_events [Call k (Date_now w), Resolve k] s = Some (s\<lparr>breaker := b'\<rparr>)"
      by (simp add: step_def)
    moreover have "\<not> resolves_while_open [Call k (Date_now w), Resolve k] s"
      using Inr not_open by (simp add: step_def is_Resolve_def)
    ultimately show ?thesis by blast
  next
    case (Rejected e)
    with assms Inr op have "b' = onFailure (Date_now w') b1"
      by (auto simp: execute_def)
    with Inr have "run_events [Call k (Date_now w), Reject k (Date_now w')] s
        = Some (s\<lparr>breaker := b'\<rparr>)"
      by (simp add: step_def)
    moreover have "\<not> resolves_while_open [Call k (Date_now w), Reject k (Date_now w')] s"
      using Inr by (simp add: step_def is_Resolve_def)
    ultimately show ?thesis by blast
  qed
qed

lemma execute_all_as_events:
  "execute_all (breaker s) ops w = (b', w') \<Longrightarrow>
     \<exists>evs. run_events evs s = Some (s\<lparr>breaker := b'\<rparr>) \<and> \<not> resolves_while_open evs s"
proof (induction ops arbitrary: s w)
  case Nil
  then have "run_events [] s = Some (s\<lparr>breaker := b'\<rparr>)" by simp
  moreover have "\<not> resolves_while_open [] s" by simp
  ultimately show ?case by blast
next
  case (Cons operation rest)
  obtain r b1 w1 where first: "execute (breaker s) operation w = (r, b1, w1)"
    by (cases "execute (breaker s) operation w") auto
  with Cons.prems have "execute_all (breaker (s\<lparr>breaker := b1\<rparr>)) rest w1 = (b', w')"
    by simp
  from Cons.IH [OF this] obtain ys where
    ys: "run_events ys (s\<lparr>breaker := b1\<rparr>) = Some (s\<lparr>breaker := b'\<rparr>)"
    and quiet_ys: "\<not> resolves_while_open ys (s\<lparr>breaker := b1\<rparr>)"
    by auto
  from execute_as_events [OF first, of 0] obtain xs where
    xs: "run_events xs s = Some (s\<lparr>breaker := b1\<rparr>)" and quiet_xs: "\<not> resolves_while_open xs s"
    by blast
  have "run_events (xs @ ys) s = Some (s\<lparr>breaker := b'\<rparr>)"
    using xs ys by (simp add: run_events_append)
  moreover have "\<not> resolves_while_open (xs @ ys) s"
    using quiet_xs quiet_ys by (simp add: resolves_while_open_append [OF xs])
  ultimately show ?case by blast
qed

lemma execute_inv:
  "execute b operation w = (r, b', w') \<Longrightarrow> breaker_inv b \<Longrightarrow> breaker_inv b'"
  by (cases "state b")
     (auto simp: execute_def execute_gate_def onSuccess_def onFailure_def Let_def breaker_inv_def
        split: sum.splits settled.splits prod.splits if_splits)

lemma execute_all_inv:
  "execute_all b ops w = (b', w') \<Longrightarrow> breaker_inv b \<Longrightarrow> breaker_inv b'"
proof (induction ops arbitrary: b w)
  case Nil
  then show ?case by simp
next
  case (Cons operation rest)
  obtain r b1 w1 where first: "execute b operation w = (r, b1, w1)"
    by (cases "execute b operation w") auto
  from first Cons.prems(2) have "breaker_inv b1" by (rule execute_inv)
  moreover from Cons.prems(1) first have "execute_all b1 rest w1 = (b', w')" by simp
  ultimately show ?case using Cons.IH by blast
qed

lemma execute_config:
  "execute b operation w = (r, b', w') \<Longrightarrow>
     failureThreshold b' = failureThreshold b \<and> timeout b' = timeout b"
  by (auto simp: execute_def execute_gate_def onSuccess_def onFailure_def Let_def
      split: sum.splits settled.splits prod.splits if_splits)

lemma execute_open_in_window:
  assumes "state b = OPEN" and "Date_now w - lastFailTime b < timeout b"
  shows "execute b operation w = (Inl circuit_open_error, b, w)"
  using assms by (simp add: execute_def execute_gate_def)

lemma execute_rejecting_step:
  assumes "always_rejects operation" and "execute b operation w = (r, b', w')"
    and "state b = CLOSED \<or> state b = OPEN \<and> failureThreshold b \<le> failures b"
  shows "state b' = OPEN \<and> failureThreshold b \<le> failures b' \<or>
    state b = CLOSED \<and> state b' = CLOSED \<and> failures b' = failures b + 1 \<and>
    failures b' < failureThreshold b"
proof -
  obtain e w1 where "operation w = (Rejected e, w1)"
    using assms(1) unfolding always_rejects_def by blast
  with assms(2,3) show ?thesis
    by (cases "state b")
       (auto simp: execute_def execute_gate_def onFailure_def Let_def
          split: sum.splits if_splits)
qed

lemma execute_all_rejecting:
  assumes "\<forall>operation\<in>set ops. always_rejects operation"
    and "execute_all b ops w = (b', w')"
    and "state b = CLOSED \<or> state b = OPEN \<and> failureThreshold b \<le> failures b"
  shows "state b' = OPEN \<and> failureThreshold b \<le> failures b' \<or> (ops = [] \<and> b' = b) \<or>
    state b = CLOSED \<and> state b' = CLOSED \<and>
    failures b' = failures b + int (length ops) \<and> failures b' < failureThreshold b"
  using assms
proof (induction ops arbitrary: b w)
  case Nil
  then show ?case by simp
next
  case (Cons operation rest)
  obtain r b1 w1 where first: "execute b operation w = (r, b1, w1)"
    by (cases "execute b operation w") auto
  have rest: "execute_all b1 rest w1 = (b', w')"
    using Cons.prems(2) first by simp
  have thr: "failureThreshold b1 = failureThreshold b"
    using execute_config [OF first] by simp
  have s1: "state b1 = OPEN \<and> failureThreshold b \<le> failures b1 \<or>
      state b = CLOSED \<and> state b1 = CLOSED \<and> failures b1 = failures b + 1 \<and>
      failures b1 < failureThreshold b"
    using execute_rejecting_step [OF _ first Cons.prems(3)] Cons.prems(1) by simp
  then have start1: "state b1 = CLOSED \<or> state b1 = OPEN \<and> failureThreshold b1 \<le> failures b1"
    using thr by auto
  have IH: "state b' = OPEN \<and> failureThreshold b1 \<le> failures b' \<or> (rest = [] \<and> b' = b1) \<or>
      state b1 = CLOSED \<and> state b' = CLOSED \<and>
      failures b' = failures b1 + int (length rest) \<and> failures b' < failureThreshold b1"
    using Cons.IH [OF _ rest start1] Cons.prems(1) by simp
  from IH s1 thr show ?case by auto
qed

lemma execute_all_config:
  "execute_all b ops w = (b', w') \<Longrightarrow>
     failureThreshold b' = failureThreshold b \<and> timeout b' = timeout b"
proof (induction ops arbitrary: b w)
  case Nil
  then show ?case by simp
next
  case (Cons operation rest)
  obtain r b1 w1 where first: "execute b operation w = (r, b1, w1)"
    by (cases "execute b operation w") auto
  with Cons.prems have "execute_all b1 rest w1 = (b', w')" by simp
  from Cons.IH [OF this] execute_config [OF first] show ?case by simp
qed

subsection \<open>Opening\<close>

text \<open>
  Claim C5, as amended. Take a breaker that arose from a constructed one, in state CLOSED,
  with a threshold of at least 1. After \<open>failureThreshold\<close> consecutive calls whose
  operations fail the state is OPEN, and every call made while
  \<open>now - lastFailTime < timeout\<close> throws \<^verbatim>\<open>Error('Circuit breaker is OPEN')\<close>, leaves
  the breaker as it is and does not run its operation: the world, and with it any call
  counter of the operation, is unchanged, whatever the operation is. The error is a plain
  \<^verbatim>\<open>Error\<close>, told from the operation's own failures by its message only. Calls that
  overlap open the breaker as well: once \<open>failureThreshold\<close> operations have rejected and
  none has resolved in between, whatever calls were made meanwhile, the state is OPEN after
  the last rejection, and a call made within the window is refused: it changes nothing and
  is not suspended, its operation not having been invoked.
\<close>

theorem breaker_opens_then_fails_fast:
  assumes "reachable b" and "state b = CLOSED" and "1 \<le> failureThreshold b"
    and "int (length ops) = failureThreshold b"
    and "\<forall>operation\<in>set ops. always_rejects operation"
    and "execute_all b ops w = (b', w')"
  shows "state b' = OPEN \<and>
    (\<forall>operation w2. Date_now w2 - lastFailTime b' < timeout b' \<longrightarrow>
       execute b' operation w2 = (Inl (Error ''Circuit breaker is OPEN''), b', w2)) \<and>
    (\<forall>s evs k t s'.
       breaker s = b \<and> run_events (evs @ [Reject k t]) s = Some s' \<and>
       \<not> list_ex is_Resolve evs \<and>
       failureThreshold b \<le> int (length (filter is_Reject evs)) + 1 \<longrightarrow>
         state (breaker s') = OPEN \<and>
         (\<forall>j t'. t' - lastFailTime (breaker s') < timeout (breaker s') \<longrightarrow>
            execute_gate t' (breaker s') = Inl (Error ''Circuit breaker is OPEN'') \<and>
            step (Call j t') s' = Some s'))"
proof -
  have nonneg: "0 \<le> failures b"
    using assms(1) by (rule reachable_nonneg)
  moreover have "ops \<noteq> []"
    using assms(3,4) by auto
  ultimately have opened: "state b' = OPEN"
    using execute_all_rejecting [OF assms(5,6)] assms(2,4) by auto
  have overlapping: "state (breaker s') = OPEN \<and>
      (\<forall>j t'. t' - lastFailTime (breaker s') < timeout (breaker s') \<longrightarrow>
         execute_gate t' (breaker s') = Inl (Error ''Circuit breaker is OPEN'') \<and>
         step (Call j t') s' = Some s')"
    if run: "breaker s = b \<and> run_events (evs @ [Reject k t]) s = Some s' \<and>
       \<not> list_ex is_Resolve evs \<and>
       failureThreshold b \<le> int (length (filter is_Reject evs)) + 1"
    for s evs k t s'
  proof -
    from run obtain s2 where
      middle: "run_events evs s = Some s2" and last: "step (Reject k t) s2 = Some s'"
      by (auto simp: run_events_append split: option.splits)
    have "failures (breaker s2) = failures b + int (length (filter is_Reject evs))"
      using run_reject_count [OF middle] run by simp
    moreover have "failureThreshold (breaker s2) = failureThreshold b"
      using run_config [OF middle] run by simp
    ultimately have "failureThreshold (breaker s2) \<le> failures (breaker s2) + 1"
      using run nonneg by simp
    with last have now_open: "state (breaker s') = OPEN"
      by (auto simp: step_def onFailure_def Let_def split: if_splits)
    then show ?thesis
      using step_refused [of s'] by (simp add: circuit_open_error_def)
  qed
  show ?thesis
  proof (intro conjI allI impI)
    show "state b' = OPEN" by (rule opened)
  next
    fix operation w2
    assume "Date_now w2 - lastFailTime b' < timeout b'"
    with opened show "execute b' operation w2 = (Inl (Error ''Circuit breaker is OPEN''), b', w2)"
      using execute_open_in_window [of b' w2 operation] by (simp add: circuit_open_error_def)
  qed (use overlapping in blast)+
qed

lemma failing_counted_rejects: "always_rejects failing_counted"
  by (simp add: always_rejects_def failing_counted_def)

lemma two_failures_run:
  "execute_all (new_CircuitBreaker 2 60000 10000) [failing_counted, failing_counted] (1000, 0)
     = (\<lparr>failures = 2, lastFailTime = 1000, state = OPEN, failureThreshold = 2,
         timeout = 60000, monitoringPeriod = 10000\<rparr>, (1000, 2))"
  by (simp add: execute_def execute_gate_def onFailure_def new_CircuitBreaker_def
      failing_counted_def Date_now_def Let_def)

theorem breaker_opens_then_fails_fast_witness:
  "state (fst (execute_all (new_CircuitBreaker 2 60000 10000)
                 [failing_counted, failing_counted] (1000, 0))) = OPEN \<and>
   execute (fst (execute_all (new_CircuitBreaker 2 60000 10000)
                   [failing_counted, failing_counted] (1000, 0))) failing_counted (1000, 2)
     = (Inl (Error ''Circuit breaker is OPEN''),
        fst (execute_all (new_CircuitBreaker 2 60000 10000)
               [failing_counted, failing_counted] (1000, 0)), (1000, 2)) \<and>
   run_events [Call 1 0, Call 2 100, Reject 1 500, Reject 2 1000]
      (start (new_CircuitBreaker 2 60000 10000))
     = Some \<lparr>breaker = \<lparr>failures = 2, lastFailTime = 1000, state = OPEN, failureThreshold = 2,
                        timeout = 60000, monitoringPeriod = 10000\<rparr>,
             awaiting = []\<rparr> \<and>
   step (Call 3 1000)
      \<lparr>breaker = \<lparr>failures = 2, lastFailTime = 1000, state = OPEN, failureThreshold = 2,
                  timeout = 60000, monitoringPeriod = 10000\<rparr>,
       awaiting = []\<rparr>
     = Some \<lparr>breaker = \<lparr>failures = 2, lastFailTime = 1000, state = OPEN, failureThreshold = 2,
                        timeout = 60000, monitoringPeriod = 10000\<rparr>,
             awaiting = []\<rparr>"
proof -
  let ?b = "new_CircuitBreaker 2 60000 10000"
  let ?b' = "\<lparr>failures = 2, lastFailTime = 1000, state = OPEN, failureThreshold = 2,
         timeout = 60000, monitoringPeriod = 10000\<rparr>"
  let ?s' = "\<lparr>breaker = ?b', awaiting = []\<rparr>"
  have h1: "reachable ?b" by (rule reachable.constructed)
  have h2: "state ?b = CLOSED" and h3: "1 \<le> failureThreshold ?b"
    and h4: "int (length [failing_counted, failing_counted]) = failureThreshold ?b"
    by (simp_all add: new_CircuitBreaker_def)
  have h5: "\<forall>operation\<in>set [failing_counted, failing_counted]. always_rejects operation"
    by (simp add: failing_counted_rejects)
  note opened = breaker_opens_then_fails_fast [OF h1 h2 h3 h4 h5 two_failures_run]
  have run: "run_events ([Call 1 0, Call 2 100, Reject 1 500] @ [Reject 2 1000]) (start ?b)
      = Some ?s'"
    by (simp add: step_def execute_gate_def onFailure_def start_def new_CircuitBreaker_def Let_def)
  have quiet: "\<not> list_ex is_Resolve [Call 1 0, Call 2 100, Reject 1 500]"
    and enough: "failureThreshold ?b
      \<le> int (length (filter is_Reject [Call 1 0, Call 2 100, Reject 1 500])) + 1"
    by (simp_all add: is_Resolve_def is_Reject_def new_CircuitBreaker_def)
  have "state ?b' = OPEN" by simp
  moreover have "execute ?b' failing_counted (1000, 2)
      = (Inl (Error ''Circuit breaker is OPEN''), ?b', (1000, 2))"
    using opened [THEN conjunct2, THEN conjunct1, rule_format, of "(1000, 2)" failing_counted]
    by (simp add: Date_now_def)
  moreover have "step (Call 3 1000) ?s' = Some ?s'"
    using opened [THEN conjunct2, THEN conjunct2, rule_format,
        of "start ?b" "[Call 1 0, Call 2 100, Reject 1 500]" 2 1000 ?s', THEN conjunct2,
        rule_format, of 1000 3]
      run quiet enough
    by (simp add: start_def)
  ultimately show ?thesis using run unfolding two_failures_run by simp
qed

text \<open>
  Claim C5 as stated says that the error of a rejected call is of a kind distinct from the
  failures of the wrapped operation. A call on a closed breaker whose operation itself
  throws \<^verbatim>\<open>Error('Circuit breaker is OPEN')\<close> (as an operation that goes through another,
  open, breaker does) runs the operation, counts the failure, and gives the caller the very
  error a rejected call gives.
\<close>

theorem circuit_open_error_not_distinct:
  "execute (new_CircuitBreaker 5 60000 10000)
      (\<lambda>w. (Rejected (Error ''Circuit breaker is OPEN'') :: unit settled, (fst w, Suc (snd w))))
      (1000, 0)
     = (Inl circuit_open_error,
        \<lparr>failures = 1, lastFailTime = 1000, state = CLOSED, failureThreshold = 5,
         timeout = 60000, monitoringPeriod = 10000\<rparr>, (1000, 1)) \<and>
   execute \<lparr>failures = 5, lastFailTime = 1000, state = OPEN, failureThreshold = 5,
         timeout = 60000, monitoringPeriod = 10000\<rparr>
      (\<lambda>w. (Resolved (), (fst w, Suc (snd w)))) (1000, 0)
     = (Inl circuit_open_error,
        \<lparr>failures = 5, lastFailTime = 1000, state = OPEN, failureThreshold = 5,
         timeout = 60000, monitoringPeriod = 10000\<rparr>, (1000, 0))"
  by (simp add: execute_def execute_gate_def onFailure_def new_CircuitBreaker_def
      circuit_open_error_def Date_now_def Let_def)

subsection \<open>The trial call\<close>

text \<open>A run on a breaker with threshold 2 and timeout 60000: two calls, one after the
  other, whose operations reject.\<close>

lemma run_two_failures:
  "run_events [Call 1 0, Reject 1 500, Call 2 600, Reject 2 1000]
      (start (new_CircuitBreaker 2 60000 10000))
     = Some \<lparr>breaker = \<lparr>failures = 2, lastFailTime = 1000, state = OPEN, failureThreshold = 2,
                        timeout = 60000, monitoringPeriod = 10000\<rparr>,
             awaiting = []\<rparr>"
  by (simp add: step_def execute_gate_def onFailure_def start_def new_CircuitBreaker_def Let_def)

text \<open>
  Claim C6, as amended. When the breaker is OPEN and \<open>now - lastFailTime \<ge> timeout\<close>, the
  call itself moves the breaker to HALF_OPEN and only then invokes the operation (the call
  is suspended at the \<^verbatim>\<open>await\<close>); no event but a call takes the state to HALF_OPEN. When
  the operation of that call resolves, \<open>failures\<close> is 0, and the state is CLOSED provided it
  is not OPEN at that moment. It is not OPEN when no operation has rejected since the trial
  call was made; other calls may have been made, and may have resolved, in between.
\<close>

theorem half_open_trial_success_closes:
  assumes "state (breaker s) = OPEN" and "timeout (breaker s) \<le> now - lastFailTime (breaker s)"
  shows "step (Call k now) s
      = Some (s\<lparr>breaker := (breaker s)\<lparr>state := HALF_OPEN\<rparr>, awaiting := k # awaiting s\<rparr>) \<and>
    (\<forall>e s'. step e s = Some s' \<and> state (breaker s') = HALF_OPEN \<longrightarrow> (\<exists>j t. e = Call j t)) \<and>
    (\<forall>evs s2 s3. run_events (Call k now # evs) s = Some s2 \<and> step (Resolve k) s2 = Some s3 \<longrightarrow>
       failures (breaker s3) = 0 \<and>
       (state (breaker s2) \<noteq> OPEN \<longrightarrow> state (breaker s3) = CLOSED) \<and>
       (\<not> list_ex is_Reject evs \<longrightarrow> state (breaker s2) \<noteq> OPEN))"
proof (intro conjI allI impI)
  show "step (Call k now) s
      = Some (s\<lparr>breaker := (breaker s)\<lparr>state := HALF_OPEN\<rparr>, awaiting := k # awaiting s\<rparr>)"
    using assms by (rule step_trial)
next
  fix e s'
  assume "step e s = Some s' \<and> state (breaker s') = HALF_OPEN"
  with assms(1) show "\<exists>j t. e = Call j t"
    by (cases e)
       (auto simp: step_def onSuccess_def onFailure_def Let_def split: if_splits)
next
  fix evs s2 s3
  assume run: "run_events (Call k now # evs) s = Some s2 \<and> step (Resolve k) s2 = Some s3"
  let ?s1 = "s\<lparr>breaker := (breaker s)\<lparr>state := HALF_OPEN\<rparr>, awaiting := k # awaiting s\<rparr>"
  from run step_trial [OF assms, of k] have
    middle: "run_events evs ?s1 = Some s2" and last: "step (Resolve k) s2 = Some s3"
    by simp_all
  from last show "failures (breaker s3) = 0"
    by (auto simp: step_def onSuccess_def Let_def split: if_splits)
  {
    assume "state (breaker s2) \<noteq> OPEN"
    with last show "state (breaker s3) = CLOSED"
      by (cases "state (breaker s2)")
         (auto simp: step_def onSuccess_def Let_def split: if_splits)
  }
  {
    assume "\<not> list_ex is_Reject evs"
    with middle show "state (breaker s2) \<noteq> OPEN"
      by (rule run_without_reject) simp
  }
qed

theorem half_open_trial_success_closes_witness:
  "step (Call 3 61000)
      \<lparr>breaker = \<lparr>failures = 2, lastFailTime = 1000, state = OPEN, failureThreshold = 2,
                  timeout = 60000, monitoringPeriod = 10000\<rparr>, awaiting = []\<rparr>
     = Some \<lparr>breaker = \<lparr>failures = 2, lastFailTime = 1000, state = HALF_OPEN,
                        failureThreshold = 2, timeout = 60000, monitoringPeriod = 10000\<rparr>,
             awaiting = [3]\<rparr> \<and>
   run_events [Call 3 61000, Call 4 61001]
      \<lparr>breaker = \<lparr>failures = 2, lastFailTime = 1000, state = OPEN, failureThreshold = 2,
                  timeout = 60000, monitoringPeriod = 10000\<rparr>, awaiting = []\<rparr>
     = Some \<lparr>breaker = \<lparr>failures = 2, lastFailTime = 1000, state = HALF_OPEN,
                        failureThreshold = 2, timeout = 60000, monitoringPeriod = 10000\<rparr>,
             awaiting = [4, 3]\<rparr> \<and>
   step (Resolve 3)
      \<lparr>breaker = \<lparr>failures = 2, lastFailTime = 1000, state = HALF_OPEN,
                  failureThreshold = 2, timeout = 60000, monitoringPeriod = 10000\<rparr>,
       awaiting = [4, 3]\<rparr>
     = Some \<lparr>breaker = \<lparr>failures = 0, lastFailTime = 1000, state = CLOSED,
                        failureThreshold = 2, timeout = 60000, monitoringPeriod = 10000\<rparr>,
             awaiting = [4]\<rparr> \<and>
   failures \<lparr>failures = 0, lastFailTime = 1000, state = CLOSED,
             failureThreshold = 2, timeout = 60000, monitoringPeriod = 10000\<rparr> = 0 \<and>
   state \<lparr>failures = 0, lastFailTime = 1000, state = CLOSED,
          failureThreshold = 2, timeout = 60000, monitoringPeriod = 10000\<rparr> = CLOSED"
proof -
  let ?s = "\<lparr>breaker = \<lparr>failures = 2, lastFailTime = 1000, state = OPEN, failureThreshold = 2,
                  timeout = 60000, monitoringPeriod = 10000\<rparr>, awaiting = []\<rparr>"
  let ?s2 = "\<lparr>breaker = \<lparr>failures = 2, lastFailTime = 1000, state = HALF_OPEN,
                  failureThreshold = 2, timeout = 60000, monitoringPeriod = 10000\<rparr>,
       awaiting = [4, 3]\<rparr>"
  let ?s3 = "\<lparr>breaker = \<lparr>failures = 0, lastFailTime = 1000, state = CLOSED,
                        failureThreshold = 2, timeout = 60000, monitoringPeriod = 10000\<rparr>,
             awaiting = [4]\<rparr>"
  have open_now: "state (breaker ?s) = OPEN"
    and elapsed: "timeout (breaker ?s) \<le> 61000 - lastFailTime (breaker ?s)"
    by simp_all
  note trial = half_open_trial_success_closes [OF open_now elapsed, of 3]
  have run: "run_events (Call 3 61000 # [Call 4 61001]) ?s = Some ?s2"
    by (simp add: step_def execute_gate_def)
  have last: "step (Resolve 3) ?s2 = Some ?s3"
    by (simp add: step_def onSuccess_def)
  have quiet: "\<not> list_ex is_Reject [Call 4 61001]"
    by (simp add: is_Reject_def)
  have "failures (breaker ?s3) = 0" and "state (breaker ?s3) = CLOSED"
    using trial [THEN conjunct2, THEN conjunct2, rule_format, of "[Call 4 61001]" ?s2 ?s3]
      run last quiet
    by blast+
  moreover have "step (Call 3 61000) ?s
      = Some \<lparr>breaker = \<lparr>failures = 2, lastFailTime = 1000, state = HALF_OPEN,
                         failureThreshold = 2, timeout = 60000, monitoringPeriod = 10000\<rparr>,
              awaiting = [3]\<rparr>"
    using trial [THEN conjunct1] by simp
  ultimately show ?thesis using run last by simp
qed

text \<open>
  Claim C6 as stated says that the state is CLOSED once the trial operation has succeeded.
  Two failures open the breaker; at 61000 the timeout has passed and call 3 is the trial.
  Call 4 is made while call 3 is suspended (the gate lets every call through when the state
  is HALF_OPEN) and its operation rejects, which opens the breaker again. The trial
  operation then resolves: \<open>failures\<close> is 0 and the state stays OPEN.
\<close>

theorem trial_success_leaves_open:
  "run_events [Call 1 0, Reject 1 500, Call 2 600, Reject 2 1000, Call 3 61000]
      (start (new_CircuitBreaker 2 60000 10000))
     = Some \<lparr>breaker = \<lparr>failures = 2, lastFailTime = 1000, state = HALF_OPEN,
                        failureThreshold = 2, timeout = 60000, monitoringPeriod = 10000\<rparr>,
             awaiting = [3]\<rparr> \<and>
   run_events [Call 1 0, Reject 1 500, Call 2 600, Reject 2 1000, Call 3 61000,
               Call 4 61001, Reject 4 61002, Resolve 3]
      (start (new_CircuitBreaker 2 60000 10000))
     = Some \<lparr>breaker = \<lparr>failures = 0, lastFailTime = 61002, state = OPEN,
                        failureThreshold = 2, timeout = 60000, monitoringPeriod = 10000\<rparr>,
             awaiting = []\<rparr>"
  by (simp add: step_def execute_gate_def onFailure_def onSuccess_def start_def
      new_CircuitBreaker_def Let_def)

text \<open>
  Claim C7, as amended. Take a breaker that is OPEN with \<open>failures\<close> at or above the
  threshold, the timeout elapsed, and the trial call \<open>k\<close> made at \<open>now\<close>. When the operation
  of the trial rejects at \<open>t\<close>, and no operation has resolved since the trial call was made,
  \<open>failures\<close> is one more and at or above the threshold, \<open>lastFailTime\<close> is \<open>t\<close>, the state is
  OPEN, and a call made at a time \<open>t'\<close> with \<open>t' - t < timeout\<close> (at \<open>t\<close> itself when the
  timeout is positive) throws \<^verbatim>\<open>Error('Circuit breaker is OPEN')\<close>, leaves the breaker as it
  is and does not invoke its operation: no call is suspended that was not, and the world
  of the operation is unchanged.
\<close>

theorem half_open_trial_failure_reopens:
  assumes "state (breaker s) = OPEN" and "failureThreshold (breaker s) \<le> failures (breaker s)"
    and "timeout (breaker s) \<le> now - lastFailTime (breaker s)"
    and "run_events (Call k now # evs) s = Some s2" and "\<not> list_ex is_Resolve evs"
    and "step (Reject k t) s2 = Some s3"
  shows "failures (breaker s3) = failures (breaker s2) + 1 \<and>
    failureThreshold (breaker s3) \<le> failures (breaker s3) \<and>
    lastFailTime (breaker s3) = t \<and> state (breaker s3) = OPEN \<and>
    (\<forall>j t'. t' - t < timeout (breaker s3) \<longrightarrow>
       execute_gate t' (breaker s3) = Inl circuit_open_error \<and> step (Call j t') s3 = Some s3) \<and>
    (\<forall>j. 0 < timeout (breaker s3) \<longrightarrow> step (Call j t) s3 = Some s3) \<and>
    (\<forall>(operation :: ('a, 'w) operation) w. Date_now w - t < timeout (breaker s3) \<longrightarrow>
       execute (breaker s3) operation w = (Inl circuit_open_error, breaker s3, w))"
proof -
  let ?s1 = "s\<lparr>breaker := (breaker s)\<lparr>state := HALF_OPEN\<rparr>, awaiting := k # awaiting s\<rparr>"
  from assms(4) step_trial [OF assms(1,3), of k] have middle: "run_events evs ?s1 = Some s2"
    by simp
  have "failures (breaker ?s1) \<le> failures (breaker s2)"
    using middle assms(5) by (rule run_without_resolve)
  moreover have "failureThreshold (breaker s2) = failureThreshold (breaker ?s1)"
    using run_config [OF middle] by simp
  ultimately have thr: "failureThreshold (breaker s2) \<le> failures (breaker s2)"
    using assms(2) by simp
  have s3: "breaker s3 = (breaker s2)\<lparr>failures := failures (breaker s2) + 1, lastFailTime := t,
      state := OPEN\<rparr>"
    using assms(6) thr by (auto simp: step_def onFailure_def Let_def split: if_splits)
  have after: "failures (breaker s3) = failures (breaker s2) + 1"
    "failureThreshold (breaker s3) \<le> failures (breaker s3)"
    "lastFailTime (breaker s3) = t" "state (breaker s3) = OPEN"
    using s3 thr by simp_all
  have refused: "\<forall>j t'. t' - t < timeout (breaker s3) \<longrightarrow>
      execute_gate t' (breaker s3) = Inl circuit_open_error \<and> step (Call j t') s3 = Some s3"
    using step_refused [of s3] after by simp
  have at_once: "\<forall>j. 0 < timeout (breaker s3) \<longrightarrow> step (Call j t) s3 = Some s3"
    using refused by simp
  have world: "\<forall>(operation :: ('a, 'w) operation) w. Date_now w - t < timeout (breaker s3) \<longrightarrow>
      execute (breaker s3) operation w = (Inl circuit_open_error, breaker s3, w)"
  proof (intro allI impI)
    fix operation :: "('a, 'w) operation" and w :: "'w world"
    assume "Date_now w - t < timeout (breaker s3)"
    with after show "execute (breaker s3) operation w = (Inl circuit_open_error, breaker s3, w)"
      using execute_open_in_window [of "breaker s3" w operation] by simp
  qed
  from after refused at_once world show ?thesis by (intro conjI)
qed

theorem half_open_trial_failure_reopens_witness:
  "run_events [Call 3 61000, Call 4 61001]
      \<lparr>breaker = \<lparr>failures = 2, lastFailTime = 1000, state = OPEN, failureThreshold = 2,
                  timeout = 60000, monitoringPeriod = 10000\<rparr>, awaiting = []\<rparr>
     = Some \<lparr>breaker = \<lparr>failures = 2, lastFailTime = 1000, state = HALF_OPEN,
                        failureThreshold = 2, timeout = 60000, monitoringPeriod = 10000\<rparr>,
             awaiting = [4, 3]\<rparr> \<and>
   step (Reject 3 61002)
      \<lparr>breaker = \<lparr>failures = 2, lastFailTime = 1000, state = HALF_OPEN,
                  failureThreshold = 2, timeout = 60000, monitoringPeriod = 10000\<rparr>,
       awaiting = [4, 3]\<rparr>
     = Some \<lparr>breaker = \<lparr>failures = 3, lastFailTime = 61002, state = OPEN,
                        failureThreshold = 2, timeout = 60000, monitoringPeriod = 10000\<rparr>,
             awaiting = [4]\<rparr> \<and>
   step (Call 5 61002)
      \<lparr>breaker = \<lparr>failures = 3, lastFailTime = 61002, state = OPEN,
                  failureThreshold = 2, timeout = 60000, monitoringPeriod = 10000\<rparr>,
       awaiting = [4]\<rparr>
     = Some \<lparr>breaker = \<lparr>failures = 3, lastFailTime = 61002, state = OPEN,
                        failureThreshold = 2, timeout = 60000, monitoringPeriod = 10000\<rparr>,
             awaiting = [4]\<rparr> \<and>
   execute \<lparr>failures = 3, lastFailTime = 61002, state = OPEN,
            failureThreshold = 2, timeout = 60000, monitoringPeriod = 10000\<rparr>
      failing_counted (61002, 3)
     = (Inl circuit_open_error,
        \<lparr>failures = 3, lastFailTime = 61002, state = OPEN,
         failureThreshold = 2, timeout = 60000, monitoringPeriod = 10000\<rparr>, (61002, 3))"
proof -
  let ?s = "\<lparr>breaker = \<lparr>failures = 2, lastFailTime = 1000, state = OPEN, failureThreshold = 2,
                  timeout = 60000, monitoringPeriod = 10000\<rparr>, awaiting = []\<rparr>"
  let ?s2 = "\<lparr>breaker = \<lparr>failures = 2, lastFailTime = 1000, state = HALF_OPEN,
                  failureThreshold = 2, timeout = 60000, monitoringPeriod = 10000\<rparr>,
       awaiting = [4, 3]\<rparr>"
  let ?s3 = "\<lparr>breaker = \<lparr>failures = 3, lastFailTime = 61002, state = OPEN,
                  failureThreshold = 2, timeout = 60000, monitoringPeriod = 10000\<rparr>,
       awaiting = [4]\<rparr>"
  have h1: "state (breaker ?s) = OPEN"
    and h2: "failureThreshold (breaker ?s) \<le> failures (breaker ?s)"
    and h3: "timeout (breaker ?s) \<le> 61000 - lastFailTime (breaker ?s)"
    by simp_all
  have h4: "run_events (Call 3 61000 # [Call 4 61001]) ?s = Some ?s2"
    by (simp add: step_def execute_gate_def)
  have h5: "\<not> list_ex is_Resolve [Call 4 61001]"
    by (simp add: is_Resolve_def)
  have h6: "step (Reject 3 61002) ?s2 = Some ?s3"
    by (simp add: step_def onFailure_def Let_def)
  note trial = half_open_trial_failure_reopens [OF h1 h2 h3 h4 h5 h6]
  have "step (Call 5 61002) ?s3 = Some ?s3"
    using trial [THEN conjunct2, THEN conjunct2, THEN conjunct2, THEN conjunct2, THEN conjunct2,
        THEN conjunct1, rule_format, of 5]
    by simp
  moreover have "execute (breaker ?s3) failing_counted (61002, 3)
      = (Inl circuit_open_error, breaker ?s3, (61002, 3))"
    using trial [THEN conjunct2, THEN conjunct2, THEN conjunct2, THEN conjunct2, THEN conjunct2,
        THEN conjunct2, rule_format, of "(61002, 3)" failing_counted]
    by (simp add: Date_now_def)
  ultimately show ?thesis using h4 h6 by simp
qed

text \<open>
  Claim C7 as stated has no condition on \<open>failures\<close>, on the calls in progress or on the
  timeout. In the first run call 1 is made while the breaker is CLOSED, and its operation
  is slow. Calls 2 and 3 fail and open the breaker. Then the operation of call 1 resolves:
  \<open>failures\<close> is 0 and the state is still OPEN. At 61000 the timeout has passed; call 4 is
  the trial and its operation rejects at 61001. Now \<open>failures\<close> is 1, below the threshold,
  and the state is left HALF_OPEN: call 5, made at once, passes the gate and its operation
  is invoked. In the second run \<open>failures\<close> is at the threshold when the trial call 3 is
  made. Call 4 is made while the trial is suspended and its operation resolves, which
  closes the breaker with \<open>failures\<close> at 0; the trial operation then rejects, \<open>failures\<close> is
  1 and the state stays CLOSED, so that call 5 is let through. In the third run the timeout
  is 0 and no calls overlap: after the failure of the trial call 2 at 6, call 3 at 6 is not
  in the window, passes the gate and is suspended at the \<^verbatim>\<open>await\<close> with its operation
  invoked.
\<close>

theorem failed_trial_next_call_invoked:
  "run_events [Call 1 0, Call 2 100, Reject 2 500, Call 3 600, Reject 3 1000, Resolve 1,
               Call 4 61000]
      (start (new_CircuitBreaker 2 60000 10000))
     = Some \<lparr>breaker = \<lparr>failures = 0, lastFailTime = 1000, state = HALF_OPEN,
                        failureThreshold = 2, timeout = 60000, monitoringPeriod = 10000\<rparr>,
             awaiting = [4]\<rparr> \<and>
   run_events [Call 1 0, Call 2 100, Reject 2 500, Call 3 600, Reject 3 1000, Resolve 1,
               Call 4 61000, Reject 4 61001]
      (start (new_CircuitBreaker 2 60000 10000))
     = Some \<lparr>breaker = \<lparr>failures = 1, lastFailTime = 61001, state = HALF_OPEN,
                        failureThreshold = 2, timeout = 60000, monitoringPeriod = 10000\<rparr>,
             awaiting = []\<rparr> \<and>
   run_events [Call 1 0, Call 2 100, Reject 2 500, Call 3 600, Reject 3 1000, Resolve 1,
               Call 4 61000, Reject 4 61001, Call 5 61001]
      (start (new_CircuitBreaker 2 60000 10000))
     = Some \<lparr>breaker = \<lparr>failures = 1, lastFailTime = 61001, state = HALF_OPEN,
                        failureThreshold = 2, timeout = 60000, monitoringPeriod = 10000\<rparr>,
             awaiting = [5]\<rparr> \<and>
   run_events [Call 1 0, Reject 1 500, Call 2 600, Reject 2 1000, Call 3 61000, Call 4 61001,
               Resolve 4]
      (start (new_CircuitBreaker 2 60000 10000))
     = Some \<lparr>breaker = \<lparr>failures = 0, lastFailTime = 1000, state = CLOSED,
                        failureThreshold = 2, timeout = 60000, monitoringPeriod = 10000\<rparr>,
             awaiting = [3]\<rparr> \<and>
   run_events [Call 1 0, Reject 1 500, Call 2 600, Reject 2 1000, Call 3 61000, Call 4 61001,
               Resolve 4, Reject 3 61002, Call 5 61002]
      (start (new_CircuitBreaker 2 60000 10000))
     = Some \<lparr>breaker = \<lparr>failures = 1, lastFailTime = 61002, state = CLOSED,
                        failureThreshold = 2, timeout = 60000, monitoringPeriod = 10000\<rparr>,
             awaiting = [5]\<rparr> \<and>
   run_events [Call 1 0, Reject 1 5, Call 2 5]
      (start (new_CircuitBreaker 1 0 10000))
     = Some \<lparr>breaker = \<lparr>failures = 1, lastFailTime = 5, state = HALF_OPEN,
                        failureThreshold = 1, timeout = 0, monitoringPeriod = 10000\<rparr>,
             awaiting = [2]\<rparr> \<and>
   run_events [Call 1 0, Reject 1 5, Call 2 5, Reject 2 6]
      (start (new_CircuitBreaker 1 0 10000))
     = Some \<lparr>breaker = \<lparr>failures = 2, lastFailTime = 6, state = OPEN,
                        failureThreshold = 1, timeout = 0, monitoringPeriod = 10000\<rparr>,
             awaiting = []\<rparr> \<and>
   run_events [Call 1 0, Reject 1 5, Call 2 5, Reject 2 6, Call 3 6]
      (start (new_CircuitBreaker 1 0 10000))
     = Some \<lparr>breaker = \<lparr>failures = 2, lastFailTime = 6, state = HALF_OPEN,
                        failureThreshold = 1, timeout = 0, monitoringPeriod = 10000\<rparr>,
             awaiting = [3]\<rparr>"
  by (simp add: step_def execute_gate_def onFailure_def onSuccess_def start_def
      new_CircuitBreaker_def Let_def)

subsection \<open>The invariant\<close>

text \<open>
  Claim C10, as amended. After any events on a constructed breaker, in any order,
  \<open>failures\<close> is at least 0, and the state goes from OPEN or HALF_OPEN to CLOSED only when
  an operation resolves while the state is HALF_OPEN, with \<open>failures\<close> at 0 afterwards. As
  long as no operation has resolved at a moment when the state was OPEN, \<open>failures\<close> is at
  least the threshold whenever the state is OPEN or HALF_OPEN, and this stays so through any
  further calls each of which settles before the next is made. Calls that never overlap are
  such a run.
\<close>

theorem breaker_invariant_after_calls:
  assumes "run_events evs (start (new_CircuitBreaker thr tmo mon)) = Some s"
  shows "0 \<le> failures (breaker s) \<and>
    (\<forall>e s'. step e s = Some s' \<and> state (breaker s) \<noteq> CLOSED \<and> state (breaker s') = CLOSED \<longrightarrow>
       is_Resolve e \<and> state (breaker s) = HALF_OPEN \<and> failures (breaker s') = 0) \<and>
    (\<not> resolves_while_open evs (start (new_CircuitBreaker thr tmo mon)) \<longrightarrow>
       (state (breaker s) \<noteq> CLOSED \<longrightarrow> thr \<le> failures (breaker s)) \<and>
       (\<forall>(ops :: ('a, 'w) operation list) w b w'. execute_all (breaker s) ops w = (b, w') \<longrightarrow>
          0 \<le> failures b \<and> (state b \<noteq> CLOSED \<longrightarrow> thr \<le> failures b)))"
proof -
  let ?s0 = "start (new_CircuitBreaker thr tmo mon)"
  have init: "breaker_inv (breaker ?s0)"
    by (simp add: breaker_inv_def start_def new_CircuitBreaker_def)
  have thr: "failureThreshold (breaker s) = thr"
    using run_config [OF assms] by (simp add: start_def new_CircuitBreaker_def)
  have nonneg: "0 \<le> failures (breaker s)"
    using assms by (rule run_nonneg) (simp add: start_def new_CircuitBreaker_def)
  have closing: "\<forall>e s'. step e s = Some s' \<and> state (breaker s) \<noteq> CLOSED \<and>
      state (breaker s') = CLOSED \<longrightarrow>
      is_Resolve e \<and> state (breaker s) = HALF_OPEN \<and> failures (breaker s') = 0"
    using step_to_closed [of _ s] by blast
  have quiet: "(state (breaker s) \<noteq> CLOSED \<longrightarrow> thr \<le> failures (breaker s)) \<and>
       (\<forall>(ops :: ('a, 'w) operation list) w b w'. execute_all (breaker s) ops w = (b, w') \<longrightarrow>
          0 \<le> failures b \<and> (state b \<noteq> CLOSED \<longrightarrow> thr \<le> failures b))"
    if "\<not> resolves_while_open evs ?s0"
  proof -
    have inv: "breaker_inv (breaker s)"
      using assms init that by (rule run_inv)
    have "0 \<le> failures b \<and> (state b \<noteq> CLOSED \<longrightarrow> thr \<le> failures b)"
      if "execute_all (breaker s) ops w = (b, w')"
      for ops :: "('a, 'w) operation list" and w b w'
    proof -
      have "breaker_inv b" using that inv by (rule execute_all_inv)
      moreover have "failureThreshold b = thr"
        using execute_all_config [OF that] thr by simp
      ultimately show ?thesis by (simp add: breaker_inv_def)
    qed
    with inv thr show ?thesis by (simp add: breaker_inv_def)
  qed
  show ?thesis
  proof (intro conjI)
    show "0 \<le> failures (breaker s)" by (rule nonneg)
    show "\<forall>e s'. step e s = Some s' \<and> state (breaker s) \<noteq> CLOSED \<and>
      state (breaker s') = CLOSED \<longrightarrow>
      is_Resolve e \<and> state (breaker s) = HALF_OPEN \<and> failures (breaker s') = 0"
      by (rule closing)
    show "\<not> resolves_while_open evs ?s0 \<longrightarrow>
       (state (breaker s) \<noteq> CLOSED \<longrightarrow> thr \<le> failures (breaker s)) \<and>
       (\<forall>(ops :: ('a, 'w) operation list) w b w'. execute_all (breaker s) ops w = (b, w') \<longrightarrow>
          0 \<le> failures b \<and> (state b \<noteq> CLOSED \<longrightarrow> thr \<le> failures b))"
      using quiet by blast
  qed
qed

lemma run_to_trial:
  "run_events [Call 1 0, Reject 1 500, Call 2 600, Reject 2 1000, Call 3 61000]
      (start (new_CircuitBreaker 2 60000 10000))
     = Some \<lparr>breaker = \<lparr>failures = 2, lastFailTime = 1000, state = HALF_OPEN,
                        failureThreshold = 2, timeout = 60000, monitoringPeriod = 10000\<rparr>,
             awaiting = [3]\<rparr>"
  by (simp add: step_def execute_gate_def onFailure_def start_def new_CircuitBreaker_def Let_def)

theorem breaker_invariant_after_calls_witness:
  "0 \<le> failures \<lparr>failures = 2, lastFailTime = 1000, state = OPEN, failureThreshold = 2,
                  timeout = 60000, monitoringPeriod = 10000\<rparr> \<and>
   (2::int) \<le> failures \<lparr>failures = 2, lastFailTime = 1000, state = OPEN, failureThreshold = 2,
                  timeout = 60000, monitoringPeriod = 10000\<rparr> \<and>
   execute_all \<lparr>failures = 2, lastFailTime = 1000, state = OPEN, failureThreshold = 2,
                timeout = 60000, monitoringPeriod = 10000\<rparr> [failing_counted] (61000, 2)
     = (\<lparr>failures = 3, lastFailTime = 61000, state = OPEN, failureThreshold = 2,
         timeout = 60000, monitoringPeriod = 10000\<rparr>, (61000, 3)) \<and>
   (2::int) \<le> failures \<lparr>failures = 3, lastFailTime = 61000, state = OPEN, failureThreshold = 2,
                  timeout = 60000, monitoringPeriod = 10000\<rparr> \<and>
   step (Resolve 3)
      \<lparr>breaker = \<lparr>failures = 2, lastFailTime = 1000, state = HALF_OPEN,
                  failureThreshold = 2, timeout = 60000, monitoringPeriod = 10000\<rparr>,
       awaiting = [3]\<rparr>
     = Some \<lparr>breaker = \<lparr>failures = 0, lastFailTime = 1000, state = CLOSED,
                        failureThreshold = 2, timeout = 60000, monitoringPeriod = 10000\<rparr>,
             awaiting = []\<rparr> \<and>
   is_Resolve (Resolve 3) \<and>
   failures \<lparr>failures = 0, lastFailTime = 1000, state = CLOSED,
             failureThreshold = 2, timeout = 60000, monitoringPeriod = 10000\<rparr> = 0"
proof -
  let ?b = "\<lparr>failures = 2, lastFailTime = 1000, state = OPEN, failureThreshold = 2,
                  timeout = 60000, monitoringPeriod = 10000\<rparr>"
  let ?b1 = "\<lparr>failures = 3, lastFailTime = 61000, state = OPEN, failureThreshold = 2,
                  timeout = 60000, monitoringPeriod = 10000\<rparr>"
  let ?trial = "\<lparr>breaker = \<lparr>failures = 2, lastFailTime = 1000, state = HALF_OPEN,
                  failureThreshold = 2, timeout = 60000, monitoringPeriod = 10000\<rparr>,
       awaiting = [3]\<rparr>"
  let ?closed = "\<lparr>breaker = \<lparr>failures = 0, lastFailTime = 1000, state = CLOSED,
                        failureThreshold = 2, timeout = 60000, monitoringPeriod = 10000\<rparr>,
             awaiting = []\<rparr>"
  let ?evs = "[Call 1 0, Reject 1 500, Call 2 600, Reject 2 1000]"
  have quiet: "\<not> resolves_while_open ?evs (start (new_CircuitBreaker 2 60000 10000))"
    by (simp add: step_def execute_gate_def onFailure_def start_def new_CircuitBreaker_def
        is_Resolve_def Let_def)
  note inv = breaker_invariant_after_calls [OF run_two_failures]
  note inv_trial = breaker_invariant_after_calls [OF run_to_trial]
  have seq: "execute_all ?b [failing_counted] (61000, 2) = (?b1, (61000, 3))"
    by (simp add: execute_def execute_gate_def onFailure_def failing_counted_def Date_now_def
        Let_def)
  have closing: "step (Resolve 3) ?trial = Some ?closed"
    by (simp add: step_def onSuccess_def)
  have "0 \<le> failures ?b"
    using inv [THEN conjunct1] by simp
  moreover have "2 \<le> failures ?b"
    using inv [THEN conjunct2, THEN conjunct2] quiet by simp
  moreover have "2 \<le> failures ?b1"
    using inv [THEN conjunct2, THEN conjunct2] quiet seq by fastforce
  moreover have "is_Resolve (Resolve 3) \<and> failures (breaker ?closed) = 0"
    using inv_trial [THEN conjunct2, THEN conjunct1, rule_format, of "Resolve 3" ?closed] closing
    by simp
  ultimately show ?thesis using seq closing by simp
qed

text \<open>
  Claim C10 as stated has the invariant after every sequence of calls. Call 1 is made while
  the breaker is CLOSED; while its operation is pending, calls 2 and 3 fail and open the
  breaker. When the operation of call 1 then resolves, \<^verbatim>\<open>onSuccess\<close> sets \<open>failures\<close> to
  0 and leaves the state, which is not HALF_OPEN, as it is: OPEN, with \<open>failures\<close> below the
  threshold of 2.
\<close>

theorem open_below_threshold:
  "run_events [Call 1 0, Call 2 100, Reject 2 500, Call 3 600, Reject 3 1000]
      (start (new_CircuitBreaker 2 60000 10000))
     = Some \<lparr>breaker = \<lparr>failures = 2, lastFailTime = 1000, state = OPEN, failureThreshold = 2,
                        timeout = 60000, monitoringPeriod = 10000\<rparr>,
             awaiting = [1]\<rparr> \<and>
   run_events [Call 1 0, Call 2 100, Reject 2 500, Call 3 600, Reject 3 1000, Resolve 1]
      (start (new_CircuitBreaker 2 60000 10000))
     = Some \<lparr>breaker = \<lparr>failures = 0, lastFailTime = 1000, state = OPEN, failureThreshold = 2,
                        timeout = 60000, monitoringPeriod = 10000\<rparr>,
             awaiting = []\<rparr> \<and>
   \<not> failureThreshold \<lparr>failures = 0, lastFailTime = 1000, state = OPEN, failureThreshold = 2,
                        timeout = 60000, monitoringPeriod = 10000\<rparr>
       \<le> failures \<lparr>failures = 0, lastFailTime = 1000, state = OPEN, failureThreshold = 2,
                        timeout = 60000, monitoringPeriod = 10000\<rparr>"
  by (simp add: step_def execute_gate_def onFailure_def onSuccess_def start_def
      new_CircuitBreaker_def Let_def)

section \<open>Sanitization\<close>

lemma dropWhile_fixed: "xs = [] \<or> \<not> P (hd xs) \<Longrightarrow> dropWhile P xs = xs"
  by (cases xs) auto

lemma strip_end_head:
  assumes "rev (dropWhile P (rev t)) \<noteq> []"
  shows "hd (rev (dropWhile P (rev t))) = hd t"
proof -
  have "rev t = takeWhile P (rev t) @ dropWhile P (rev t)" by simp
  then have "t = rev (dropWhile P (rev t)) @ rev (takeWhile P (rev t))"
    by (metis rev_append rev_rev_ident)
  with assms show ?thesis by (metis hd_append2)
qed

lemma trim_idem: "trim (trim s) = trim s"
proof -
  let ?P = is_whitespace
  let ?t = "dropWhile ?P s"
  let ?u = "rev (dropWhile ?P (rev ?t))"
  have front: "dropWhile ?P ?u = ?u"
  proof (cases "?u = []")
    case True
    show ?thesis unfolding True by simp
  next
    case False
    then have "hd ?u = hd ?t" by (rule strip_end_head)
    moreover have "?t \<noteq> []"
    proof
      assume empty: "?t = []"
      have "?u = []" unfolding empty by simp
      with False show False by contradiction
    qed
    then have "\<not> ?P (hd ?t)" by (rule hd_dropWhile)
    ultimately show ?thesis by (intro dropWhile_fixed) simp
  qed
  have "dropWhile ?P (rev ?u) = rev ?u"
    by (simp add: dropWhile_idem)
  with front show ?thesis by (simp add: trim_def)
qed

lemma set_property_keys:
  "map fst (set_property ps k v) = (if k \<in> fst ` set ps then map fst ps else map fst ps @ [k])"
  by (induction ps k v rule: set_property.induct) auto

lemma set_property_fresh: "k \<notin> fst ` set ps \<Longrightarrow> set_property ps k v = ps @ [(k, v)]"
  by (induction ps k v rule: set_property.induct) auto

lemma set_property_subset: "set (set_property ps k v) \<subseteq> insert (k, v) (set ps)"
  by (induction ps k v rule: set_property.induct) auto

lemma sanitizeObject_VObj:
  "sanitizeObject (VObj p kvs)
     = (case foldl sanitize_step (None, []) kvs of (proto, props) \<Rightarrow> VObj proto props)"
  by (simp add: sanitize_step_def)

lemma sanitizeObject_kind: "is_object_or_null (sanitizeObject v) = is_object_or_null v"
  by (cases v) (auto simp: is_object_or_null_def split: prod.splits)

text \<open>Entries with new keys, none of them \<^verbatim>\<open>__proto__\<close>, are added in their order.\<close>

lemma fold_step_clean:
  assumes "distinct (map fst (acc @ kvs))" and "''__proto__'' \<notin> fst ` set kvs"
  shows "foldl sanitize_step (p, acc) kvs = (p, acc @ map (\<lambda>(k, v). (k, sanitizeObject v)) kvs)"
  using assms
proof (induction kvs arbitrary: acc)
  case Nil
  then show ?case by simp
next
  case (Cons kv kvs)
  obtain k v where kv: "kv = (k, v)" by (cases kv)
  have step: "sanitize_step (p, acc) kv = (p, acc @ [(k, sanitizeObject v)])"
    using Cons.prems kv by (auto simp: sanitize_step_def assign_def set_property_fresh)
  have "distinct (map fst ((acc @ [(k, sanitizeObject v)]) @ kvs))"
    using Cons.prems(1) kv by simp
  moreover have "''__proto__'' \<notin> fst ` set kvs"
    using Cons.prems(2) by simp
  ultimately have "foldl sanitize_step (p, acc @ [(k, sanitizeObject v)]) kvs
      = (p, (acc @ [(k, sanitizeObject v)]) @ map (\<lambda>(k, v). (k, sanitizeObject v)) kvs)"
    by (rule Cons.IH)
  with step kv show ?case by simp
qed

text \<open>
  When no entry under \<^verbatim>\<open>__proto__\<close> holds an object, an array or \<^verbatim>\<open>null\<close>, the prototype
  stays \<^verbatim>\<open>Object.prototype\<close> and the result has no key \<^verbatim>\<open>__proto__\<close>.
\<close>

lemma fold_step_inv:
  assumes "distinct (map fst acc)" and "''__proto__'' \<notin> fst ` set acc"
    and "\<forall>(k, v)\<in>set kvs. k = ''__proto__'' \<longrightarrow> \<not> is_object_or_null v"
  shows "\<exists>props. foldl sanitize_step (None, acc) kvs = (None, props) \<and>
           distinct (map fst props) \<and> ''__proto__'' \<notin> fst ` set props \<and>
           snd ` set props \<subseteq> snd ` set acc \<union> sanitizeObject ` snd ` set kvs"
  using assms
proof (induction kvs arbitrary: acc)
  case Nil
  then show ?case by simp
next
  case (Cons kv kvs)
  obtain k v where kv: "kv = (k, v)" by (cases kv)
  define acc' where "acc' = (if k = ''__proto__'' then acc else set_property acc k (sanitizeObject v))"
  have step: "sanitize_step (None, acc) kv = (None, acc')"
    using Cons.prems(2,3) kv
    by (auto simp: sanitize_step_def assign_def acc'_def sanitizeObject_kind)
  have keys: "map fst acc' = (if k = ''__proto__'' \<or> k \<in> fst ` set acc then map fst acc else map fst acc @ [k])"
    by (simp add: acc'_def set_property_keys)
  have d: "distinct (map fst acc')" using Cons.prems(1) keys by auto
  have p: "''__proto__'' \<notin> fst ` set acc'"
  proof -
    have "fst ` set acc' = set (map fst acc')" by simp
    also have "\<dots> \<subseteq> (if k = ''__proto__'' then {} else {k}) \<union> fst ` set acc"
      unfolding keys by auto
    finally show ?thesis using Cons.prems(2) by (auto split: if_splits)
  qed
  have vals: "snd ` set acc' \<subseteq> snd ` set acc \<union> {sanitizeObject v}"
    using set_property_subset [of acc k "sanitizeObject v"]
    by (auto simp: acc'_def)
  have rest: "\<forall>(k, v)\<in>set kvs. k = ''__proto__'' \<longrightarrow> \<not> is_object_or_null v"
    using Cons.prems(3) by simp
  from Cons.IH [OF d p rest] obtain props where
    run: "foldl sanitize_step (None, acc') kvs = (None, props)"
    and props: "distinct (map fst props)" "''__proto__'' \<notin> fst ` set props"
      "snd ` set props \<subseteq> snd ` set acc' \<union> sanitizeObject ` snd ` set kvs"
    by blast
  have "snd ` set props \<subseteq> (snd ` set acc \<union> {sanitizeObject v}) \<union> sanitizeObject ` snd ` set kvs"
    using props(3) vals by blast
  also have "\<dots> = snd ` set acc \<union> sanitizeObject ` snd ` set (kv # kvs)"
    using kv by auto
  finally have "snd ` set props \<subseteq> snd ` set acc \<union> sanitizeObject ` snd ` set (kv # kvs)" .
  with run step props(1,2) show ?case by simp
qed

text \<open>
  Idempotence, for the values in which no key \<^verbatim>\<open>__proto__\<close> holds an object, an array or
  \<^verbatim>\<open>null\<close>.
\<close>

lemma sanitizeObject_idem:
  "no_prototype_entry v \<Longrightarrow> sanitizeObject (sanitizeObject v) = sanitizeObject v"
proof (induction v rule: sanitizeObject.induct)
  case (4 xs)
  then show ?case by (simp add: list_all_iff)
next
  case (5 p kvs)
  have entries: "\<forall>(k, v)\<in>set kvs. k = ''__proto__'' \<longrightarrow> \<not> is_object_or_null v"
    using "5.prems" by (auto simp: list_all_iff)
  from fold_step_inv [of "[]" kvs] entries obtain r where
    first: "foldl sanitize_step (None, []) kvs = (None, r)"
    and inv: "distinct (map fst r)" "''__proto__'' \<notin> fst ` set r"
      "snd ` set r \<subseteq> sanitizeObject ` snd ` set kvs"
    by auto
  have fixed: "sanitizeObject x = x" if "x \<in> snd ` set r" for x
  proof -
    from that inv(3) obtain k v where kv: "(k, v) \<in> set kvs" "x = sanitizeObject v" by auto
    from kv(1) "5.prems" have "no_prototype_entry v" by (auto simp: list_all_iff)
    with kv show ?thesis using "5.IH" by auto
  qed
  have "foldl sanitize_step (None, []) r = (None, [] @ map (\<lambda>(k, v). (k, sanitizeObject v)) r)"
    using inv(1,2) by (intro fold_step_clean) simp_all
  also have "map (\<lambda>(k, v). (k, sanitizeObject v)) r = r"
  proof -
    have "(case q of (k, v) \<Rightarrow> (k, sanitizeObject v)) = q" if "q \<in> set r" for q
    proof -
      obtain k v where q: "q = (k, v)" by (cases q)
      with that have "v \<in> snd ` set r" by force
      then have "sanitizeObject v = v" by (rule fixed)
      with q show ?thesis by simp
    qed
    then show ?thesis by (simp add: map_idI)
  qed
  finally have second: "foldl sanitize_step (None, []) r = (None, r)" by simp
  show ?case by (simp only: sanitizeObject_VObj first second prod.case)
qed (simp_all add: trim_idem)

lemma map_fst_sanitized: "map fst (map (\<lambda>(k, v). (k, f v)) kvs) = map fst kvs"
  by (induction kvs) auto

text \<open>An object without the key \<^verbatim>\<open>__proto__\<close>: the entries are sanitized one by one, the keys
  are kept in their order; the result is a fresh object, with \<^verbatim>\<open>Object.prototype\<close>.\<close>

lemma sanitizeObject_object:
  assumes "distinct (map fst kvs)" and "''__proto__'' \<notin> fst ` set kvs"
  shows "sanitizeObject (VObj p kvs) = VObj None (map (\<lambda>(k, v). (k, sanitizeObject v)) kvs)"
  using fold_step_clean [of "[]" kvs None] assms
  by (simp add: sanitizeObject_VObj del: sanitizeObject.simps)

lemma sanitizeObject_keys:
  assumes "distinct (map fst kvs)" and "''__proto__'' \<notin> fst ` set kvs"
  shows "keys_of (sanitizeObject (VObj p kvs)) = map fst kvs"
  unfolding sanitizeObject_object [OF assms]
  by (simp add: keys_of_def map_fst_sanitized del: map_map)

lemma sanitizeObject_example:
  "sanitizeObject (of_json (JObj [(''name'', JStr '' hi ''),
                                 (''tags'', JArr [JStr '' a '', JStr ''b '']),
                                 (''nested'', JObj [(''x'', JStr '' y '')])]))
     = VObj None [(''name'', VStr ''hi''),
                  (''tags'', VArr [VStr ''a'', VStr ''b'']),
                  (''nested'', VObj None [(''x'', VStr ''y'')])]"
  by (simp add: trim_def is_whitespace_def assign_def)

text \<open>
  An object under \<^verbatim>\<open>__proto__\<close> becomes the prototype of the result: the key is gone, the
  properties of the object are read through the result, and a second application, which
  copies the own properties only, gives another value.
\<close>

lemma sanitizeObject_replaces_prototype:
  "sanitizeObject (of_json (JObj [(''__proto__'', JObj [(''name'', JStr '' a '')]),
                                 (''x'', JStr '' b '')]))
     = VObj (Some (VObj None [(''name'', VStr ''a'')])) [(''x'', VStr ''b'')]"
  "read_property (VObj (Some (VObj None [(''name'', VStr ''a'')])) [(''x'', VStr ''b'')]) ''name''
     = VStr ''a''"
  "sanitizeObject (VObj (Some (VObj None [(''name'', VStr ''a'')])) [(''x'', VStr ''b'')])
     = VObj None [(''x'', VStr ''b'')]"
  by (simp_all add: trim_def is_whitespace_def assign_def is_object_or_null_def)

lemma validateAndSanitizeParams_proto:
  "validateAndSanitizeParams (JObj [(''__proto__'', JStr '' x ''), (''name'', JStr '' hi '')])
     = Inr (VObj None [(''name'', VStr ''hi'')])"
  by (simp add: validateAndSanitizeParams_def truthy_def typeof_def trim_def is_whitespace_def
      assign_def is_object_or_null_def)

text \<open>
  Claim C8 says that a mapping is processed key by key with its key set preserved. On the
  object \<^verbatim>\<open>{"__proto__": " x ", "name": " hi "}\<close>, which \<^verbatim>\<open>JSON.parse\<close> builds with
  \<^verbatim>\<open>__proto__\<close> as an own key, the result has the key \<^verbatim>\<open>name\<close> only: the assignment
  \<^verbatim>\<open>sanitized['__proto__'] = 'x'\<close> goes to the inherited setter, which ignores a string.
  For objects without that key the keys are preserved (\<open>sanitizeObject_object\<close>,
  \<open>sanitizeObject_keys\<close>), and \<open>sanitizeObject_idem\<close> is idempotence where no such key holds
  an object, an array or \<^verbatim>\<open>null\<close>.
\<close>

theorem sanitizeObject_loses_proto_key:
  "sanitizeObject (of_json (JObj [(''__proto__'', JStr '' x ''), (''name'', JStr '' hi '')]))
     = VObj None [(''name'', VStr ''hi'')] \<and>
   keys_of (of_json (JObj [(''__proto__'', JStr '' x ''), (''name'', JStr '' hi '')]))
     = [''__proto__'', ''name''] \<and>
   keys_of (sanitizeObject (of_json (JObj [(''__proto__'', JStr '' x ''), (''name'', JStr '' hi '')])))
     = [''name'']"
  by (simp add: trim_def is_whitespace_def assign_def keys_of_def is_object_or_null_def)

section \<open>What the handlers write to the cache\<close>

lemma cache_get_cases:
  "cache_get now c key = (v, c1) \<Longrightarrow> c1 = c \<or> c1 = c(key := None)"
  by (auto simp: cache_get_def split: option.splits if_splits)

lemma cache_set_after_get:
  "cache_get now c key = (v, c1) \<Longrightarrow>
   cache_set now c1 key d (Some t)
     = c(key \<mapsto> \<lparr>data = d, timestamp = now, ttl = ttl_or_default (Some t)\<rparr>)"
  by (auto simp: cache_set_def dest!: cache_get_cases)

lemma untouched_refl [simp]: "untouched c c"
  by (simp add: untouched_def)

lemma untouchedI: "cache_get now c key = (v, c1) \<Longrightarrow> untouched c c1"
  by (auto simp: untouched_def dest!: cache_get_cases)

lemma wroteI:
  "cache_get now c key = (v, c1) \<Longrightarrow> t \<noteq> 0 \<Longrightarrow>
   wrote c (cache_set now c1 key d (Some t)) now d t"
  by (auto simp: wrote_def cache_set_after_get ttl_or_default_def)

lemma changed_entry:
  assumes "untouched c c' \<or> wrote c c' now result t"
    and "c' k = Some entry" and "c' k \<noteq> c k"
  shows "data entry = result \<and> timestamp entry = now \<and> ttl entry = t"
  using assms by (auto simp: untouched_def wrote_def split: if_splits)

lemma unchanged_entry:
  assumes "untouched c c'" and "c' k = Some entry"
  shows "c' k = c k"
  using assms by (auto simp: untouched_def split: if_splits)

lemma component_writes:
  assumes "handleGetMotionComponent now params c = (result, c')"
  shows "untouched c c' \<or> wrote c c' now result 300000"
  using assms
  unfolding handleGetMotionComponent_def handleGetMotionComponent_try_def try_catch_def
  by (auto simp: Let_def split: sum.splits prod.splits if_splits intro: untouchedI wroteI)

lemma search_writes:
  assumes "handleSearchMotionExamples now params c = (result, c')"
  shows "untouched c c' \<or> wrote c c' now result 300000"
  using assms
  unfolding handleSearchMotionExamples_def handleSearchMotionExamples_try_def try_catch_def
  by (auto simp: Let_def split: sum.splits prod.splits if_splits intro: untouchedI wroteI)

lemma list_writes:
  assumes "handleListMotionComponents now params c = (result, c')"
  shows "untouched c c' \<or> wrote c c' now result 600000"
  using assms
  unfolding handleListMotionComponents_def handleListMotionComponents_try_def try_catch_def
  by (auto simp: Let_def split: sum.splits prod.splits if_splits intro: untouchedI wroteI)

lemma has_error_not_found [simp]:
  "has_key ''error'' (component_not_found n)" "has_key ''error'' (example_not_found n)"
  "has_key ''error'' (docs_not_found n)" "has_key ''error'' (list_invalid_category n)"
  by (simp_all add: component_not_found_def example_not_found_def docs_not_found_def
      list_invalid_category_def has_key_def Let_def)

lemma has_error_found [simp]:
  "\<not> has_key ''error'' (component_found n i cat)" "\<not> has_key ''error'' (example_found n i cat)"
  "\<not> has_key ''error'' (docs_found today n i)" "\<not> has_key ''error'' (list_of_category category comps)"
  "\<not> has_key ''error'' list_of_all" "\<not> has_key ''error'' (search_result q)"
  by (auto simp: component_found_def example_found_def docs_found_def
      list_of_category_def list_of_all_def search_result_def has_key_def Let_def)

lemma example_writes:
  assumes "handleGetMotionExample now params c = (result, c')"
  shows "untouched c c' \<or> wrote c c' now result (if has_key ''error'' result then 300000 else 600000)"
  using assms
  unfolding handleGetMotionExample_def handleGetMotionExample_try_def try_catch_def
  by (auto simp: Let_def split: sum.splits prod.splits if_splits intro: untouchedI wroteI)

lemma docs_writes:
  assumes "handleGetMotionDocs now today params c = (result, c')"
  shows "untouched c c' \<or> wrote c c' now result (if has_key ''error'' result then 300000 else 1800000)"
  using assms
  unfolding handleGetMotionDocs_def handleGetMotionDocs_try_def try_catch_def
  by (auto simp: Let_def split: sum.splits prod.splits if_splits intro: untouchedI wroteI)

text \<open>
  Claim C3, as amended. An entry that a handler writes to the cache holds the result the
  handler returns and the time of the call, with a TTL fixed by the tool and the kind of
  result. get_motion_component: 300000 ms (5 minutes), for a component found as for a name
  not found. search_motion_examples: 300000 ms for every search result.
  get_motion_example: 300000 ms for a type not found, 600000 ms (10 minutes) for an example
  found. get_motion_docs: 300000 ms for a topic not found, 1800000 ms (30 minutes) for a
  document found. list_motion_components: 600000 ms for a listing.
\<close>

theorem stored_ttl_by_tool:
  "(handleGetMotionComponent now params c = (result, c') \<and> c' k = Some entry \<and> c' k \<noteq> c k \<longrightarrow>
      data entry = result \<and> timestamp entry = now \<and> ttl entry = 300000) \<and>
   (handleSearchMotionExamples now params c = (result, c') \<and> c' k = Some entry \<and> c' k \<noteq> c k \<longrightarrow>
      data entry = result \<and> timestamp entry = now \<and> ttl entry = 300000) \<and>
   (handleGetMotionExample now params c = (result, c') \<and> c' k = Some entry \<and> c' k \<noteq> c k \<longrightarrow>
      data entry = result \<and> timestamp entry = now \<and>
      ttl entry = (if has_key ''error'' result then 300000 else 600000)) \<and>
   (handleGetMotionDocs now today params c = (result, c') \<and> c' k = Some entry \<and> c' k \<noteq> c k \<longrightarrow>
      data entry = result \<and> timestamp entry = now \<and>
      ttl entry = (if has_key ''error'' result then 300000 else 1800000)) \<and>
   (handleListMotionComponents now params c = (result, c') \<and> c' k = Some entry \<and> c' k \<noteq> c k
      \<and> \<not> has_key ''error'' result \<longrightarrow>
      data entry = result \<and> timestamp entry = now \<and> ttl entry = 600000)"
proof -
  have component: "handleGetMotionComponent now params c = (result, c') \<and> c' k = Some entry \<and> c' k \<noteq> c k \<longrightarrow>
      data entry = result \<and> timestamp entry = now \<and> ttl entry = 300000"
    using changed_entry [OF component_writes] by blast
  have search: "handleSearchMotionExamples now params c = (result, c') \<and> c' k = Some entry \<and> c' k \<noteq> c k \<longrightarrow>
      data entry = result \<and> timestamp entry = now \<and> ttl entry = 300000"
    using changed_entry [OF search_writes] by blast
  have example: "handleGetMotionExample now params c = (result, c') \<and> c' k = Some entry \<and> c' k \<noteq> c k \<longrightarrow>
      data entry = result \<and> timestamp entry = now \<and>
      ttl entry = (if has_key ''error'' result then 300000 else 600000)"
    using changed_entry [OF example_writes] by blast
  have docs: "handleGetMotionDocs now today params c = (result, c') \<and> c' k = Some entry \<and> c' k \<noteq> c k \<longrightarrow>
      data entry = result \<and> timestamp entry = now \<and>
      ttl entry = (if has_key ''error'' result then 300000 else 1800000)"
    using changed_entry [OF docs_writes] by blast
  have listed: "handleListMotionComponents now params c = (result, c') \<and> c' k = Some entry \<and> c' k \<noteq> c k
      \<and> \<not> has_key ''error'' result \<longrightarrow>
      data entry = result \<and> timestamp entry = now \<and> ttl entry = 600000"
    using changed_entry [OF list_writes] by blast
  from component search example docs listed show ?thesis by (intro conjI)
qed

subsection \<open>Calls on concrete parameters\<close>

lemma truthy_simps [simp]:
  "truthy (JObj kvs)" "truthy (JArr xs)" "\<not> truthy JNull" "\<not> truthy JUndefined"
  "truthy (JStr s) \<longleftrightarrow> s \<noteq> []" "truthy (JNum n) \<longleftrightarrow> n \<noteq> 0" "truthy (JBool b) \<longleftrightarrow> b"
  by (simp_all add: truthy_def)

lemma truthy_results [simp]:
  "truthy (component_not_found n)" "truthy (component_found n i cat)"
  "truthy (example_not_found n)" "truthy (example_found n i cat)"
  "truthy (docs_not_found n)" "truthy (docs_found today n i)"
  "truthy (list_invalid_category n)" "truthy (list_of_category category comps)"
  "truthy list_of_all" "truthy (search_result q)"
  by (simp_all add: component_not_found_def component_found_def example_not_found_def
      example_found_def docs_not_found_def docs_found_def list_invalid_category_def
      list_of_category_def list_of_all_def search_result_def Let_def)

lemma field_of_JObj:
  "field_of (JObj kvs) key = (case map_of kvs key of Some v \<Rightarrow> v | None \<Rightarrow> JUndefined)"
  by (simp add: field_of_def)

lemma cache_get_empty [simp]: "cache_get now Map.empty key = (JNull, Map.empty)"
  by (simp add: cache_get_def)

lemma cache_get_stored [simp]:
  "cache_get t (cache_set now c key d (Some n)) key
     = (if t - now > ttl_or_default (Some n) then (JNull, (cache_set now c key d (Some n))(key := None))
        else (d, cache_set now c key d (Some n)))"
  by (simp add: cache_get_def cache_set_def)

lemma animate_entry:
  "table_lookup MOTION_COMPONENTS ''animate'' = MOTION_COMPONENTS_animate"
  "truthy MOTION_COMPONENTS_animate"
  "toString (field_of MOTION_COMPONENTS_animate ''category'') = Inr ''javascript''"
  by (simp_all add: table_lookup_def MOTION_COMPONENTS_def MOTION_COMPONENTS_animate_def field_of_def)

lemma component_animate:
  "handleGetMotionComponent 1000 (JObj [(''componentName'', JStr ''animate'')]) Map.empty
     = (component_found ''animate'' MOTION_COMPONENTS_animate ''javascript'',
        cache_set 1000 Map.empty ''motion-component-animate''
          (component_found ''animate'' MOTION_COMPONENTS_animate ''javascript'') (Some 300000))"
  by (simp add: Let_def handleGetMotionComponent_def handleGetMotionComponent_try_def try_catch_def
      get_property_def field_of_JObj componentNameSchema_def parse_string_def min_length_def
      max_length_def regex_check_def name_regex_def name_char_def animate_entry)

lemma list_examples:
  "handleListMotionComponents 1000 (JObj [(''category'', JStr ''examples'')]) Map.empty
     = (list_invalid_category ''examples'',
        cache_set 1000 Map.empty ''motion-components-list-examples''
          (list_invalid_category ''examples'') (Some 600000))"
  by (simp add: Let_def handleListMotionComponents_def handleListMotionComponents_try_def try_catch_def
      field_of_JObj categorySchema_def categories_def table_lookup_def
      MOTION_COMPONENTS_LIST_def object_prototype_keys_def)

lemma search_scroll:
  "handleSearchMotionExamples 1000 (JObj [(''query'', JStr ''scroll'')]) Map.empty
     = (search_result ''scroll'',
        cache_set 1000 Map.empty ''motion-search-scroll'' (search_result ''scroll'') (Some 300000))"
  by (simp add: Let_def handleSearchMotionExamples_def handleSearchMotionExamples_try_def try_catch_def
      get_property_def field_of_JObj searchQuerySchema_def parse_string_def min_length_def
      max_length_def search_cache_key_def toLowerCase_def is_upper_def is_whitespace_def)

lemma gestures_entry:
  "table_lookup MOTION_DOCS ''gestures'' = MOTION_DOCS_gestures"
  "truthy MOTION_DOCS_gestures"
  by (simp_all add: table_lookup_def MOTION_DOCS_def MOTION_DOCS_gestures_def)

lemma docs_gestures:
  "handleGetMotionDocs 1000 ''2026-11-03'' (JObj [(''topic'', JStr ''gestures'')]) Map.empty
     = (docs_found ''2026-11-03'' ''gestures'' MOTION_DOCS_gestures,
        cache_set 1000 Map.empty ''motion-docs-gestures''
          (docs_found ''2026-11-03'' ''gestures'' MOTION_DOCS_gestures) (Some 1800000))"
  by (simp add: Let_def handleGetMotionDocs_def handleGetMotionDocs_try_def try_catch_def
      get_property_def field_of_JObj topicSchema_def parse_string_def min_length_def
      max_length_def regex_check_def name_regex_def name_char_def gestures_entry)

lemma example_unknown:
  "handleGetMotionExample 1000 (JObj [(''exampleType'', JStr ''bounce'')]) Map.empty
     = (example_not_found ''bounce'',
        cache_set 1000 Map.empty ''motion-example-bounce'' (example_not_found ''bounce'') (Some 300000))"
  by (simp add: Let_def handleGetMotionExample_def handleGetMotionExample_try_def try_catch_def
      get_property_def field_of_JObj exampleTypeSchema_def parse_string_def min_length_def
      max_length_def table_lookup_def MOTION_EXAMPLES_def object_prototype_keys_def)

text \<open>Names the schema rejects: the result carries the issue objects.\<close>

lemma component_invalid_name:
  "handleGetMotionComponent 1000 (JObj [(''componentName'', JStr [])]) Map.empty
     = (JObj [(''error'', JStr ''Invalid parameters''),
              (''details'',
               JArr [too_small 1 ''Component name cannot be empty'',
                     invalid_string ''Component name contains invalid characters''])],
        Map.empty)"
  "handleGetMotionComponent 1000 (JObj [(''componentName'', JNum 7)]) Map.empty
     = (JObj [(''error'', JStr ''Invalid parameters''),
              (''details'',
               JArr [JObj [(''code'', JStr ''invalid_type''),
                           (''expected'', JStr ''string''),
                           (''received'', JStr ''number''),
                           (''path'', JArr []),
                           (''message'', JStr ''Expected string, received number'')]])],
        Map.empty)"
  by (simp_all add: handleGetMotionComponent_def handleGetMotionComponent_try_def try_catch_def
      catch_block_def get_property_def field_of_JObj componentNameSchema_def parse_string_def
      min_length_def max_length_def regex_check_def name_regex_def invalid_type_def
      zod_received_def)

text \<open>
  Claim C3 as stated gives every successful lookup a TTL of 10 to 30 minutes. The entry
  written for the component \<^verbatim>\<open>animate\<close>, which is found, and the entry written for the
  search \<^verbatim>\<open>scroll\<close> carry 300000 ms, the TTL of a result not found.
\<close>

theorem success_stored_five_minutes:
  "\<not> has_key ''error'' (fst (handleGetMotionComponent 1000 (JObj [(''componentName'', JStr ''animate'')]) Map.empty)) \<and>
   map_option ttl (snd (handleGetMotionComponent 1000 (JObj [(''componentName'', JStr ''animate'')]) Map.empty)
                     ''motion-component-animate'') = Some 300000 \<and>
   \<not> has_key ''error'' (fst (handleSearchMotionExamples 1000 (JObj [(''query'', JStr ''scroll'')]) Map.empty)) \<and>
   map_option ttl (snd (handleSearchMotionExamples 1000 (JObj [(''query'', JStr ''scroll'')]) Map.empty)
                     ''motion-search-scroll'') = Some 300000"
  by (simp add: component_animate search_scroll cache_set_def ttl_or_default_def)

text \<open>
  The TTLs of three entries written to an empty cache: a document found, an example type
  not found, a component found.
\<close>

theorem stored_ttl_by_tool_witness:
  "ttl (the (snd (handleGetMotionDocs 1000 ''2026-11-03'' (JObj [(''topic'', JStr ''gestures'')]) Map.empty)
               ''motion-docs-gestures'')) = 1800000 \<and>
   ttl (the (snd (handleGetMotionExample 1000 (JObj [(''exampleType'', JStr ''bounce'')]) Map.empty)
               ''motion-example-bounce'')) = 300000 \<and>
   ttl (the (snd (handleGetMotionComponent 1000 (JObj [(''componentName'', JStr ''animate'')]) Map.empty)
               ''motion-component-animate'')) = 300000"
proof -
  let ?docs = "handleGetMotionDocs 1000 ''2026-11-03'' (JObj [(''topic'', JStr ''gestures'')]) Map.empty"
  let ?example = "handleGetMotionExample 1000 (JObj [(''exampleType'', JStr ''bounce'')]) Map.empty"
  let ?component = "handleGetMotionComponent 1000 (JObj [(''componentName'', JStr ''animate'')]) Map.empty"
  have stored: "snd ?docs ''motion-docs-gestures'' = Some (the (snd ?docs ''motion-docs-gestures''))"
    "snd ?example ''motion-example-bounce'' = Some (the (snd ?example ''motion-example-bounce''))"
    "snd ?component ''motion-component-animate'' = Some (the (snd ?component ''motion-component-animate''))"
    by (simp_all add: docs_gestures example_unknown component_animate cache_set_def)
  have fresh: "snd ?docs ''motion-docs-gestures'' \<noteq> Map.empty ''motion-docs-gestures''"
    "snd ?example ''motion-example-bounce'' \<noteq> Map.empty ''motion-example-bounce''"
    "snd ?component ''motion-component-animate'' \<noteq> Map.empty ''motion-component-animate''"
    by (simp_all add: docs_gestures example_unknown component_animate cache_set_def)
  have kind: "\<not> has_key ''error'' (fst ?docs)" "has_key ''error'' (fst ?example)"
    by (simp_all add: docs_gestures example_unknown)
  note policy = stored_ttl_by_tool
  have "ttl (the (snd ?docs ''motion-docs-gestures'')) = 1800000"
    using policy [THEN conjunct2, THEN conjunct2, THEN conjunct2, THEN conjunct1,
        of 1000 "''2026-11-03''" "JObj [(''topic'', JStr ''gestures'')]" Map.empty "fst ?docs" "snd ?docs"
        "''motion-docs-gestures''" "the (snd ?docs ''motion-docs-gestures'')"]
      stored(1) fresh(1) kind(1) by simp
  moreover have "ttl (the (snd ?example ''motion-example-bounce'')) = 300000"
    using policy [THEN conjunct2, THEN conjunct2, THEN conjunct1,
        of 1000 "JObj [(''exampleType'', JStr ''bounce'')]" Map.empty "fst ?example" "snd ?example"
        "''motion-example-bounce''" "the (snd ?example ''motion-example-bounce'')"]
      stored(2) fresh(2) kind(2) by simp
  moreover have "ttl (the (snd ?component ''motion-component-animate'')) = 300000"
    using policy [THEN conjunct1,
        of 1000 "JObj [(''componentName'', JStr ''animate'')]" Map.empty "fst ?component" "snd ?component"
        "''motion-component-animate''" "the (snd ?component ''motion-component-animate'')"]
      stored(3) fresh(3) by simp
  ultimately show ?thesis by simp
qed

section \<open>Exceptions inside a handler\<close>

lemma search_unexpected_error_iff:
  "(\<exists>e c'. handleSearchMotionExamples_try now params c = (Inl e, c') \<and> \<not> is_ZodError e)
     \<longleftrightarrow> params = JNull \<or> params = JUndefined"
  by (auto simp: handleSearchMotionExamples_try_def get_property_def searchQuerySchema_def
      parse_string_def cannot_read_def is_ZodError_def Let_def
      split: sum.splits prod.splits json.splits if_splits)

text \<open>
  What a \<^verbatim>\<open>try\<close> block can throw: a \<^verbatim>\<open>TypeError\<close> of the engine (a property read on
  \<^verbatim>\<open>null\<close> or \<^verbatim>\<open>undefined\<close>, a value with no string conversion) or the \<^verbatim>\<open>ZodError\<close> of a
  schema.
\<close>

lemma first_error_TypeError:
  "first_error rs = Inl e \<Longrightarrow> \<forall>r\<in>set rs. \<forall>e'. r = Inl e' \<longrightarrow> (\<exists>m. e' = TypeError m)
     \<Longrightarrow> \<exists>m. e = TypeError m"
  by (induction rs rule: first_error.induct) (auto split: sum.splits)

lemma toString_TypeError: "toString v = Inl e \<Longrightarrow> \<exists>m. e = TypeError m"
proof (induction v arbitrary: e rule: toString.induct)
  case (6 xs)
  from "6.prems" have
    fe: "first_error (map (\<lambda>x. if x = JNull \<or> x = JUndefined then Inr [] else toString x) xs) = Inl e"
    by (auto split: sum.splits)
  have "\<forall>r\<in>set (map (\<lambda>x. if x = JNull \<or> x = JUndefined then Inr [] else toString x) xs).
          \<forall>e'. r = Inl e' \<longrightarrow> (\<exists>m. e' = TypeError m)"
    using "6.IH" by (auto split: if_splits)
  with fe show ?case by (rule first_error_TypeError)
next
  case (7 kvs)
  then show ?case by (auto split: if_splits)
qed simp_all

lemma get_property_TypeError: "get_property v key = Inl e \<Longrightarrow> \<exists>m. e = TypeError m"
  by (auto simp: get_property_def cannot_read_def split: if_splits)

lemma parse_string_ZodError: "parse_string checks v = Inl e \<Longrightarrow> is_ZodError e"
  by (auto simp: parse_string_def is_ZodError_def split: json.splits if_splits)

lemma categorySchema_ZodError: "categorySchema v = Inl e \<Longrightarrow> is_ZodError e"
  by (auto simp: categorySchema_def is_ZodError_def split: json.splits if_splits)

lemma try_throws_TypeError_or_ZodError:
  "handleGetMotionComponent_try now params c = (Inl e, c') \<Longrightarrow> (\<exists>m. e = TypeError m) \<or> is_ZodError e"
  "handleListMotionComponents_try now params c = (Inl e, c') \<Longrightarrow> (\<exists>m. e = TypeError m) \<or> is_ZodError e"
  "handleGetMotionExample_try now params c = (Inl e, c') \<Longrightarrow> (\<exists>m. e = TypeError m) \<or> is_ZodError e"
  "handleSearchMotionExamples_try now params c = (Inl e, c') \<Longrightarrow> (\<exists>m. e = TypeError m) \<or> is_ZodError e"
  "handleGetMotionDocs_try now today params c = (Inl e, c') \<Longrightarrow> (\<exists>m. e = TypeError m) \<or> is_ZodError e"
  by (auto simp: handleGetMotionComponent_try_def handleListMotionComponents_try_def
      handleGetMotionExample_try_def handleSearchMotionExamples_try_def handleGetMotionDocs_try_def
      componentNameSchema_def exampleTypeSchema_def searchQuerySchema_def topicSchema_def Let_def
      split: sum.splits prod.splits if_splits
      dest: toString_TypeError get_property_TypeError parse_string_ZodError categorySchema_ZodError)

text \<open>
  Claim C1, as amended. When the \<^verbatim>\<open>try\<close> block of a handler throws anything but a
  \<^verbatim>\<open>ZodError\<close>, the handler returns (it does not throw) the object with the handler's
  fixed \<^verbatim>\<open>error\<close> text and, under \<^verbatim>\<open>message\<close>, the message of the exception as it is,
  or \<^verbatim>\<open>Unknown error\<close> when what was thrown is not an \<^verbatim>\<open>Error\<close>. The cache is left as it
  was when the exception was thrown.
\<close>

theorem unexpected_error_result:
  "(handleGetMotionComponent_try now params c = (Inl e, c') \<and> \<not> is_ZodError e \<longrightarrow>
      handleGetMotionComponent now params c
        = (JObj [(''error'', JStr ''An error occurred while fetching component information''),
                 (''message'', JStr (error_message e))], c')) \<and>
   (handleListMotionComponents_try now params c = (Inl e, c') \<and> \<not> is_ZodError e \<longrightarrow>
      handleListMotionComponents now params c
        = (JObj [(''error'', JStr ''An error occurred while listing components''),
                 (''message'', JStr (error_message e))], c')) \<and>
   (handleGetMotionExample_try now params c = (Inl e, c') \<and> \<not> is_ZodError e \<longrightarrow>
      handleGetMotionExample now params c
        = (JObj [(''error'', JStr ''An error occurred while fetching example''),
                 (''message'', JStr (error_message e))], c')) \<and>
   (handleSearchMotionExamples_try now params c = (Inl e, c') \<and> \<not> is_ZodError e \<longrightarrow>
      handleSearchMotionExamples now params c
        = (JObj [(''error'', JStr ''An error occurred while searching examples''),
                 (''message'', JStr (error_message e))], c')) \<and>
   (handleGetMotionDocs_try now today params c = (Inl e, c') \<and> \<not> is_ZodError e \<longrightarrow>
      handleGetMotionDocs now today params c
        = (JObj [(''error'', JStr ''An error occurred while fetching documentation''),
                 (''message'', JStr (error_message e))], c'))"
  by (cases e)
     (simp_all add: handleGetMotionComponent_def handleListMotionComponents_def
        handleGetMotionExample_def handleSearchMotionExamples_def handleGetMotionDocs_def
        try_catch_def catch_block_def is_ZodError_def)

lemma list_unprintable_category:
  "handleListMotionComponents_try 1000 (JObj [(''category'', JObj [(''toString'', JNum 1)])]) Map.empty
     = (Inl (TypeError ''Cannot convert object to primitive value''), Map.empty)"
  by (simp add: handleListMotionComponents_try_def field_of_JObj Let_def)

lemma docs_null_params:
  "handleGetMotionDocs_try 1000 ''2026-11-03'' JNull Map.empty
     = (Inl (TypeError (''Cannot read properties of null (reading '' @ [CHR 0x27] @ ''topic''
                        @ [CHR 0x27] @ '')'')), Map.empty)"
  by (simp add: handleGetMotionDocs_try_def get_property_def cannot_read_def)

text \<open>
  Two calls whose \<^verbatim>\<open>try\<close> block throws a \<^verbatim>\<open>TypeError\<close>: a category that cannot be
  converted to a string, and \<^verbatim>\<open>null\<close> for the parameters.
\<close>

theorem unexpected_error_result_witness:
  "handleListMotionComponents 1000 (JObj [(''category'', JObj [(''toString'', JNum 1)])]) Map.empty
     = (JObj [(''error'', JStr ''An error occurred while listing components''),
              (''message'', JStr ''Cannot convert object to primitive value'')], Map.empty) \<and>
   handleGetMotionDocs 1000 ''2026-11-03'' JNull Map.empty
     = (JObj [(''error'', JStr ''An error occurred while fetching documentation''),
              (''message'', JStr (''Cannot read properties of null (reading '' @ [CHR 0x27]
                                  @ ''topic'' @ [CHR 0x27] @ '')''))], Map.empty)"
proof -
  have not_zod: "\<not> is_ZodError (TypeError m)" for m
    by (simp add: is_ZodError_def)
  have "handleListMotionComponents 1000 (JObj [(''category'', JObj [(''toString'', JNum 1)])]) Map.empty
     = (JObj [(''error'', JStr ''An error occurred while listing components''),
              (''message'', JStr (error_message (TypeError ''Cannot convert object to primitive value'')))],
        Map.empty)"
    using unexpected_error_result [THEN conjunct2, THEN conjunct1] list_unprintable_category not_zod
    by blast
  moreover have "handleGetMotionDocs 1000 ''2026-11-03'' JNull Map.empty
     = (JObj [(''error'', JStr ''An error occurred while fetching documentation''),
              (''message'', JStr (error_message (TypeError (''Cannot read properties of null (reading ''
                   @ [CHR 0x27] @ ''topic'' @ [CHR 0x27] @ '')''))))], Map.empty)"
    using unexpected_error_result [THEN conjunct2, THEN conjunct2, THEN conjunct2, THEN conjunct2]
      docs_null_params not_zod
    by blast
  ultimately show ?thesis by (simp add: error_message_def)
qed

text \<open>
  Claim C1 as stated says that the result does not contain the message of the internal
  exception. Called without parameters, get_motion_component reads a property of
  \<^verbatim>\<open>undefined\<close>; the \<^verbatim>\<open>TypeError\<close> of the engine is caught and its message is the
  \<^verbatim>\<open>message\<close> of the result.
\<close>

theorem unexpected_error_message_returned:
  "handleGetMotionComponent_try 1000 JUndefined Map.empty
     = (Inl (TypeError (''Cannot read properties of undefined (reading '' @ [CHR 0x27]
                        @ ''componentName'' @ [CHR 0x27] @ '')'')), Map.empty) \<and>
   field_of (fst (handleGetMotionComponent 1000 JUndefined Map.empty)) ''message''
     = JStr (''Cannot read properties of undefined (reading '' @ [CHR 0x27]
             @ ''componentName'' @ [CHR 0x27] @ '')'')"
  by (simp add: handleGetMotionComponent_def handleGetMotionComponent_try_def try_catch_def
      catch_block_def get_property_def cannot_read_def error_message_def field_of_JObj)

section \<open>Cache keys\<close>

lemma spring_button_text:
  "searchable_text SEARCHABLE_EXAMPLES_spring_button =
     (''spring button animation interactive button with spring physics on hover and tap button spring hover tap interactive gestures <motion.button\<newline>'' @
      ''  whilehover={{ scale: 1.05 }}\<newline>'' @
      ''  whiletap={{ scale: 0.95 }}\<newline>'' @
      ''  transition={{ type: '' @ [CHR 0x22] @ ''spring'' @ [CHR 0x22] @
      '', stiffness: 400, damping: 17 }}\<newline>'' @
      ''>\<newline>'' @
      ''  click me\<newline>'' @
      ''</motion.button>'')"
  by (simp add: searchable_text_def SEARCHABLE_EXAMPLES_spring_button_def field_of_JObj
      str_of_def strs_of_def toLowerCase_def is_upper_def)

lemma spring_button_matches:
  "matches [''spring'', ''button''] SEARCHABLE_EXAMPLES_spring_button"
  by (simp add: matches_def spring_button_text)

lemma spring_button_no_match:
  "\<not> matches [''spring-button''] SEARCHABLE_EXAMPLES_spring_button"
  by (simp add: matches_def spring_button_text)

lemma set_search_results:
  "set (search_results searchTerms) = {example \<in> set SEARCHABLE_EXAMPLES. matches searchTerms example}"
  by (force simp: search_results_def)

lemma search_result_query: "field_of (search_result query) ''query'' = JStr query"
  by (simp add: search_result_def Let_def field_of_JObj)

lemma search_spring_button:
  "handleSearchMotionExamples 1000 (JObj [(''query'', JStr ''spring button'')]) Map.empty
     = (search_result ''spring button'',
        cache_set 1000 Map.empty ''motion-search-spring-button''
          (search_result ''spring button'') (Some 300000))"
  by (simp add: Let_def handleSearchMotionExamples_def handleSearchMotionExamples_try_def
      try_catch_def get_property_def field_of_JObj searchQuerySchema_def parse_string_def
      min_length_def max_length_def search_cache_key_def toLowerCase_def is_upper_def
      is_whitespace_def)

lemma search_spring_hyphen_button:
  "handleSearchMotionExamples 2000 (JObj [(''query'', JStr ''spring-button'')])
      (cache_set 1000 Map.empty ''motion-search-spring-button''
          (search_result ''spring button'') (Some 300000))
     = (search_result ''spring button'',
        cache_set 1000 Map.empty ''motion-search-spring-button''
          (search_result ''spring button'') (Some 300000))"
  "handleSearchMotionExamples 2000 (JObj [(''query'', JStr ''spring-button'')]) Map.empty
     = (search_result ''spring-button'',
        cache_set 2000 Map.empty ''motion-search-spring-button''
          (search_result ''spring-button'') (Some 300000))"
  by (simp_all add: Let_def handleSearchMotionExamples_def handleSearchMotionExamples_try_def
      try_catch_def get_property_def field_of_JObj searchQuerySchema_def parse_string_def
      min_length_def max_length_def search_cache_key_def toLowerCase_def is_upper_def
      is_whitespace_def ttl_or_default_def)

text \<open>
  Claim C2 says that two requests that can produce different results have different cache
  keys, and for the search tool that queries whose search differs have different keys.
  The queries \<^verbatim>\<open>spring button\<close> and \<^verbatim>\<open>spring-button\<close> have the same key. Their search
  terms differ; the example \<^verbatim>\<open>spring-button\<close> is among the results of the first and not
  of the second; on an empty cache the second query returns its own result, and after a
  call with the first query it returns the result stored for the first.
\<close>

theorem search_cache_key_collision:
  "search_cache_key ''spring button'' = search_cache_key ''spring-button'' \<and>
   search_terms ''spring button'' = [''spring'', ''button''] \<and>
   search_terms ''spring-button'' = [''spring-button''] \<and>
   SEARCHABLE_EXAMPLES_spring_button \<in> set (search_results (search_terms ''spring button'')) \<and>
   SEARCHABLE_EXAMPLES_spring_button \<notin> set (search_results (search_terms ''spring-button'')) \<and>
   fst (handleSearchMotionExamples 2000 (JObj [(''query'', JStr ''spring-button'')]) Map.empty)
     = search_result ''spring-button'' \<and>
   fst (handleSearchMotionExamples 2000 (JObj [(''query'', JStr ''spring-button'')])
          (snd (handleSearchMotionExamples 1000 (JObj [(''query'', JStr ''spring button'')]) Map.empty)))
     = search_result ''spring button'' \<and>
   search_result ''spring button'' \<noteq> search_result ''spring-button''"
proof -
  have keys: "search_cache_key ''spring button'' = search_cache_key ''spring-button''"
    by (simp add: search_cache_key_def toLowerCase_def is_upper_def is_whitespace_def)
  have terms: "search_terms ''spring button'' = [''spring'', ''button'']"
    "search_terms ''spring-button'' = [''spring-button'']"
    by (simp_all add: search_terms_def toLowerCase_def is_upper_def is_whitespace_def
        split_whitespace.simps)
  have listed: "SEARCHABLE_EXAMPLES_spring_button \<in> set SEARCHABLE_EXAMPLES"
    by (simp add: SEARCHABLE_EXAMPLES_def)
  have found: "SEARCHABLE_EXAMPLES_spring_button \<in> set (search_results [''spring'', ''button''])"
    using listed spring_button_matches by (simp add: set_search_results)
  have missed: "SEARCHABLE_EXAMPLES_spring_button \<notin> set (search_results [''spring-button''])"
    using spring_button_no_match by (simp add: set_search_results)
  have differ: "search_result ''spring button'' \<noteq> search_result ''spring-button''"
  proof
    assume "search_result ''spring button'' = search_result ''spring-button''"
    then have "field_of (search_result ''spring button'') ''query''
        = field_of (search_result ''spring-button'') ''query''"
      by simp
    then show False by (simp add: search_result_query)
  qed
  show ?thesis
    unfolding terms search_spring_button snd_conv search_spring_hyphen_button fst_conv
    using keys found missed differ by simp
qed

text \<open>The list tool: the key of a call without category is that of the category
  \<^verbatim>\<open>all\<close>, which the schema rejects on an empty cache and which is served the full
  listing after a call without category.\<close>

lemma list_all_collision:
  "handleListMotionComponents 2000 (JObj [(''category'', JStr ''all'')]) Map.empty
     = (JObj [(''error'', JStr ''Invalid parameters''),
              (''details'',
               JArr [JObj [(''code'', JStr ''custom''), (''message'', JStr ''Invalid category''),
                           (''path'', JArr [])]])], Map.empty)"
  "handleListMotionComponents 2000 (JObj [(''category'', JStr ''all'')])
      (snd (handleListMotionComponents 1000 (JObj []) Map.empty))
     = (list_of_all, snd (handleListMotionComponents 1000 (JObj []) Map.empty))"
  by (simp_all add: Let_def handleListMotionComponents_def handleListMotionComponents_try_def
      try_catch_def catch_block_def field_of_JObj categorySchema_def categories_def
      custom_issue_def ttl_or_default_def)

end
